theory Spec2Isabelle
  imports Main "HOL-Library.Multiset" "HOL-Library.AList"
begin

section \<open>Exceptions\<close>

text \<open>
  The commands of \<^verbatim>\<open>custom.py\<close> either hand a request to the management client or
  raise. A raise is a value \<open>Inl e\<close> of a sum type; \<open>CLIError\<close> carries its message,
  the other constructors are the built-in exceptions that the interpreter raises by
  itself (iterating \<^verbatim>\<open>None\<close>, a missing dictionary key, a failed \<^verbatim>\<open>assert\<close>, ...).
\<close>

datatype error =
    CLIError string
  | TypeError
  | KeyError string
  | IndexError
  | AttributeError
  | StopIteration
  | AssertionError

section \<open>Dynamic values and their rendering\<close>

text \<open>
  Attribute and dictionary values whose type the source does not fix: \<^verbatim>\<open>None\<close>,
  integers, strings, lists, and an opaque object known only by its address (the
  \<^verbatim>\<open>sentinel = object()\<close> of \<^verbatim>\<open>dict_matches_filter\<close>). On these values Python's
  \<^verbatim>\<open>==\<close> is structural equality.
\<close>

datatype pyval =
    PNone
  | PInt int
  | PStr string
  | PList "pyval list"
  | PObject nat

text \<open>Digits of a natural number in base 10 and base 16.\<close>

definition digit_char :: "nat \<Rightarrow> char" where
  "digit_char d = (if d < 10 then char_of (48 + d) else char_of (87 + d))"

fun dec_digits :: "nat \<Rightarrow> string" where
  "dec_digits n =
     (if n < 10 then [digit_char n] else dec_digits (n div 10) @ [digit_char (n mod 10)])"

declare dec_digits.simps [simp del]

fun hex_digits :: "nat \<Rightarrow> string" where
  "hex_digits n =
     (if n < 16 then [digit_char n] else hex_digits (n div 16) @ [digit_char (n mod 16)])"

declare hex_digits.simps [simp del]

definition str_int :: "int \<Rightarrow> string" where
  "str_int i = (if i < 0 then CHR ''-'' # dec_digits (nat (- i)) else dec_digits (nat i))"

text \<open>
  \<^verbatim>\<open>repr\<close> of a string of ASCII characters: double quotes when the string holds a
  single quote and no double quote, single quotes otherwise; the backslash, the chosen
  quote and the control characters are escaped.
\<close>

definition repr_char :: "char \<Rightarrow> char \<Rightarrow> string" where
  "repr_char q c =
     (let n = (of_char c :: nat) in
      if c = CHR 0x5C then [CHR 0x5C, CHR 0x5C]
      else if c = q then [CHR 0x5C, q]
      else if n = 10 then [CHR 0x5C, CHR ''n'']
      else if n = 13 then [CHR 0x5C, CHR ''r'']
      else if n = 9 then [CHR 0x5C, CHR ''t'']
      else if n < 32 \<or> 127 \<le> n
        then [CHR 0x5C, CHR ''x'', digit_char (n div 16), digit_char (n mod 16)]
      else [c])"

definition repr_str :: "string \<Rightarrow> string" where
  "repr_str s =
     (let q = (if CHR 0x27 \<in> set s \<and> CHR 0x22 \<notin> set s then CHR 0x22 else CHR 0x27)
      in q # concat (map (repr_char q) s) @ [q])"

fun join :: "string \<Rightarrow> string list \<Rightarrow> string" where
  "join sep [] = []"
| "join sep [x] = x"
| "join sep (x # y # ys) = x @ sep @ join sep (y # ys)"

text \<open>\<^verbatim>\<open>str(v)\<close> and \<^verbatim>\<open>repr(v)\<close>; they differ on strings only.\<close>

fun py_str :: "pyval \<Rightarrow> string"
  and py_repr :: "pyval \<Rightarrow> string" where
  "py_str PNone = ''None''"
| "py_str (PInt i) = str_int i"
| "py_str (PStr s) = s"
| "py_str (PList xs) = ''['' @ join '', '' (map py_repr xs) @ '']''"
| "py_str (PObject a) = ''<object object at 0x'' @ hex_digits a @ ''>''"
| "py_repr PNone = ''None''"
| "py_repr (PInt i) = str_int i"
| "py_repr (PStr s) = repr_str s"
| "py_repr (PList xs) = ''['' @ join '', '' (map py_repr xs) @ '']''"
| "py_repr (PObject a) = ''<object object at 0x'' @ hex_digits a @ ''>''"

text \<open>\<^verbatim>\<open>str(x)\<close> of an optional string, as \<^verbatim>\<open>'{}'.format(x)\<close> renders it.\<close>

definition str_opt :: "string option \<Rightarrow> string" where
  "str_opt s = (case s of None \<Rightarrow> ''None'' | Some t \<Rightarrow> t)"

text \<open>\<^verbatim>\<open>s.rstrip('.')\<close>: the string without its trailing dots.\<close>

definition rstrip_dot :: "string \<Rightarrow> string" where
  "rstrip_dot s = rev (dropWhile (\<lambda>c. c = CHR ''.'') (rev s))"

text \<open>
  \<^verbatim>\<open>str.lower()\<close> on the ASCII letters.
\<close>

definition lower_char :: "char \<Rightarrow> char" where
  "lower_char c =
     (if 65 \<le> (of_char c :: nat) \<and> (of_char c :: nat) \<le> 90
      then char_of ((of_char c :: nat) + 32) else c)"

definition lower :: "string \<Rightarrow> string" where
  "lower s = map lower_char s"

text \<open>
  \<^verbatim>\<open>s.rsplit('/', 1)[1]\<close>: the part after the last slash, \<^verbatim>\<open>IndexError\<close> when the
  string has no slash.
\<close>

definition after_last_slash :: "string \<Rightarrow> error + string" where
  "after_last_slash s =
     (if CHR ''/'' \<in> set s then Inr (rev (takeWhile (\<lambda>c. c \<noteq> CHR ''/'') (rev s)))
      else Inl IndexError)"

text \<open>
  Dictionaries with string keys are association lists in insertion order;
  \<^verbatim>\<open>d[k] = v\<close> is \<^const>\<open>AList.update\<close> (the key keeps its place, a new key goes to the
  end) and \<^verbatim>\<open>d[k]\<close> raises \<^verbatim>\<open>KeyError\<close> on a missing key.
\<close>

definition dict_item :: "(string \<times> 'v) list \<Rightarrow> string \<Rightarrow> error + 'v" where
  "dict_item d k = (case map_of d k of None \<Rightarrow> Inl (KeyError k) | Some v \<Rightarrow> Inr v)"

text \<open>The items of several keys in turn; the first missing key raises.\<close>

fun dict_items :: "(string \<times> 'v) list \<Rightarrow> string list \<Rightarrow> error + 'v list" where
  "dict_items d [] = Inr []"
| "dict_items d (k # ks) =
     (case dict_item d k of
        Inl e \<Rightarrow> Inl e
      | Inr v \<Rightarrow> (case dict_items d ks of Inl e \<Rightarrow> Inl e | Inr vs \<Rightarrow> Inr (v # vs)))"

section \<open>The list-keyed upsert\<close>

text \<open>
  \<^verbatim>\<open>_upsert(collection, obj, key_name, key_value)\<close>. The reflective read
  \<^verbatim>\<open>getattr(x, key_name, None)\<close> is the accessor function \<open>key_name\<close>, whose result
  type has a value for \<^verbatim>\<open>None\<close> (every caller passes \<^verbatim>\<open>'name'\<close>). The collection is
  mutated in place in the source; the model returns the new list together with the
  records handed to \<^verbatim>\<open>logger.warning\<close> (format string and argument).

  \<^verbatim>\<open>next(...)\<close> yields the first entry with the key, \<^verbatim>\<open>if match:\<close> is true for every
  object found (SDK model objects define neither \<^verbatim>\<open>__bool__\<close> nor \<^verbatim>\<open>__len__\<close>), and
  \<^verbatim>\<open>collection.remove(match)\<close> deletes the first entry equal to it.
\<close>

definition upsert ::
  "'a list \<Rightarrow> 'a \<Rightarrow> ('a \<Rightarrow> 'k) \<Rightarrow> 'k \<Rightarrow> 'a list \<times> (string \<times> 'k) list" where
  "upsert collection obj key_name key_value =
     (case find (\<lambda>x. key_name x = key_value) collection of
        Some match \<Rightarrow>
          (remove1 match collection @ [obj],
           [(''Item '%s' already exists. Replacing with new values.'', key_value)])
      | None \<Rightarrow> (collection @ [obj], []))"

text \<open>The single and the double quote character of the messages.\<close>

definition squote :: string where
  "squote = [CHR 0x27]"

definition dquote :: string where
  "dquote = [CHR 0x22]"

text \<open>Python truthiness of an optional string: neither \<^verbatim>\<open>None\<close> nor empty.\<close>

definition truthy :: "string option \<Rightarrow> bool" where
  "truthy s = (case s of None \<Rightarrow> False | Some t \<Rightarrow> t \<noteq> [])"

section \<open>Sub-resources and their parents\<close>

text \<open>
  Every sub-resource of the SDK carries an \<^verbatim>\<open>id\<close> and a \<^verbatim>\<open>name\<close>, both possibly
  \<^verbatim>\<open>None\<close>; the classes below extend this base record with the attributes that the
  modelled commands read or write. A collection attribute is a list, except where the
  source itself tests it for \<^verbatim>\<open>None\<close>; then it is an optional list.
\<close>

record child_resource =
  res_id :: "string option"
  name :: "string option"

datatype sub_resource = SubResource "string option"

subsection \<open>Application gateway\<close>

record application_gateway_http_listener = child_resource +
  frontend_ip_configuration :: sub_resource
  frontend_port :: sub_resource
  host_name :: "string option"
  require_server_name_indication :: "bool option"
  listener_protocol :: string
  ssl_certificate :: "sub_resource option"

record application_gateway_path_rule = child_resource +
  paths :: "string list"
  backend_address_pool :: sub_resource
  backend_http_settings :: sub_resource

record application_gateway_url_path_map = child_resource +
  default_backend_address_pool :: "sub_resource option"
  default_backend_http_settings :: "sub_resource option"
  path_rules :: "application_gateway_path_rule list"

record application_gateway =
  http_listeners :: "application_gateway_http_listener list"
  url_path_maps :: "application_gateway_url_path_map list"

text \<open>
  The commands fetch the parent with \<^verbatim>\<open>ncf...get(...)\<close>, change it and pass it to
  \<^verbatim>\<open>create_or_update\<close>. In the model the fetched parent is an argument and the result
  \<open>Inr p\<close> is the parent \<open>p\<close> that is submitted; \<open>Inl e\<close> is an exception raised before
  anything is submitted.
\<close>

definition new_http_listener ::
  "string \<Rightarrow> string \<Rightarrow> string \<Rightarrow> string option \<Rightarrow> string option
     \<Rightarrow> application_gateway_http_listener" where
  "new_http_listener item_name frontend_ip frontend_port0 host_name0 ssl_cert =
     \<lparr> res_id = None,
       name = Some item_name,
       frontend_ip_configuration = SubResource (Some frontend_ip),
       frontend_port = SubResource (Some frontend_port0),
       host_name = host_name0,
       require_server_name_indication =
         (if truthy ssl_cert \<and> truthy host_name0 then Some True else None),
       listener_protocol = (if truthy ssl_cert then ''https'' else ''http''),
       ssl_certificate = (if truthy ssl_cert then Some (SubResource ssl_cert) else None) \<rparr>"

definition create_ag_http_listener ::
  "application_gateway \<Rightarrow> string \<Rightarrow> string \<Rightarrow> string \<Rightarrow> string option \<Rightarrow> string option
     \<Rightarrow> error + application_gateway" where
  "create_ag_http_listener ag item_name frontend_ip frontend_port0 host_name0 ssl_cert =
     (let new_listener = new_http_listener item_name frontend_ip frontend_port0 host_name0 ssl_cert
      in Inr (ag \<lparr> http_listeners :=
                 fst (upsert (http_listeners ag) new_listener name (Some item_name)) \<rparr>))"

text \<open>\<^verbatim>\<open>url_map.default_backend_address_pool.id\<close>: reading \<^verbatim>\<open>id\<close> of \<^verbatim>\<open>None\<close> raises.\<close>

definition sub_resource_id :: "sub_resource option \<Rightarrow> error + string option" where
  "sub_resource_id r = (case r of None \<Rightarrow> Inl AttributeError | Some (SubResource i) \<Rightarrow> Inr i)"

text \<open>
  The index of the first entry that satisfies a predicate: the position at which an
  object found by \<^verbatim>\<open>next(...)\<close> sits in its list, where later assignments to its
  attributes take effect.
\<close>

fun find_index_from :: "('a \<Rightarrow> bool) \<Rightarrow> 'a list \<Rightarrow> nat \<Rightarrow> nat option" where
  "find_index_from P [] i = None"
| "find_index_from P (x # xs) i = (if P x then Some i else find_index_from P xs (Suc i))"

definition create_ag_url_path_map_rule ::
  "application_gateway \<Rightarrow> string \<Rightarrow> string \<Rightarrow> string list \<Rightarrow> string option \<Rightarrow> string option
     \<Rightarrow> error + application_gateway" where
  "create_ag_url_path_map_rule ag url_path_map_name item_name paths0 address_pool http_settings =
     (case find_index_from (\<lambda>x. name x = Some url_path_map_name) (url_path_maps ag) 0 of
        None \<Rightarrow>
          Inl (CLIError (''URL path map '' @ dquote @ url_path_map_name @ dquote
                 @ '' not found.''))
      | Some i \<Rightarrow>
          (let url_map = url_path_maps ag ! i in
           case (if truthy address_pool then Inr address_pool
                 else sub_resource_id (default_backend_address_pool url_map)) of
             Inl e \<Rightarrow> Inl e
           | Inr pool \<Rightarrow>
               (case (if truthy http_settings then Inr http_settings
                      else sub_resource_id (default_backend_http_settings url_map)) of
                  Inl e \<Rightarrow> Inl e
                | Inr settings \<Rightarrow>
                    (let new_rule =
                       \<lparr> res_id = None,
                         name = Some item_name,
                         paths = paths0,
                         backend_address_pool = SubResource pool,
                         backend_http_settings = SubResource settings \<rparr>;
                         url_map' = url_map \<lparr> path_rules :=
                           fst (upsert (path_rules url_map) new_rule name (Some item_name)) \<rparr>
                     in Inr (ag \<lparr> url_path_maps := (url_path_maps ag) [i := url_map'] \<rparr>)))))"

subsection \<open>Load balancer\<close>

text \<open>
  Modelled from the spec: \<^verbatim>\<open>_get_property\<close> of \<^verbatim>\<open>_util.py\<close>, which is not among the
  sources. The specification says that the property getter looks up a named element in a
  collection by attribute match and raises a client error when it is absent; it gives no
  message text, so the message is taken as an argument.
\<close>

definition get_property ::
  "string \<Rightarrow> ('a child_resource_scheme) list \<Rightarrow> string \<Rightarrow> error + 'a child_resource_scheme" where
  "get_property msg items item_name =
     (case find (\<lambda>x. name x = Some item_name) items of
        None \<Rightarrow> Inl (CLIError msg)
      | Some x \<Rightarrow> Inr x)"

record load_balancing_rule = child_resource +
  rule_protocol :: string
  rule_frontend_port :: int
  rule_backend_port :: int
  rule_frontend_ip_configuration :: child_resource
  rule_backend_address_pool :: child_resource
  probe :: "child_resource option"
  load_distribution :: string
  enable_floating_ip :: bool
  idle_timeout_in_minutes :: "int option"

record load_balancer =
  frontend_ip_configurations :: "child_resource list"
  backend_address_pools :: "child_resource list"
  probes :: "child_resource list"
  load_balancing_rules :: "load_balancing_rule list"

definition new_lb_rule ::
  "string \<Rightarrow> string \<Rightarrow> int \<Rightarrow> int \<Rightarrow> child_resource \<Rightarrow> child_resource
     \<Rightarrow> child_resource option \<Rightarrow> string \<Rightarrow> string \<Rightarrow> int option \<Rightarrow> load_balancing_rule" where
  "new_lb_rule item_name protocol0 frontend_port0 backend_port0 fip pool prb load_distribution0
       floating_ip idle_timeout =
     \<lparr> res_id = None,
       name = Some item_name,
       rule_protocol = protocol0,
       rule_frontend_port = frontend_port0,
       rule_backend_port = backend_port0,
       rule_frontend_ip_configuration = fip,
       rule_backend_address_pool = pool,
       probe = prb,
       load_distribution = load_distribution0,
       enable_floating_ip = (floating_ip = ''true''),
       idle_timeout_in_minutes = idle_timeout \<rparr>"

definition create_lb_rule ::
  "string \<Rightarrow> load_balancer \<Rightarrow> string \<Rightarrow> string \<Rightarrow> int \<Rightarrow> int \<Rightarrow> string \<Rightarrow> string
     \<Rightarrow> string option \<Rightarrow> string \<Rightarrow> string \<Rightarrow> int option \<Rightarrow> error + load_balancer" where
  "create_lb_rule msg lb item_name protocol0 frontend_port0 backend_port0 frontend_ip_name
       backend_address_pool_name probe_name load_distribution0 floating_ip idle_timeout =
     (case get_property msg (frontend_ip_configurations lb) frontend_ip_name of
        Inl e \<Rightarrow> Inl e
      | Inr fip \<Rightarrow>
     (case get_property msg (backend_address_pools lb) backend_address_pool_name of
        Inl e \<Rightarrow> Inl e
      | Inr pool \<Rightarrow>
     (case (case probe_name of
              None \<Rightarrow> Inr None
            | Some pn \<Rightarrow>
                if pn = [] then Inr None
                else map_sum (\<lambda>e. e) Some (get_property msg (probes lb) pn)) of
        Inl e \<Rightarrow> Inl e
      | Inr prb \<Rightarrow>
          (let new_rule = new_lb_rule item_name protocol0 frontend_port0 backend_port0 fip pool prb
                            load_distribution0 floating_ip idle_timeout
           in Inr (lb \<lparr> load_balancing_rules :=
                fst (upsert (load_balancing_rules lb) new_rule name (Some item_name)) \<rparr>)))))"

subsection \<open>Network interface\<close>

datatype subnet = Subnet "string option"

datatype public_ip_address = PublicIPAddress "string option"

record network_interface_ip_configuration = child_resource +
  ip_subnet :: "subnet option"
  ip_public_ip_address :: "public_ip_address option"
  load_balancer_backend_address_pools :: "child_resource list option"
  load_balancer_inbound_nat_rules :: "child_resource list option"
  private_ip_address :: "string option"
  private_ip_allocation_method :: "string option"
  private_ip_address_version :: "string option"
  primary :: "bool option"

record network_interface =
  ip_configurations :: "network_interface_ip_configuration list"

definition new_nic_ip_config ::
  "string \<Rightarrow> string option \<Rightarrow> string option
     \<Rightarrow> child_resource list option \<Rightarrow> child_resource list option
     \<Rightarrow> string option \<Rightarrow> string option \<Rightarrow> string option \<Rightarrow> bool
     \<Rightarrow> network_interface_ip_configuration" where
  "new_nic_ip_config ip_config_name subnet1 public_ip_address0
       load_balancer_backend_address_pool_ids load_balancer_inbound_nat_rule_ids
       private_ip_address0 private_ip_address_allocation private_ip_address_version0
       make_primary =
     \<lparr> res_id = None,
       name = Some ip_config_name,
       ip_subnet = (if truthy subnet1 then Some (Subnet subnet1) else None),
       ip_public_ip_address =
         (if truthy public_ip_address0 then Some (PublicIPAddress public_ip_address0) else None),
       load_balancer_backend_address_pools = load_balancer_backend_address_pool_ids,
       load_balancer_inbound_nat_rules = load_balancer_inbound_nat_rule_ids,
       private_ip_address = private_ip_address0,
       private_ip_allocation_method = private_ip_address_allocation,
       private_ip_address_version = private_ip_address_version0,
       primary = Some make_primary \<rparr>"

text \<open>
  The subnet that \<^verbatim>\<open>create_nic_ip_config\<close> uses: for an IPv4 configuration without a
  subnet, the subnet id of the first primary configuration
  (\<^verbatim>\<open>next(x for x in nic.ip_configurations if x.primary)\<close> raises \<^verbatim>\<open>StopIteration\<close>
  when there is none, and \<^verbatim>\<open>primary_config.subnet.id\<close> raises when it has no subnet).
\<close>

definition nic_default_subnet ::
  "network_interface \<Rightarrow> string option \<Rightarrow> string option \<Rightarrow> error + string option" where
  "nic_default_subnet nic private_ip_address_version0 subnet0 =
     (if private_ip_address_version0 = Some ''ipv4'' \<and> \<not> truthy subnet0
      then (case find (\<lambda>x. primary x = Some True) (ip_configurations nic) of
              None \<Rightarrow> Inl StopIteration
            | Some primary_config \<Rightarrow>
                (case ip_subnet primary_config of
                   None \<Rightarrow> Inl AttributeError
                 | Some (Subnet i) \<Rightarrow> Inr i))
      else Inr subnet0)"

definition create_nic_ip_config ::
  "network_interface \<Rightarrow> string \<Rightarrow> string option \<Rightarrow> string option
     \<Rightarrow> child_resource list option \<Rightarrow> child_resource list option
     \<Rightarrow> string option \<Rightarrow> string option \<Rightarrow> string option \<Rightarrow> bool
     \<Rightarrow> error + network_interface" where
  "create_nic_ip_config nic ip_config_name subnet0 public_ip_address0
       load_balancer_backend_address_pool_ids load_balancer_inbound_nat_rule_ids
       private_ip_address0 private_ip_address_allocation private_ip_address_version0
       make_primary =
     (case nic_default_subnet nic private_ip_address_version0 subnet0 of
        Inl e \<Rightarrow> Inl e
      | Inr subnet1 \<Rightarrow>
          (let configs =
                 (if make_primary
                  then map (\<lambda>config. config \<lparr> primary := Some False \<rparr>) (ip_configurations nic)
                  else ip_configurations nic);
               new_config = new_nic_ip_config ip_config_name subnet1 public_ip_address0
                              load_balancer_backend_address_pool_ids
                              load_balancer_inbound_nat_rule_ids private_ip_address0
                              private_ip_address_allocation private_ip_address_version0
                              make_primary
           in Inr (nic \<lparr> ip_configurations :=
                     fst (upsert configs new_config name (Some ip_config_name)) \<rparr>)))"

text \<open>
  The search \<^verbatim>\<open>next((x for x in xs if x.name.lower() == n.lower()), None)\<close>: the index
  of the first entry whose lower-cased name is the lower-cased \<open>n\<close>; an entry without a
  name that is reached before raises \<^verbatim>\<open>AttributeError\<close> (\<^verbatim>\<open>None\<close> has no \<^verbatim>\<open>lower\<close>).
\<close>

fun find_by_lower_name ::
  "('a child_resource_scheme) list \<Rightarrow> string \<Rightarrow> nat \<Rightarrow> error + nat option" where
  "find_by_lower_name [] n i = Inr None"
| "find_by_lower_name (x # xs) n i =
     (case name x of
        None \<Rightarrow> Inl AttributeError
      | Some m \<Rightarrow> if lower m = lower n then Inr (Some i) else find_by_lower_name xs n (Suc i))"

definition remove_nic_ip_config_address_pool ::
  "network_interface \<Rightarrow> string \<Rightarrow> string \<Rightarrow> error + network_interface" where
  "remove_nic_ip_config_address_pool nic ip_config_name backend_address_pool0 =
     (case find_by_lower_name (ip_configurations nic) ip_config_name 0 of
        Inl e \<Rightarrow> Inl e
      | Inr None \<Rightarrow> Inl (CLIError (''IP configuration '' @ ip_config_name @ '' not found.''))
      | Inr (Some i) \<Rightarrow>
          (let ip_config = ip_configurations nic ! i;
               keep_items =
                 filter (\<lambda>x. res_id x \<noteq> Some backend_address_pool0)
                   (case load_balancer_backend_address_pools ip_config of
                      None \<Rightarrow> [] | Some ps \<Rightarrow> ps);
               ip_config' = ip_config \<lparr> load_balancer_backend_address_pools := Some keep_items \<rparr>
           in Inr (nic \<lparr> ip_configurations := (ip_configurations nic) [i := ip_config'] \<rparr>)))"

subsection \<open>Virtual network gateway\<close>

record vpn_client_root_certificate = child_resource +
  public_cert_data :: "string option"

record vpn_client_configuration =
  vpn_client_root_certificates :: "vpn_client_root_certificate list option"

record virtual_network_gateway =
  vpn_client_config :: "vpn_client_configuration option"

definition new_root_cert :: "string \<Rightarrow> string \<Rightarrow> vpn_client_root_certificate" where
  "new_root_cert cert_name public_cert_data0 =
     \<lparr> res_id = None, name = Some cert_name, public_cert_data = Some public_cert_data0 \<rparr>"

definition create_vnet_gateway_root_cert ::
  "virtual_network_gateway \<Rightarrow> string \<Rightarrow> string \<Rightarrow> string \<Rightarrow> error + virtual_network_gateway" where
  "create_vnet_gateway_root_cert gateway gateway_name public_cert_data0 cert_name =
     (case vpn_client_config gateway of
        None \<Rightarrow>
          Inl (CLIError (''Must add address prefixes to gateway '' @ squote @ gateway_name
                 @ squote @ '' prior to adding a root cert.''))
      | Some config \<Rightarrow>
          (let certs = (case vpn_client_root_certificates config of None \<Rightarrow> [] | Some cs \<Rightarrow> cs);
               cert = new_root_cert cert_name public_cert_data0
           in Inr (gateway \<lparr> vpn_client_config := Some (config
                \<lparr> vpn_client_root_certificates :=
                    Some (fst (upsert certs cert name (Some cert_name))) \<rparr>) \<rparr>)))"

text \<open>
  \<^verbatim>\<open>delete_vnet_gateway_root_cert\<close>. Inside the \<^verbatim>\<open>try\<close>, reading
  \<^verbatim>\<open>config.vpn_client_root_certificates\<close> of a missing configuration raises
  \<^verbatim>\<open>AttributeError\<close> and an exhausted search raises \<^verbatim>\<open>StopIteration\<close>; both are
  caught and turned into the \<^verbatim>\<open>CLIError\<close>. Iterating a certificate list that is
  \<^verbatim>\<open>None\<close> raises \<^verbatim>\<open>TypeError\<close>, which the \<^verbatim>\<open>except\<close> clause does not name.
\<close>

definition delete_vnet_gateway_root_cert ::
  "virtual_network_gateway \<Rightarrow> string \<Rightarrow> string \<Rightarrow> error + virtual_network_gateway" where
  "delete_vnet_gateway_root_cert gateway gateway_name cert_name =
     (let not_found = CLIError (''Certificate '' @ dquote @ cert_name @ dquote
                                  @ '' not found in gateway '' @ dquote @ gateway_name @ dquote)
      in case vpn_client_config gateway of
        None \<Rightarrow> Inl not_found
      | Some config \<Rightarrow>
          (case vpn_client_root_certificates config of
             None \<Rightarrow> Inl TypeError
           | Some certs \<Rightarrow>
               (case find (\<lambda>c. name c = Some cert_name) certs of
                  None \<Rightarrow> Inl not_found
                | Some cert \<Rightarrow>
                    Inr (gateway \<lparr> vpn_client_config := Some (config
                       \<lparr> vpn_client_root_certificates := Some (remove1 cert certs) \<rparr>) \<rparr>))))"

text \<open>
  The root certificates of a gateway as a list: empty when the gateway has no client
  configuration or the configuration has no certificate list.
\<close>

definition gateway_root_certs :: "virtual_network_gateway \<Rightarrow> vpn_client_root_certificate list" where
  "gateway_root_certs gateway =
     (case vpn_client_config gateway of
        None \<Rightarrow> []
      | Some config \<Rightarrow> (case vpn_client_root_certificates config of None \<Rightarrow> [] | Some cs \<Rightarrow> cs))"

section \<open>Selective updates of a fetched instance\<close>

text \<open>
  \<^verbatim>\<open>update_nsg_rule\<close> and \<^verbatim>\<open>update_route\<close> receive the instance fetched by the generic
  update machinery and return it changed. An argument left out is \<^verbatim>\<open>None\<close>. The
  records are extensible: the attributes of the SDK classes that the functions never
  touch are the \<open>more\<close> part of the record.
\<close>

record security_rule = child_resource +
  protocol :: "string option"
  source_address_prefix :: "string option"
  destination_address_prefix :: "string option"
  access :: "string option"
  direction :: "string option"
  description :: "string option"
  source_port_range :: "string option"
  destination_port_range :: "string option"
  priority :: "int option"

definition update_nsg_rule ::
  "'a security_rule_scheme \<Rightarrow> string option \<Rightarrow> string option \<Rightarrow> string option
     \<Rightarrow> string option \<Rightarrow> string option \<Rightarrow> string option \<Rightarrow> string option
     \<Rightarrow> string option \<Rightarrow> int option \<Rightarrow> 'a security_rule_scheme" where
  "update_nsg_rule instance0 protocol0 source_address_prefix0 destination_address_prefix0
       access0 direction0 description0 source_port_range0 destination_port_range0 priority0 =
     (let i1 = instance0 \<lparr> protocol :=
                 (if protocol0 \<noteq> None then protocol0 else protocol instance0) \<rparr>;
          i2 = i1 \<lparr> source_address_prefix :=
                 (if source_address_prefix0 \<noteq> None then source_address_prefix0
                  else source_address_prefix i1) \<rparr>;
          i3 = i2 \<lparr> destination_address_prefix :=
                 (if destination_address_prefix0 \<noteq> None then destination_address_prefix0
                  else destination_address_prefix i2) \<rparr>;
          i4 = i3 \<lparr> access := (if access0 \<noteq> None then access0 else access i3) \<rparr>;
          i5 = i4 \<lparr> direction := (if direction0 \<noteq> None then direction0 else direction i4) \<rparr>;
          i6 = i5 \<lparr> description :=
                 (if description0 \<noteq> None then description0 else description i5) \<rparr>;
          i7 = i6 \<lparr> source_port_range :=
                 (if source_port_range0 \<noteq> None then source_port_range0
                  else source_port_range i6) \<rparr>;
          i8 = i7 \<lparr> destination_port_range :=
                 (if destination_port_range0 \<noteq> None then destination_port_range0
                  else destination_port_range i7) \<rparr>;
          i9 = i8 \<lparr> priority := (if priority0 \<noteq> None then priority0 else priority i8) \<rparr>
      in i9)"

record route = child_resource +
  address_prefix :: "string option"
  next_hop_type :: "string option"
  next_hop_ip_address :: "string option"

definition update_route ::
  "'a route_scheme \<Rightarrow> string option \<Rightarrow> string option \<Rightarrow> string option \<Rightarrow> 'a route_scheme" where
  "update_route instance0 address_prefix0 next_hop_type0 next_hop_ip_address0 =
     (let i1 = (if address_prefix0 \<noteq> None
                then instance0 \<lparr> address_prefix := address_prefix0 \<rparr> else instance0);
          i2 = (if next_hop_type0 \<noteq> None
                then i1 \<lparr> next_hop_type := next_hop_type0 \<rparr> else i1);
          i3 = (if next_hop_ip_address0 \<noteq> None
                then i2 \<lparr> next_hop_ip_address := next_hop_ip_address0 \<rparr> else i2)
      in i3)"

section \<open>ExpressRoute peerings\<close>

text \<open>
  \<^verbatim>\<open>create_express_route_peering\<close> fetches the circuit, runs two client-side checks
  and hands the new peering to \<^verbatim>\<open>client.create_or_update\<close>. The enumeration values
  \<^verbatim>\<open>PeeringType.microsoft_peering.value\<close> and \<^verbatim>\<open>SkuTier.standard.value\<close> of the SDK are
  the strings below.
\<close>

definition microsoft_peering :: string where
  "microsoft_peering = ''MicrosoftPeering''"

definition sku_tier_standard :: string where
  "sku_tier_standard = ''Standard''"

record express_route_circuit_peering_config =
  advertised_public_prefixes :: pyval
  customer_asn :: pyval
  routing_registry_name :: pyval

record express_route_circuit_peering = child_resource +
  peering_type :: string
  peer_asn :: pyval
  vlan_id :: pyval
  primary_peer_address_prefix :: pyval
  secondary_peer_address_prefix :: pyval
  shared_key :: pyval
  microsoft_peering_config :: "express_route_circuit_peering_config option"

record express_route_circuit_sku =
  tier :: "string option"

record express_route_circuit =
  sku :: express_route_circuit_sku
  peerings :: "express_route_circuit_peering list"

text \<open>
  The loop \<^verbatim>\<open>for peering in circuit.peerings\<close>: the first peering with the requested
  VLAN id raises.
\<close>

fun vlan_in_use :: "express_route_circuit_peering list \<Rightarrow> pyval \<Rightarrow> error option" where
  "vlan_in_use [] v = None"
| "vlan_in_use (peering # rest) v =
     (if vlan_id peering = v
      then Some (CLIError (''VLAN ID '' @ squote @ py_str v @ squote
                   @ '' already in use by peering '' @ squote @ str_opt (name peering) @ squote))
      else vlan_in_use rest v)"

text \<open>
  The request: the arguments of \<^verbatim>\<open>client.create_or_update(resource_group_name,
  circuit_name, peering_type, peering)\<close>.
\<close>

record peering_request =
  req_resource_group_name :: string
  req_circuit_name :: string
  req_peering_type :: string
  req_peering :: express_route_circuit_peering

definition new_express_route_peering ::
  "string \<Rightarrow> pyval \<Rightarrow> pyval \<Rightarrow> pyval \<Rightarrow> pyval \<Rightarrow> pyval \<Rightarrow> pyval \<Rightarrow> pyval \<Rightarrow> pyval
     \<Rightarrow> express_route_circuit_peering" where
  "new_express_route_peering peering_type0 peer_asn0 vlan_id0 primary_peer_address_prefix0
       secondary_peer_address_prefix0 shared_key0 advertised_public_prefixes0 customer_asn0
       routing_registry_name0 =
     (let peering_config =
            (if peering_type0 = microsoft_peering
             then Some \<lparr> advertised_public_prefixes = advertised_public_prefixes0,
                         customer_asn = customer_asn0,
                         routing_registry_name = routing_registry_name0 \<rparr>
             else None)
      in \<lparr> res_id = None,
           name = None,
           peering_type = peering_type0,
           peer_asn = peer_asn0,
           vlan_id = vlan_id0,
           primary_peer_address_prefix = primary_peer_address_prefix0,
           secondary_peer_address_prefix = secondary_peer_address_prefix0,
           shared_key = shared_key0,
           microsoft_peering_config = peering_config \<rparr>)"

definition create_express_route_peering ::
  "express_route_circuit \<Rightarrow> string \<Rightarrow> string \<Rightarrow> string \<Rightarrow> pyval \<Rightarrow> pyval \<Rightarrow> pyval \<Rightarrow> pyval
     \<Rightarrow> pyval \<Rightarrow> pyval \<Rightarrow> pyval \<Rightarrow> pyval \<Rightarrow> error + peering_request" where
  "create_express_route_peering circuit resource_group_name circuit_name peering_type0 peer_asn0
       vlan_id0 primary_peer_address_prefix0 secondary_peer_address_prefix0 shared_key0
       advertised_public_prefixes0 customer_asn0 routing_registry_name0 =
     (if peering_type0 = microsoft_peering \<and> tier (sku circuit) = Some sku_tier_standard
      then Inl (CLIError (''MicrosoftPeering cannot be created on a '' @ squote @ ''Standard''
                  @ squote @ '' SKU circuit''))
      else
        (case vlan_in_use (peerings circuit) vlan_id0 of
           Some e \<Rightarrow> Inl e
         | None \<Rightarrow>
             (let peering = new_express_route_peering peering_type0 peer_asn0 vlan_id0
                              primary_peer_address_prefix0 secondary_peer_address_prefix0
                              shared_key0 advertised_public_prefixes0 customer_asn0
                              routing_registry_name0
              in Inr \<lparr> req_resource_group_name = resource_group_name,
                       req_circuit_name = circuit_name,
                       req_peering_type = peering_type0,
                       req_peering = peering \<rparr>)))"

section \<open>DNS records and record sets\<close>

text \<open>
  A record object of the DNS SDK is its class name and its attribute dictionary
  (\<^verbatim>\<open>__dict__\<close>). Reading an attribute that the object does not have raises
  \<^verbatim>\<open>AttributeError\<close>; assigning an attribute stores it.
\<close>

datatype dns_record = DnsRecord string "(string \<times> pyval) list"

definition record_dict :: "dns_record \<Rightarrow> (string \<times> pyval) list" where
  "record_dict r = (case r of DnsRecord c d \<Rightarrow> d)"

definition getattr_record :: "dns_record \<Rightarrow> string \<Rightarrow> error + pyval" where
  "getattr_record r a =
     (case map_of (record_dict r) a of None \<Rightarrow> Inl AttributeError | Some v \<Rightarrow> Inr v)"

definition setattr_record :: "dns_record \<Rightarrow> string \<Rightarrow> pyval \<Rightarrow> dns_record" where
  "setattr_record r a v = (case r of DnsRecord c d \<Rightarrow> DnsRecord c (AList.update a v d))"

text \<open>The constructors of the SDK classes, with their positional arguments.\<close>

definition AaaaRecord :: "pyval \<Rightarrow> dns_record" where
  "AaaaRecord ipv6_address = DnsRecord ''AaaaRecord'' [(''ipv6_address'', ipv6_address)]"

definition ARecord :: "pyval \<Rightarrow> dns_record" where
  "ARecord ipv4_address = DnsRecord ''ARecord'' [(''ipv4_address'', ipv4_address)]"

definition CnameRecord :: "pyval \<Rightarrow> dns_record" where
  "CnameRecord cname = DnsRecord ''CnameRecord'' [(''cname'', cname)]"

definition MxRecord :: "pyval \<Rightarrow> pyval \<Rightarrow> dns_record" where
  "MxRecord preference exchange =
     DnsRecord ''MxRecord'' [(''preference'', preference), (''exchange'', exchange)]"

definition NsRecord :: "pyval \<Rightarrow> dns_record" where
  "NsRecord nsdname = DnsRecord ''NsRecord'' [(''nsdname'', nsdname)]"

definition PtrRecord :: "pyval \<Rightarrow> dns_record" where
  "PtrRecord ptrdname = DnsRecord ''PtrRecord'' [(''ptrdname'', ptrdname)]"

definition SoaRecord ::
  "pyval \<Rightarrow> pyval \<Rightarrow> pyval \<Rightarrow> pyval \<Rightarrow> pyval \<Rightarrow> pyval \<Rightarrow> pyval \<Rightarrow> dns_record" where
  "SoaRecord host email serial_number refresh_time retry_time expire_time minimum_ttl =
     DnsRecord ''SoaRecord''
       [(''host'', host), (''email'', email), (''serial_number'', serial_number),
        (''refresh_time'', refresh_time), (''retry_time'', retry_time),
        (''expire_time'', expire_time), (''minimum_ttl'', minimum_ttl)]"

definition SrvRecord :: "pyval \<Rightarrow> pyval \<Rightarrow> pyval \<Rightarrow> pyval \<Rightarrow> dns_record" where
  "SrvRecord priority0 weight port target =
     DnsRecord ''SrvRecord''
       [(''priority'', priority0), (''weight'', weight), (''port'', port), (''target'', target)]"

definition TxtRecord :: "pyval \<Rightarrow> dns_record" where
  "TxtRecord v = DnsRecord ''TxtRecord'' [(''value'', v)]"

text \<open>
  The value of a record property of a record set: \<^verbatim>\<open>None\<close>, a list (whose entries are
  record objects or \<^verbatim>\<open>None\<close>) or a single record object.
\<close>

datatype rdata = RNone | RList "dns_record option list" | RObj dns_record

record record_set =
  rs_name :: string
  rs_type :: string
  ttl :: pyval
  arecords :: rdata
  aaaa_records :: rdata
  cname_record :: rdata
  mx_records :: rdata
  ns_records :: rdata
  ptr_records :: rdata
  soa_record :: rdata
  srv_records :: rdata
  txt_records :: rdata

text \<open>\<^verbatim>\<open>RecordSet(name=..., type=..., ttl=...)\<close>: every record property is \<^verbatim>\<open>None\<close>.\<close>

definition RecordSet :: "string \<Rightarrow> string \<Rightarrow> pyval \<Rightarrow> record_set" where
  "RecordSet n t l =
     \<lparr> rs_name = n, rs_type = t, ttl = l, arecords = RNone, aaaa_records = RNone,
       cname_record = RNone, mx_records = RNone, ns_records = RNone, ptr_records = RNone,
       soa_record = RNone, srv_records = RNone, txt_records = RNone \<rparr>"

text \<open>
  \<^verbatim>\<open>getattr(record_set, p)\<close> and \<^verbatim>\<open>setattr(record_set, p, v)\<close> for a property name \<open>p\<close>;
  the names come from the table of \<^verbatim>\<open>_type_to_property_name\<close> only.
\<close>

definition getattr_record_set :: "record_set \<Rightarrow> string \<Rightarrow> rdata" where
  "getattr_record_set rs p =
     (if p = ''arecords'' then arecords rs
      else if p = ''aaaa_records'' then aaaa_records rs
      else if p = ''cname_record'' then cname_record rs
      else if p = ''mx_records'' then mx_records rs
      else if p = ''ns_records'' then ns_records rs
      else if p = ''ptr_records'' then ptr_records rs
      else if p = ''soa_record'' then soa_record rs
      else if p = ''srv_records'' then srv_records rs
      else if p = ''txt_records'' then txt_records rs
      else RNone)"

definition setattr_record_set :: "record_set \<Rightarrow> string \<Rightarrow> rdata \<Rightarrow> record_set" where
  "setattr_record_set rs p v =
     (if p = ''arecords'' then rs \<lparr> arecords := v \<rparr>
      else if p = ''aaaa_records'' then rs \<lparr> aaaa_records := v \<rparr>
      else if p = ''cname_record'' then rs \<lparr> cname_record := v \<rparr>
      else if p = ''mx_records'' then rs \<lparr> mx_records := v \<rparr>
      else if p = ''ns_records'' then rs \<lparr> ns_records := v \<rparr>
      else if p = ''ptr_records'' then rs \<lparr> ptr_records := v \<rparr>
      else if p = ''soa_record'' then rs \<lparr> soa_record := v \<rparr>
      else if p = ''srv_records'' then rs \<lparr> srv_records := v \<rparr>
      else if p = ''txt_records'' then rs \<lparr> txt_records := v \<rparr>
      else rs)"

definition type_dict :: "(string \<times> string) list" where
  "type_dict =
     [(''a'', ''arecords''),
      (''aaaa'', ''aaaa_records''),
      (''cname'', ''cname_record''),
      (''mx'', ''mx_records''),
      (''ns'', ''ns_records''),
      (''ptr'', ''ptr_records''),
      (''soa'', ''soa_record''),
      (''spf'', ''txt_records''),
      (''srv'', ''srv_records''),
      (''txt'', ''txt_records'')]"

definition type_to_property_name :: "string \<Rightarrow> error + string" where
  "type_to_property_name key = dict_item type_dict (lower key)"

section \<open>Zone export\<close>

text \<open>
  The zone object that \<^verbatim>\<open>export_zone\<close> builds is one ordered dictionary: the keys
  \<^verbatim>\<open>$origin\<close>, \<^verbatim>\<open>resource-group\<close>, \<^verbatim>\<open>zone-name\<close>, \<^verbatim>\<open>datetime\<close> and \<^verbatim>\<open>$ttl\<close> hold plain
  values, and every record-set name is a key of the same dictionary, holding an ordered
  dictionary from record type to the list of field dictionaries.
\<close>

datatype zone_value =
    ZVal pyval
  | ZTypes "(string \<times> (string \<times> pyval) list list) list"

type_synonym zone_obj = "(string \<times> zone_value) list"

text \<open>\<^verbatim>\<open>p in s\<close> on strings: \<open>p\<close> occurs in \<open>s\<close> as a contiguous piece.\<close>

fun is_substring :: "string \<Rightarrow> string \<Rightarrow> bool" where
  "is_substring p [] = (p = [])"
| "is_substring p (c # cs) = (take (length p) (c # cs) = p \<or> is_substring p cs)"

text \<open>
  \<^verbatim>\<open>record_type in v\<close> for a plain value \<open>v\<close>: substring test on a string, membership
  in a list, \<^verbatim>\<open>TypeError\<close> on anything that is not a container.
\<close>

definition py_contains :: "pyval \<Rightarrow> string \<Rightarrow> error + bool" where
  "py_contains v x =
     (case v of
        PStr s \<Rightarrow> Inr (is_substring x s)
      | PList xs \<Rightarrow> Inr (PStr x \<in> set xs)
      | _ \<Rightarrow> Inl TypeError)"

text \<open>\<^verbatim>\<open>v.rstrip('.') + '.'\<close>; only a string has \<^verbatim>\<open>rstrip\<close>.\<close>

definition with_final_dot :: "pyval \<Rightarrow> error + pyval" where
  "with_final_dot v =
     (case v of PStr s \<Rightarrow> Inr (PStr (rstrip_dot s @ ''.'')) | _ \<Rightarrow> Inl AttributeError)"

text \<open>
  \<^verbatim>\<open>' '.join(v)\<close>: the strings of a list (or the characters of a string) separated by
  blanks; \<^verbatim>\<open>TypeError\<close> when \<open>v\<close> cannot be iterated or an item is not a string.
\<close>

fun str_items :: "pyval list \<Rightarrow> string list option" where
  "str_items [] = Some []"
| "str_items (PStr s # vs) = (case str_items vs of None \<Rightarrow> None | Some ss \<Rightarrow> Some (s # ss))"
| "str_items (v # vs) = None"

definition join_blank :: "pyval \<Rightarrow> error + pyval" where
  "join_blank v =
     (case v of
        PList xs \<Rightarrow> (case str_items xs of None \<Rightarrow> Inl TypeError
                                       | Some ss \<Rightarrow> Inr (PStr (join '' '' ss)))
      | PStr s \<Rightarrow> Inr (PStr (join '' '' (map (\<lambda>c. [c]) s)))
      | _ \<Rightarrow> Inl TypeError)"

text \<open>Attribute reads of a list entry, which may be \<^verbatim>\<open>None\<close>.\<close>

definition record_attr :: "dns_record option \<Rightarrow> string \<Rightarrow> error + pyval" where
  "record_attr record a =
     (case record of None \<Rightarrow> Inl AttributeError | Some r \<Rightarrow> getattr_record r a)"

fun record_attrs :: "dns_record option \<Rightarrow> string list \<Rightarrow> error + pyval list" where
  "record_attrs record [] = Inr []"
| "record_attrs record (a # as) =
     (case record_attr record a of
        Inl e \<Rightarrow> Inl e
      | Inr v \<Rightarrow> (case record_attrs record as of Inl e \<Rightarrow> Inl e | Inr vs \<Rightarrow> Inr (v # vs)))"

text \<open>
  The \<^verbatim>\<open>if record_type == ...\<close> chain of \<^verbatim>\<open>export_zone\<close>: the entries with which
  \<^verbatim>\<open>record_obj\<close> is updated. A type that no branch names (\<^verbatim>\<open>spf\<close>) adds nothing.
\<close>

definition export_record_fields ::
  "string \<Rightarrow> dns_record option \<Rightarrow> error + (string \<times> pyval) list" where
  "export_record_fields record_type record =
     (if record_type = ''aaaa'' then
        (case record_attr record ''ipv6_address'' of
           Inl e \<Rightarrow> Inl e | Inr v \<Rightarrow> Inr [(''ip'', v)])
      else if record_type = ''a'' then
        (case record_attr record ''ipv4_address'' of
           Inl e \<Rightarrow> Inl e | Inr v \<Rightarrow> Inr [(''ip'', v)])
      else if record_type = ''cname'' then
        (case record_attr record ''cname'' of
           Inl e \<Rightarrow> Inl e | Inr v \<Rightarrow> Inr [(''alias'', v)])
      else if record_type = ''mx'' then
        (case record_attrs record [''preference'', ''exchange''] of
           Inl e \<Rightarrow> Inl e
         | Inr vs \<Rightarrow> Inr [(''preference'', vs ! 0), (''host'', vs ! 1)])
      else if record_type = ''ns'' then
        (case record_attr record ''nsdname'' of
           Inl e \<Rightarrow> Inl e | Inr v \<Rightarrow> Inr [(''host'', v)])
      else if record_type = ''ptr'' then
        (case record_attr record ''ptrdname'' of
           Inl e \<Rightarrow> Inl e | Inr v \<Rightarrow> Inr [(''host'', v)])
      else if record_type = ''soa'' then
        (case record_attr record ''host'' of
           Inl e \<Rightarrow> Inl e
         | Inr h \<Rightarrow>
        (case with_final_dot h of
           Inl e \<Rightarrow> Inl e
         | Inr mname \<Rightarrow>
        (case record_attr record ''email'' of
           Inl e \<Rightarrow> Inl e
         | Inr m \<Rightarrow>
        (case with_final_dot m of
           Inl e \<Rightarrow> Inl e
         | Inr rname \<Rightarrow>
        (case record_attrs record [''serial_number'', ''refresh_time'', ''retry_time'',
                                   ''expire_time'', ''minimum_ttl''] of
           Inl e \<Rightarrow> Inl e
         | Inr vs \<Rightarrow>
             Inr [(''mname'', mname), (''rname'', rname), (''serial'', vs ! 0),
                  (''refresh'', vs ! 1), (''retry'', vs ! 2), (''expire'', vs ! 3),
                  (''minimum'', vs ! 4)])))))
      else if record_type = ''srv'' then
        (case record_attrs record [''priority'', ''weight'', ''port'', ''target''] of
           Inl e \<Rightarrow> Inl e
         | Inr vs \<Rightarrow> Inr [(''priority'', vs ! 0), (''weight'', vs ! 1), (''port'', vs ! 2),
                          (''target'', vs ! 3)])
      else if record_type = ''txt'' then
        (case record_attr record ''value'' of
           Inl e \<Rightarrow> Inl e
         | Inr v \<Rightarrow> (case join_blank v of Inl e \<Rightarrow> Inl e | Inr t \<Rightarrow> Inr [(''txt'', t)]))
      else Inr [])"

text \<open>
  One round of the loop \<^verbatim>\<open>for record in record_data\<close>, statement by statement:
  \<^verbatim>\<open>if record_type not in zone_obj[record_set_name]: zone_obj[record_set_name][record_type] = []\<close>
  (on a plain string the test is a substring test and the assignment a \<^verbatim>\<open>TypeError\<close>),
  the type-specific fields, the \<^verbatim>\<open>$ttl\<close> of an SOA record (its \<^verbatim>\<open>minimum_ttl\<close>, which
  the fields have read before), and the final
  \<^verbatim>\<open>zone_obj[record_set_name][record_type].append(record_obj)\<close> (a \<^verbatim>\<open>TypeError\<close> when
  \<^verbatim>\<open>zone_obj[record_set_name]\<close> is a plain value).
\<close>

definition ensure_type_list :: "zone_obj \<Rightarrow> string \<Rightarrow> string \<Rightarrow> error + zone_obj" where
  "ensure_type_list zone record_set_name record_type =
     (case dict_item zone record_set_name of
        Inl e \<Rightarrow> Inl e
      | Inr (ZTypes ts) \<Rightarrow>
          (if map_of ts record_type = None
           then Inr (AList.update record_set_name (ZTypes (AList.update record_type [] ts)) zone)
           else Inr zone)
      | Inr (ZVal v) \<Rightarrow>
          (case py_contains v record_type of
             Inl e \<Rightarrow> Inl e
           | Inr True \<Rightarrow> Inr zone
           | Inr False \<Rightarrow> Inl TypeError))"

definition append_record_obj ::
  "zone_obj \<Rightarrow> string \<Rightarrow> string \<Rightarrow> (string \<times> pyval) list \<Rightarrow> error + zone_obj" where
  "append_record_obj zone record_set_name record_type record_obj =
     (case dict_item zone record_set_name of
        Inl e \<Rightarrow> Inl e
      | Inr (ZVal v) \<Rightarrow> Inl TypeError
      | Inr (ZTypes ts) \<Rightarrow>
          (case dict_item ts record_type of
             Inl e \<Rightarrow> Inl e
           | Inr objs \<Rightarrow>
               Inr (AList.update record_set_name
                      (ZTypes (AList.update record_type (objs @ [record_obj]) ts)) zone)))"

definition export_record ::
  "zone_obj \<Rightarrow> string \<Rightarrow> string \<Rightarrow> pyval \<Rightarrow> dns_record option \<Rightarrow> error + zone_obj" where
  "export_record zone record_set_name record_type record_set_ttl record =
     (case ensure_type_list zone record_set_name record_type of
        Inl e \<Rightarrow> Inl e
      | Inr zone1 \<Rightarrow>
          (case export_record_fields record_type record of
             Inl e \<Rightarrow> Inl e
           | Inr field_items \<Rightarrow>
               (let record_obj = (''ttl'', record_set_ttl) # field_items;
                    zone2 = (if record_type = ''soa''
                             then (case record_attr record ''minimum_ttl'' of
                                     Inl e \<Rightarrow> zone1
                                   | Inr m \<Rightarrow> AList.update ''$ttl'' (ZVal m) zone1)
                             else zone1)
                in append_record_obj zone2 record_set_name record_type record_obj)))"

fun export_records ::
  "zone_obj \<Rightarrow> string \<Rightarrow> string \<Rightarrow> pyval \<Rightarrow> dns_record option list \<Rightarrow> error + zone_obj" where
  "export_records zone record_set_name record_type record_set_ttl [] = Inr zone"
| "export_records zone record_set_name record_type record_set_ttl (record # rest) =
     (case export_record zone record_set_name record_type record_set_ttl record of
        Inl e \<Rightarrow> Inl e
      | Inr zone' \<Rightarrow> export_records zone' record_set_name record_type record_set_ttl rest)"

text \<open>
  One round of the loop \<^verbatim>\<open>for record_set in record_sets\<close>. \<^verbatim>\<open>if not record_data\<close> skips
  \<^verbatim>\<open>None\<close> and the empty list; a single record object becomes a one-element list.
\<close>

definition export_record_set :: "zone_obj \<Rightarrow> record_set \<Rightarrow> error + zone_obj" where
  "export_record_set zone rs =
     (case after_last_slash (rs_type rs) of
        Inl e \<Rightarrow> Inl e
      | Inr t \<Rightarrow>
          (let record_type = lower t;
               record_set_name = rs_name rs
           in case type_to_property_name record_type of
                Inl e \<Rightarrow> Inl e
              | Inr p \<Rightarrow>
                  (case getattr_record_set rs p of
                     RNone \<Rightarrow> Inr zone
                   | RList [] \<Rightarrow> Inr zone
                   | RList (r # rest) \<Rightarrow>
                       export_records
                         (if map_of zone record_set_name = None
                          then AList.update record_set_name (ZTypes []) zone else zone)
                         record_set_name record_type (ttl rs) (r # rest)
                   | RObj r \<Rightarrow>
                       export_records
                         (if map_of zone record_set_name = None
                          then AList.update record_set_name (ZTypes []) zone else zone)
                         record_set_name record_type (ttl rs) [Some r])))"

fun export_record_sets :: "zone_obj \<Rightarrow> record_set list \<Rightarrow> error + zone_obj" where
  "export_record_sets zone [] = Inr zone"
| "export_record_sets zone (rs # rest) =
     (case export_record_set zone rs of
        Inl e \<Rightarrow> Inl e
      | Inr zone' \<Rightarrow> export_record_sets zone' rest)"

text \<open>
  \<^verbatim>\<open>export_zone\<close>: the record sets are what \<^verbatim>\<open>list_by_dns_zone\<close> returned, \<open>now\<close> is the
  formatted local time. The result is the zone object handed to \<^verbatim>\<open>make_zone_file\<close>,
  whose text is printed.
\<close>

definition export_zone :: "string \<Rightarrow> string \<Rightarrow> string \<Rightarrow> record_set list \<Rightarrow> error + zone_obj" where
  "export_zone resource_group_name zone_name now record_sets =
     export_record_sets
       [(''$origin'', ZVal (PStr (rstrip_dot zone_name @ ''.''))),
        (''resource-group'', ZVal (PStr resource_group_name)),
        (''zone-name'', ZVal (PStr (rstrip_dot zone_name))),
        (''datetime'', ZVal (PStr now))]
       record_sets"

section \<open>Zone import\<close>

text \<open>
  \<^verbatim>\<open>_build_record(data)\<close> for one entry of the parsed zone. A missing \<^verbatim>\<open>type\<close> key
  raises \<^verbatim>\<open>KeyError\<close> outside the \<^verbatim>\<open>try\<close>; a type that is not a string has no
  \<^verbatim>\<open>lower\<close>. Inside the \<^verbatim>\<open>try\<close> a missing key becomes the \<^verbatim>\<open>CLIError\<close>, whose message
  reads \<^verbatim>\<open>data['name']\<close> (a \<^verbatim>\<open>KeyError\<close> again when the entry has no name). A type that
  no branch names yields \<^verbatim>\<open>None\<close>.
\<close>

definition build_record_fields :: "string \<Rightarrow> (string \<times> pyval) list \<Rightarrow> error + dns_record option" where
  "build_record_fields record_type data =
     (if record_type = ''aaaa'' then
        (case dict_item data ''ip'' of Inl e \<Rightarrow> Inl e | Inr v \<Rightarrow> Inr (Some (AaaaRecord v)))
      else if record_type = ''a'' then
        (case dict_item data ''ip'' of Inl e \<Rightarrow> Inl e | Inr v \<Rightarrow> Inr (Some (ARecord v)))
      else if record_type = ''cname'' then
        (case dict_item data ''alias'' of Inl e \<Rightarrow> Inl e | Inr v \<Rightarrow> Inr (Some (CnameRecord v)))
      else if record_type = ''mx'' then
        (case dict_items data [''preference'', ''host''] of
           Inl e \<Rightarrow> Inl e | Inr vs \<Rightarrow> Inr (Some (MxRecord (vs ! 0) (vs ! 1))))
      else if record_type = ''ns'' then
        (case dict_item data ''host'' of Inl e \<Rightarrow> Inl e | Inr v \<Rightarrow> Inr (Some (NsRecord v)))
      else if record_type = ''ptr'' then
        (case dict_item data ''host'' of Inl e \<Rightarrow> Inl e | Inr v \<Rightarrow> Inr (Some (PtrRecord v)))
      else if record_type = ''soa'' then
        (case dict_items data [''host'', ''email'', ''serial'', ''refresh'', ''retry'',
                               ''expire'', ''minimum''] of
           Inl e \<Rightarrow> Inl e
         | Inr vs \<Rightarrow> Inr (Some (SoaRecord (vs ! 0) (vs ! 1) (vs ! 2) (vs ! 3) (vs ! 4) (vs ! 5)
                                   (vs ! 6))))
      else if record_type = ''srv'' then
        (case dict_items data [''priority'', ''weight'', ''port'', ''target''] of
           Inl e \<Rightarrow> Inl e
         | Inr vs \<Rightarrow> Inr (Some (SrvRecord (vs ! 0) (vs ! 1) (vs ! 2) (vs ! 3))))
      else if record_type = ''txt'' \<or> record_type = ''spf'' then
        (case dict_item data ''txt'' of
           Inl e \<Rightarrow> Inl e
         | Inr text_data \<Rightarrow>
             (case text_data of
                PList xs \<Rightarrow> Inr (Some (TxtRecord text_data))
              | _ \<Rightarrow> Inr (Some (TxtRecord (PList [text_data])))))
      else Inr None)"

definition build_record :: "(string \<times> pyval) list \<Rightarrow> error + dns_record option" where
  "build_record data =
     (case dict_item data ''type'' of
        Inl e \<Rightarrow> Inl e
      | Inr (PStr t) \<Rightarrow>
          (let record_type = lower t in
           case build_record_fields record_type data of
             Inl (KeyError k) \<Rightarrow>
               (case dict_item data ''name'' of
                  Inl e \<Rightarrow> Inl e
                | Inr n \<Rightarrow>
                    Inl (CLIError (''The '' @ record_type @ '' record '' @ squote @ py_str n
                           @ squote @ '' is missing a property.  '' @ repr_str k)))
           | Inl e \<Rightarrow> Inl e
           | Inr r \<Rightarrow> Inr r)
      | Inr _ \<Rightarrow> Inl AttributeError)"

text \<open>
  \<^verbatim>\<open>_add_record(record_set, record, record_type, is_list)\<close>. Appending to a property
  that holds a single record object raises \<^verbatim>\<open>AttributeError\<close> (the object has no
  \<^verbatim>\<open>append\<close>).
\<close>

definition add_record ::
  "record_set \<Rightarrow> dns_record option \<Rightarrow> string \<Rightarrow> bool \<Rightarrow> error + record_set" where
  "add_record record_set0 record record_type is_list =
     (case type_to_property_name record_type of
        Inl e \<Rightarrow> Inl e
      | Inr record_property \<Rightarrow>
          (if is_list then
             (case getattr_record_set record_set0 record_property of
                RNone \<Rightarrow> Inr (setattr_record_set record_set0 record_property (RList [record]))
              | RList record_list \<Rightarrow>
                  Inr (setattr_record_set record_set0 record_property (RList (record_list @ [record])))
              | RObj r \<Rightarrow> Inl AttributeError)
           else
             Inr (setattr_record_set record_set0 record_property
                    (case record of None \<Rightarrow> RNone | Some r \<Rightarrow> RObj r))))"

text \<open>
  The parsed zone that \<^verbatim>\<open>parse_zone_file\<close> hands to \<^verbatim>\<open>import_zone\<close>: per record-set
  name and per record type either a list of entries or a single entry; an entry is a
  dictionary of fields. The state of the first loop is the origin and the dictionary
  \<^verbatim>\<open>record_sets\<close>, whose key is \<^verbatim>\<open>'{}{}'.format(record_set_name.lower(), record_set_type)\<close>.
\<close>

datatype zone_entries =
    EntryList "(string \<times> pyval) list list"
  | EntryDict "(string \<times> pyval) list"

type_synonym parsed_zone = "(string \<times> (string \<times> zone_entries) list) list"

definition record_set_key :: "string \<Rightarrow> string \<Rightarrow> string" where
  "record_set_key record_set_name record_set_type = lower record_set_name @ record_set_type"

definition import_entry ::
  "(string \<times> record_set) list \<Rightarrow> string \<Rightarrow> string \<Rightarrow> (string \<times> pyval) list
     \<Rightarrow> error + (string \<times> record_set) list" where
  "import_entry record_sets record_set_name record_set_type entry =
     (case dict_item entry ''ttl'' of
        Inl e \<Rightarrow> Inl e
      | Inr record_set_ttl \<Rightarrow>
          (let key = record_set_key record_set_name record_set_type in
           case build_record entry of
             Inl e \<Rightarrow> Inl e
           | Inr record \<Rightarrow>
               (let record_set0 =
                      (case map_of record_sets key of
                         None \<Rightarrow> RecordSet (rstrip_dot record_set_name) record_set_type
                                   record_set_ttl
                       | Some rs \<Rightarrow> rs)
                in case add_record record_set0 record record_set_type
                          (lower record_set_type \<noteq> ''soa'' \<and> lower record_set_type \<noteq> ''cname'') of
                     Inl e \<Rightarrow> Inl e
                   | Inr rs' \<Rightarrow> Inr (AList.update key rs' record_sets))))"

fun import_entries ::
  "(string \<times> record_set) list \<Rightarrow> string \<Rightarrow> string \<Rightarrow> (string \<times> pyval) list list
     \<Rightarrow> error + (string \<times> record_set) list" where
  "import_entries record_sets record_set_name record_set_type [] = Inr record_sets"
| "import_entries record_sets record_set_name record_set_type (entry # rest) =
     (case import_entry record_sets record_set_name record_set_type entry of
        Inl e \<Rightarrow> Inl e
      | Inr record_sets' \<Rightarrow> import_entries record_sets' record_set_name record_set_type rest)"

fun import_types ::
  "string \<times> (string \<times> record_set) list \<Rightarrow> string \<Rightarrow> (string \<times> zone_entries) list
     \<Rightarrow> error + string \<times> (string \<times> record_set) list" where
  "import_types (origin, record_sets) record_set_name [] = Inr (origin, record_sets)"
| "import_types (origin, record_sets) record_set_name ((record_set_type, record_set_obj) # rest) =
     (let origin' = (if record_set_type = ''soa'' then rstrip_dot record_set_name else origin);
          entries = (case record_set_obj of EntryList es \<Rightarrow> es | EntryDict e \<Rightarrow> [e])
      in case import_entries record_sets record_set_name record_set_type entries of
           Inl e \<Rightarrow> Inl e
         | Inr record_sets' \<Rightarrow> import_types (origin', record_sets') record_set_name rest)"

fun import_names ::
  "string \<times> (string \<times> record_set) list \<Rightarrow> parsed_zone
     \<Rightarrow> error + string \<times> (string \<times> record_set) list" where
  "import_names st [] = Inr st"
| "import_names st ((record_set_name, types) # rest) =
     (case import_types st record_set_name types of
        Inl e \<Rightarrow> Inl e
      | Inr st' \<Rightarrow> import_names st' rest)"

text \<open>
  The entries of a parsed zone in the order in which the nested \<^verbatim>\<open>for\<close> statements of
  \<^verbatim>\<open>import_zone\<close> visit them, each with the record-set name and the record type under
  which it stands, and the first loop run over that sequence. The sequence serves to
  state what becomes of the entries of one record set.
\<close>

definition zone_triples :: "parsed_zone \<Rightarrow> (string \<times> string \<times> (string \<times> pyval) list) list" where
  "zone_triples zone =
     concat (map (\<lambda>(record_set_name, types).
        concat (map (\<lambda>(record_set_type, record_set_obj).
           map (\<lambda>entry. (record_set_name, record_set_type, entry))
             (case record_set_obj of EntryList es \<Rightarrow> es | EntryDict e \<Rightarrow> [e])) types)) zone)"

fun import_triples ::
  "(string \<times> record_set) list \<Rightarrow> (string \<times> string \<times> (string \<times> pyval) list) list
     \<Rightarrow> error + (string \<times> record_set) list" where
  "import_triples record_sets [] = Inr record_sets"
| "import_triples record_sets ((record_set_name, record_set_type, entry) # rest) =
     (case import_entry record_sets record_set_name record_set_type entry of
        Inl e \<Rightarrow> Inl e
      | Inr record_sets' \<Rightarrow> import_triples record_sets' rest)"

text \<open>
  Stated from the claim: the group of a pair of lower-cased record-set name and record
  type, that is, the entries of the zone that stand under a name with this lower-cased
  form and under this type, in the order of the zone.
\<close>

definition group_entries ::
  "string \<Rightarrow> string \<Rightarrow> (string \<times> string \<times> (string \<times> pyval) list) list
     \<Rightarrow> (string \<times> string \<times> (string \<times> pyval) list) list" where
  "group_entries n t triples = filter (\<lambda>(n', t', e). lower n' = lower n \<and> t' = t) triples"

text \<open>
  The record-set names that \<^verbatim>\<open>parse_zone_file\<close> (not among the sources) hands over are
  fully qualified: they end in a dot, which \<^verbatim>\<open>import_zone\<close> strips with \<^verbatim>\<open>rstrip('.')\<close>
  where it names the record set and the origin. The record types are names of DNS
  record types, which hold no dot.
\<close>

definition parsed_name :: "string \<Rightarrow> bool" where
  "parsed_name n = (n \<noteq> [] \<and> last n = CHR ''.'')"

definition parsed_names :: "parsed_zone \<Rightarrow> bool" where
  "parsed_names zone =
     list_all (\<lambda>(n, t, e). parsed_name n \<and> CHR ''.'' \<notin> set t) (zone_triples zone)"

text \<open>
  The origin with which the first loop ends: the name, without trailing dots, of the
  last record-set name that holds the type \<^verbatim>\<open>soa\<close>, and the zone name when there is none.
\<close>

definition zone_origin :: "string \<Rightarrow> parsed_zone \<Rightarrow> string" where
  "zone_origin zone_name zone =
     (case filter (\<lambda>(n, t). t = ''soa'')
             (concat (map (\<lambda>(n, types). map (\<lambda>(t, obj). (n, t)) types) zone)) of
        [] \<Rightarrow> zone_name
      | x # xs \<Rightarrow> rstrip_dot (fst (last (x # xs))))"

text \<open>
  The second loop, for one record set: the type is lower-cased, the record set named as
  the origin is renamed \<^verbatim>\<open>@\<close>, the SOA record at \<^verbatim>\<open>@\<close> takes the host of the SOA record
  that the service holds, and the NS record set at \<^verbatim>\<open>@\<close> is replaced by the one the
  service holds, with the imported TTL. The result is the record set handed to
  \<^verbatim>\<open>create_or_update\<close> under its \<^verbatim>\<open>name\<close> and \<^verbatim>\<open>type\<close>. \<open>root_soa\<close> and \<open>root_ns\<close> are the
  answers of \<^verbatim>\<open>client.record_sets.get\<close>.
\<close>

definition set_soa_host :: "record_set \<Rightarrow> record_set \<Rightarrow> error + record_set" where
  "set_soa_host rs root_soa =
     (case soa_record root_soa of
        RObj root \<Rightarrow>
          (case getattr_record root ''host'' of
             Inl e \<Rightarrow> Inl e
           | Inr h \<Rightarrow>
               (case soa_record rs of
                  RObj r \<Rightarrow> Inr (rs \<lparr> soa_record := RObj (setattr_record r ''host'' h) \<rparr>)
                | _ \<Rightarrow> Inl AttributeError))
      | _ \<Rightarrow> Inl AttributeError)"

definition prepare_record_set ::
  "string \<Rightarrow> record_set \<Rightarrow> record_set \<Rightarrow> record_set \<Rightarrow> error + record_set" where
  "prepare_record_set origin root_soa root_ns rs0 =
     (let rs1 = rs0 \<lparr> rs_type := lower (rs_type rs0) \<rparr>;
          rs2 = rs1 \<lparr> rs_name := (if rs_name rs1 = origin then ''@'' else rs_name rs1) \<rparr>
      in if rs_name rs2 = ''@'' \<and> rs_type rs2 = ''soa'' then
           (case set_soa_host rs2 root_soa of
              Inl e \<Rightarrow> Inl e
            | Inr rs3 \<Rightarrow> Inr (rs3 \<lparr> rs_name := ''@'' \<rparr>))
         else if rs_name rs2 = ''@'' \<and> rs_type rs2 = ''ns'' then
           (case after_last_slash (rs_type root_ns) of
              Inl e \<Rightarrow> Inl e
            | Inr t \<Rightarrow> Inr (root_ns \<lparr> ttl := ttl rs2, rs_type := t \<rparr>))
         else Inr rs2)"

fun prepare_record_sets ::
  "string \<Rightarrow> record_set \<Rightarrow> record_set \<Rightarrow> record_set list \<Rightarrow> error + record_set list" where
  "prepare_record_sets origin root_soa root_ns [] = Inr []"
| "prepare_record_sets origin root_soa root_ns (rs # rest) =
     (case prepare_record_set origin root_soa root_ns rs of
        Inl e \<Rightarrow> Inl e
      | Inr rs' \<Rightarrow>
          (case prepare_record_sets origin root_soa root_ns rest of
             Inl e \<Rightarrow> Inl e
           | Inr rest' \<Rightarrow> Inr (rs' # rest')))"

text \<open>
  \<^verbatim>\<open>import_zone\<close> from the parsed zone on: the result is the list of record sets passed
  to \<^verbatim>\<open>create_or_update\<close>, in the order of \<^verbatim>\<open>record_sets.values()\<close>, or the exception
  that ends the import. The progress
  messages and the record counts that feed only them are left out; a \<^verbatim>\<open>CloudError\<close> of
  a single \<^verbatim>\<open>create_or_update\<close> is logged by the source and does not stop the loop.
\<close>

definition import_zone ::
  "string \<Rightarrow> parsed_zone \<Rightarrow> record_set \<Rightarrow> record_set \<Rightarrow> error + record_set list" where
  "import_zone zone_name zone root_soa root_ns =
     (case import_names (zone_name, []) zone of
        Inl e \<Rightarrow> Inl e
      | Inr (origin, record_sets) \<Rightarrow>
          prepare_record_sets origin root_soa root_ns (map snd record_sets))"

section \<open>Removing a record\<close>

text \<open>
  \<^verbatim>\<open>Counter(v)\<close>: the multiset of the items of a list or of the characters of a string,
  empty for \<^verbatim>\<open>None\<close>; \<^verbatim>\<open>TypeError\<close> (here \<open>None\<close>) when \<open>v\<close> cannot be iterated or an
  item is a list, which cannot be hashed.
\<close>

fun hashable :: "pyval \<Rightarrow> bool" where
  "hashable (PList xs) = False"
| "hashable v = True"

definition counter :: "pyval \<Rightarrow> pyval multiset option" where
  "counter v =
     (case v of
        PNone \<Rightarrow> Some {#}
      | PStr s \<Rightarrow> Some (mset (map (\<lambda>c. PStr [c]) s))
      | PList xs \<Rightarrow> (if list_all hashable xs then Some (mset xs) else None)
      | _ \<Rightarrow> None)"

definition lists_match :: "pyval \<Rightarrow> pyval \<Rightarrow> bool" where
  "lists_match l1 l2 =
     (case counter l1 of
        None \<Rightarrow> False
      | Some c1 \<Rightarrow> (case counter l2 of None \<Rightarrow> False | Some c2 \<Rightarrow> c1 = c2))"

text \<open>
  \<^verbatim>\<open>dict_matches_filter(d, filter_dict)\<close>; \<open>sentinel\<close> is the address of the fresh
  \<^verbatim>\<open>object()\<close>.
\<close>

definition dict_matches_filter ::
  "nat \<Rightarrow> (string \<times> pyval) list \<Rightarrow> (string \<times> pyval) list \<Rightarrow> bool" where
  "dict_matches_filter sentinel d filter_dict =
     list_all
       (\<lambda>key.
          (case map_of filter_dict key of None \<Rightarrow> True | Some v \<Rightarrow> v = PNone)
          \<or> py_str (the (map_of filter_dict key))
               = py_str (case map_of d key of None \<Rightarrow> PObject sentinel | Some v \<Rightarrow> v)
          \<or> lists_match (the (map_of filter_dict key))
               (case map_of d key of None \<Rightarrow> PList [] | Some v \<Rightarrow> v))
       (map fst filter_dict)"

text \<open>
  The list comprehension of \<^verbatim>\<open>_remove_record\<close>: the stored records that the filter does
  not match; \<^verbatim>\<open>r.__dict__\<close> of an entry that is \<^verbatim>\<open>None\<close> raises.
\<close>

fun keep_records ::
  "nat \<Rightarrow> dns_record option list \<Rightarrow> dns_record \<Rightarrow> error + dns_record option list" where
  "keep_records sentinel [] record = Inr []"
| "keep_records sentinel (None # rest) record = Inl AttributeError"
| "keep_records sentinel (Some r # rest) record =
     (case keep_records sentinel rest record of
        Inl e \<Rightarrow> Inl e
      | Inr keep \<Rightarrow>
          if dict_matches_filter sentinel (record_dict r) (record_dict record) then Inr keep
          else Inr (Some r # keep))"

text \<open>
  What \<^verbatim>\<open>_remove_record\<close> asks of the service in the end: the deletion of the record set
  or its update.
\<close>

datatype record_set_request =
    Delete string string
  | CreateOrUpdate string string record_set

text \<open>
  \<^verbatim>\<open>_remove_record\<close>; \<open>record_set0\<close> is the answer of \<^verbatim>\<open>ncf.get\<close> and \<open>record_str\<close> is
  \<^verbatim>\<open>str(record)\<close>, the interpreter's rendering of the record object.
\<close>

definition remove_record ::
  "nat \<Rightarrow> string \<Rightarrow> record_set \<Rightarrow> dns_record \<Rightarrow> string \<Rightarrow> string \<Rightarrow> bool \<Rightarrow> bool
     \<Rightarrow> error + record_set_request" where
  "remove_record sentinel record_str record_set0 record record_type record_set_name
       keep_empty_record_set is_list =
     (case type_to_property_name record_type of
        Inl e \<Rightarrow> Inl e
      | Inr record_property \<Rightarrow>
          (case (if is_list then
                   (case getattr_record_set record_set0 record_property of
                      RNone \<Rightarrow> Inr record_set0
                    | RObj r \<Rightarrow> Inl TypeError
                    | RList record_list \<Rightarrow>
                        (case keep_records sentinel record_list record of
                           Inl e \<Rightarrow> Inl e
                         | Inr keep_list \<Rightarrow>
                             if length keep_list = length record_list
                             then Inl (CLIError (''Record '' @ record_str @ '' not found.''))
                             else Inr (setattr_record_set record_set0 record_property
                                         (RList keep_list))))
                 else Inr (setattr_record_set record_set0 record_property RNone)) of
             Inl e \<Rightarrow> Inl e
           | Inr record_set1 \<Rightarrow>
               (case (if is_list then
                        (case getattr_record_set record_set1 record_property of
                           RList l \<Rightarrow> Inr (length l)
                         | _ \<Rightarrow> Inl TypeError)
                      else
                        Inr (if getattr_record_set record_set1 record_property \<noteq> RNone
                             then 1 else 0)) of
                  Inl e \<Rightarrow> Inl e
                | Inr records_remaining \<Rightarrow>
                    if records_remaining = 0 \<and> \<not> keep_empty_record_set
                    then Inr (Delete record_set_name record_type)
                    else Inr (CreateOrUpdate record_set_name record_type record_set1))))"

text \<open>
  \<^verbatim>\<open>remove_dns_a_record\<close> builds the record from its argument and removes it from a
  list-typed record set.
\<close>

definition remove_dns_a_record ::
  "nat \<Rightarrow> string \<Rightarrow> record_set \<Rightarrow> string \<Rightarrow> pyval \<Rightarrow> bool \<Rightarrow> error + record_set_request" where
  "remove_dns_a_record sentinel record_str record_set0 record_set_name ipv4_address
       keep_empty_record_set =
     remove_record sentinel record_str record_set0 (ARecord ipv4_address) ''a'' record_set_name
       keep_empty_record_set True"

section \<open>TXT records: \<^verbatim>\<open>add_dns_txt_record\<close>\<close>

text \<open>
  \<^verbatim>\<open>long_text.replace('\\', '')\<close> deletes every backslash (character code 0x5C).
  One \<open>char\<close> of the model stands for one character of the Python string.
\<close>

definition remove_backslashes :: "string \<Rightarrow> string" where
  "remove_backslashes long_text = filter (\<lambda>c. c \<noteq> CHR 0x5C) long_text"

text \<open>
  The loop
  \<^verbatim>\<open>while len(long_text) > 255: record.value.append(long_text[:255]); long_text = long_text[255:]\<close>
  followed by \<^verbatim>\<open>record.value.append(long_text)\<close>. The second argument is \<^verbatim>\<open>record.value\<close>.
\<close>

function txt_chunk_loop :: "string \<Rightarrow> string list \<Rightarrow> string list" where
  "txt_chunk_loop long_text record_value =
     (if length long_text > 255
      then txt_chunk_loop (drop 255 long_text) (record_value @ [take 255 long_text])
      else record_value @ [long_text])"
  by pat_completeness auto
termination
  by (relation "measure (\<lambda>(long_text, record_value). length long_text)") auto

declare txt_chunk_loop.simps [simp del]

text \<open>
  \<^verbatim>\<open>add_dns_txt_record\<close> up to the call of \<^verbatim>\<open>_add_save_record\<close>: the result is the
  \<^verbatim>\<open>value\<close> list of the record that is saved, or the \<^verbatim>\<open>AssertionError\<close> of the
  length check.
\<close>

definition add_dns_txt_record :: "string list \<Rightarrow> error + string list" where
  "add_dns_txt_record record_value0 =
     (let long_text = concat record_value0;
          long_text = remove_backslashes long_text;
          original_len = length long_text;
          record_value = txt_chunk_loop long_text [];
          final_str = concat record_value;
          final_len = length final_str
      in if original_len = final_len then Inr record_value else Inl AssertionError)"

section \<open>Properties of the upsert\<close>

lemma find_None_filter: "find P xs = None \<longleftrightarrow> filter P xs = []"
  by (induction xs) auto

lemma find_Some_split:
  "find P xs = Some m \<Longrightarrow>
   \<exists>pre post. xs = pre @ m # post \<and> P m \<and> list_all (\<lambda>x. \<not> P x) pre \<and> remove1 m xs = pre @ post"
proof (induction xs)
  case Nil
  then show ?case by simp
next
  case (Cons x xs)
  show ?case
  proof (cases "P x")
    case True
    with Cons.prems have "x = m" by simp
    with True have "x # xs = [] @ m # xs \<and> P m \<and> list_all (\<lambda>x. \<not> P x) []
        \<and> remove1 m (x # xs) = [] @ xs"
      by simp
    then show ?thesis by blast
  next
    case False
    with Cons.prems have f: "find P xs = Some m" by simp
    from Cons.IH [OF f] obtain pre post where
      s: "xs = pre @ m # post" "P m" "list_all (\<lambda>x. \<not> P x) pre" "remove1 m xs = pre @ post"
      by blast
    from False s(2) have ne: "x \<noteq> m" by auto
    with s False have "x # xs = (x # pre) @ m # post \<and> P m \<and> list_all (\<lambda>x. \<not> P x) (x # pre)
        \<and> remove1 m (x # xs) = (x # pre) @ post"
      by simp
    then show ?thesis by blast
  qed
qed

lemma upsert_absent:
  "filter (\<lambda>x. key x = kv) c = [] \<Longrightarrow> upsert c obj key kv = (c @ [obj], [])"
  by (simp add: upsert_def find_None_filter [symmetric])

lemma upsert_present:
  assumes "filter (\<lambda>x. key x = kv) c \<noteq> []"
  shows "\<exists>pre m post. c = pre @ m # post \<and> key m = kv \<and> list_all (\<lambda>x. key x \<noteq> kv) pre
           \<and> upsert c obj key kv
               = (pre @ post @ [obj],
                  [(''Item '%s' already exists. Replacing with new values.'', kv)])"
proof -
  from assms obtain m where f: "find (\<lambda>x. key x = kv) c = Some m"
    by (cases "find (\<lambda>x. key x = kv) c") (auto simp: find_None_filter)
  from find_Some_split [OF f] obtain pre post where
    s: "c = pre @ m # post" "key m = kv" "list_all (\<lambda>x. key x \<noteq> kv) pre"
       "remove1 m c = pre @ post"
    by blast
  from f s(4) have "upsert c obj key kv
      = (pre @ post @ [obj], [(''Item '%s' already exists. Replacing with new values.'', kv)])"
    by (simp add: upsert_def)
  with s show ?thesis by blast
qed

lemma upsert_last: "fst (upsert c obj key kv) \<noteq> [] \<and> last (fst (upsert c obj key kv)) = obj"
  by (simp add: upsert_def split: option.split)

lemma upsert_butlast_single:
  assumes "length (filter (\<lambda>x. key x = kv) c) \<le> 1"
  shows "filter (\<lambda>x. key x = kv) (butlast (fst (upsert c obj key kv))) = []"
proof (cases "filter (\<lambda>x. key x = kv) c = []")
  case True
  then show ?thesis by (simp add: upsert_absent)
next
  case False
  from upsert_present [OF False, of obj] obtain pre m post w where
    s: "c = pre @ m # post" "key m = kv" "list_all (\<lambda>x. key x \<noteq> kv) pre"
       "upsert c obj key kv = (pre @ post @ [obj], w)"
    by blast
  from s(3) have p: "filter (\<lambda>x. key x = kv) pre = []"
    by (simp add: list_all_iff filter_empty_conv)
  with assms s(1,2) have "filter (\<lambda>x. key x = kv) post = []"
    by simp
  with p s(4) show ?thesis
    by (simp add: butlast_append)
qed

lemma upsert_distinct_keys:
  assumes d: "distinct (map key c)" and k: "key obj = kv"
  shows "distinct (map key (fst (upsert c obj key kv)))
       \<and> filter (\<lambda>x. key x = kv) (fst (upsert c obj key kv)) = [obj]"
proof (cases "filter (\<lambda>x. key x = kv) c = []")
  case True
  then have "kv \<notin> key ` set c"
    by (auto simp: filter_empty_conv)
  with True d k show ?thesis
    by (simp add: upsert_absent)
next
  case False
  from upsert_present [OF False, of obj] obtain pre m post w where
    s: "c = pre @ m # post" "key m = kv" "list_all (\<lambda>x. key x \<noteq> kv) pre"
       "upsert c obj key kv = (pre @ post @ [obj], w)"
    by blast
  from d s(1,2) have n: "kv \<notin> key ` set pre" "kv \<notin> key ` set post"
    by auto
  then have "filter (\<lambda>x. key x = kv) pre = []" "filter (\<lambda>x. key x = kv) post = []"
    by (auto simp: filter_empty_conv)
  moreover from d s(1) n k have "distinct (map key (pre @ post @ [obj]))"
    by auto
  ultimately show ?thesis
    using s(4) k by simp
qed

text \<open>
  C1, as the source has it. \<^verbatim>\<open>_upsert\<close> removes only the first entry that shares the
  key: when no entry has the key the result is the old collection with the object
  appended and nothing is logged; otherwise the collection splits around the first entry
  with the key, that entry alone is dropped, the object is appended and one replacement
  warning is logged. The object is always the last entry, and when at most one entry
  shared the key no earlier entry with the key remains.
\<close>

theorem upsert_replaces_first_match:
  "(filter (\<lambda>x. key x = kv) c = [] \<longrightarrow> upsert c obj key kv = (c @ [obj], []))
   \<and> (filter (\<lambda>x. key x = kv) c \<noteq> [] \<longrightarrow>
        (\<exists>pre m post. c = pre @ m # post \<and> key m = kv \<and> (\<forall>x \<in> set pre. key x \<noteq> kv)
           \<and> upsert c obj key kv
               = (pre @ post @ [obj],
                  [(''Item '%s' already exists. Replacing with new values.'', kv)])))
   \<and> fst (upsert c obj key kv) \<noteq> []
   \<and> last (fst (upsert c obj key kv)) = obj
   \<and> (length (filter (\<lambda>x. key x = kv) c) \<le> 1 \<longrightarrow>
        (\<forall>x \<in> set (butlast (fst (upsert c obj key kv))). key x \<noteq> kv))"
proof -
  have a: "filter (\<lambda>x. key x = kv) c = [] \<longrightarrow> upsert c obj key kv = (c @ [obj], [])"
    by (simp add: upsert_absent)
  have b: "filter (\<lambda>x. key x = kv) c \<noteq> [] \<longrightarrow>
        (\<exists>pre m post. c = pre @ m # post \<and> key m = kv \<and> (\<forall>x \<in> set pre. key x \<noteq> kv)
           \<and> upsert c obj key kv
               = (pre @ post @ [obj],
                  [(''Item '%s' already exists. Replacing with new values.'', kv)]))"
  proof (intro impI)
    assume ne: "filter (\<lambda>x. key x = kv) c \<noteq> []"
    from upsert_present [OF ne, of obj] show "\<exists>pre m post. c = pre @ m # post \<and> key m = kv
           \<and> (\<forall>x \<in> set pre. key x \<noteq> kv)
           \<and> upsert c obj key kv
               = (pre @ post @ [obj],
                  [(''Item '%s' already exists. Replacing with new values.'', kv)])"
      unfolding list_all_iff .
  qed
  have c: "length (filter (\<lambda>x. key x = kv) c) \<le> 1 \<longrightarrow>
        (\<forall>x \<in> set (butlast (fst (upsert c obj key kv))). key x \<noteq> kv)"
  proof (intro impI ballI)
    fix x
    assume l: "length (filter (\<lambda>x. key x = kv) c) \<le> 1"
      and x: "x \<in> set (butlast (fst (upsert c obj key kv)))"
    from upsert_butlast_single [OF l, of obj]
    have "filter (\<lambda>x. key x = kv) (butlast (fst (upsert c obj key kv))) = []" .
    with x show "key x \<noteq> kv"
      unfolding filter_empty_conv by blast
  qed
  from upsert_last [of c obj key kv]
  have d: "fst (upsert c obj key kv) \<noteq> []" and e: "last (fst (upsert c obj key kv)) = obj"
    by blast+
  show ?thesis
    by (intro conjI) (rule a b c d e)+
qed

text \<open>
  C1, counterexample. With two certificates named \<open>a\<close> in the collection, the upsert of a
  third one removes the first only: the second, a previously existing entry whose name
  is the key value, is still there.
\<close>

theorem upsert_keeps_second_match:
  "fst (upsert [new_root_cert ''a'' ''1'', new_root_cert ''a'' ''2'']
          (new_root_cert ''a'' ''3'') name (Some ''a''))
     = [new_root_cert ''a'' ''2'', new_root_cert ''a'' ''3'']
   \<and> name (new_root_cert ''a'' ''2'') = Some ''a''
   \<and> \<not> list_all (\<lambda>x. name x \<noteq> Some ''a'')
         (butlast (fst (upsert [new_root_cert ''a'' ''1'', new_root_cert ''a'' ''2'']
            (new_root_cert ''a'' ''3'') name (Some ''a''))))"
  by (simp add: upsert_def new_root_cert_def)

theorem upsert_replaces_first_match_witness:
  "upsert [new_root_cert ''a'' ''1'', new_root_cert ''b'' ''2'']
          (new_root_cert ''c'' ''3'') name (Some ''c'')
     = ([new_root_cert ''a'' ''1'', new_root_cert ''b'' ''2'', new_root_cert ''c'' ''3''], [])
   \<and> (\<exists>pre m post.
         [new_root_cert ''a'' ''1'', new_root_cert ''b'' ''2''] = pre @ m # post
         \<and> name m = Some ''b''
         \<and> upsert [new_root_cert ''a'' ''1'', new_root_cert ''b'' ''2'']
              (new_root_cert ''b'' ''3'') name (Some ''b'')
             = (pre @ post @ [new_root_cert ''b'' ''3''],
                [(''Item '%s' already exists. Replacing with new values.'', Some ''b'')]))
   \<and> list_all (\<lambda>x. name x \<noteq> Some ''b'')
         (butlast (fst (upsert [new_root_cert ''a'' ''1'', new_root_cert ''b'' ''2'']
              (new_root_cert ''b'' ''3'') name (Some ''b''))))"
proof -
  let ?c = "[new_root_cert ''a'' ''1'', new_root_cert ''b'' ''2'']"
  have h1: "filter (\<lambda>x. name x = Some ''c'') ?c = []"
    by (simp add: new_root_cert_def)
  have h2: "filter (\<lambda>x. name x = Some ''b'') ?c \<noteq> []"
    by (simp add: new_root_cert_def)
  have h3: "length (filter (\<lambda>x. name x = Some ''b'') ?c) \<le> 1"
    by (simp add: new_root_cert_def)
  from upsert_replaces_first_match [of name "Some ''c''" ?c "new_root_cert ''c'' ''3''"] h1
  have a: "upsert ?c (new_root_cert ''c'' ''3'') name (Some ''c'')
     = (?c @ [new_root_cert ''c'' ''3''], [])"
    by blast
  from upsert_replaces_first_match [of name "Some ''b''" ?c "new_root_cert ''b'' ''3''"] h2 h3
  have b: "\<exists>pre m post. ?c = pre @ m # post \<and> name m = Some ''b''
         \<and> upsert ?c (new_root_cert ''b'' ''3'') name (Some ''b'')
             = (pre @ post @ [new_root_cert ''b'' ''3''],
                [(''Item '%s' already exists. Replacing with new values.'', Some ''b'')])"
    and c: "\<forall>x \<in> set (butlast (fst (upsert ?c (new_root_cert ''b'' ''3'') name (Some ''b'')))).
              name x \<noteq> Some ''b''"
    by blast+
  from c have "list_all (\<lambda>x. name x \<noteq> Some ''b'')
         (butlast (fst (upsert ?c (new_root_cert ''b'' ''3'') name (Some ''b''))))"
    unfolding list_all_iff .
  with a b show ?thesis
    by simp
qed

section \<open>Create commands keep one entry per name\<close>

lemma upsert_others:
  assumes "key obj = kv"
  shows "filter (\<lambda>x. key x \<noteq> kv) (fst (upsert c obj key kv)) = filter (\<lambda>x. key x \<noteq> kv) c"
proof (cases "filter (\<lambda>x. key x = kv) c = []")
  case True
  with assms show ?thesis
    by (simp add: upsert_absent)
next
  case False
  from upsert_present [OF False, of obj] obtain pre m post w where
    s: "c = pre @ m # post" "key m = kv" "upsert c obj key kv = (pre @ post @ [obj], w)"
    by blast
  with assms show ?thesis
    by simp
qed

lemma upsert_keyed:
  assumes d: "distinct (map key c)" and k: "key obj = kv"
  shows "filter (\<lambda>x. key x = kv) (fst (upsert c obj key kv)) = [obj]
       \<and> filter (\<lambda>x. key x \<noteq> kv) (fst (upsert c obj key kv)) = filter (\<lambda>x. key x \<noteq> kv) c
       \<and> distinct (map key (fst (upsert c obj key kv)))"
  using upsert_distinct_keys [OF d k] upsert_others [of key obj kv c, OF k] by simp

lemma create_ag_http_listener_unique:
  assumes "distinct (map name (http_listeners ag))"
  shows "\<exists>ag'. create_ag_http_listener ag item_name fip fport hn sc = Inr ag'
           \<and> filter (\<lambda>x. name x = Some item_name) (http_listeners ag')
               = [new_http_listener item_name fip fport hn sc]
           \<and> filter (\<lambda>x. name x \<noteq> Some item_name) (http_listeners ag')
               = filter (\<lambda>x. name x \<noteq> Some item_name) (http_listeners ag)
           \<and> distinct (map name (http_listeners ag'))
           \<and> url_path_maps ag' = url_path_maps ag"
proof -
  have n: "name (new_http_listener item_name fip fport hn sc) = Some item_name"
    by (simp add: new_http_listener_def)
  from upsert_keyed [OF assms n] show ?thesis
    by (simp add: create_ag_http_listener_def)
qed

lemma create_lb_rule_result:
  assumes f: "get_property msg (frontend_ip_configurations lb) fipn = Inr fip"
    and b: "get_property msg (backend_address_pools lb) bapn = Inr pool"
    and q: "(if truthy pn then map_sum (\<lambda>e. e) Some (get_property msg (probes lb) (the pn))
             else Inr None) = Inr prb"
  shows "create_lb_rule msg lb item_name p fp bp fipn bapn pn ld fl idle
         = Inr (lb \<lparr> load_balancing_rules :=
                  fst (upsert (load_balancing_rules lb)
                         (new_lb_rule item_name p fp bp fip pool prb ld fl idle)
                         name (Some item_name)) \<rparr>)"
proof -
  from q have "(case pn of None \<Rightarrow> Inr None
                | Some pn' \<Rightarrow> if pn' = [] then Inr None
                             else map_sum (\<lambda>e. e) Some (get_property msg (probes lb) pn'))
               = Inr prb"
    by (cases pn) (simp_all add: truthy_def split: if_splits)
  with f b show ?thesis
    by (simp add: create_lb_rule_def)
qed

lemma create_lb_rule_lookups:
  assumes "create_lb_rule msg lb item_name p fp bp fipn bapn pn ld fl idle = Inr lb'"
  shows "\<exists>fip pool prb.
           get_property msg (frontend_ip_configurations lb) fipn = Inr fip
           \<and> get_property msg (backend_address_pools lb) bapn = Inr pool
           \<and> (if truthy pn then map_sum (\<lambda>e. e) Some (get_property msg (probes lb) (the pn))
                else Inr None) = Inr prb"
proof -
  from assms obtain fip pool prb where
    f: "get_property msg (frontend_ip_configurations lb) fipn = Inr fip"
    and b: "get_property msg (backend_address_pools lb) bapn = Inr pool"
    and q: "(case pn of None \<Rightarrow> Inr None
                | Some pn' \<Rightarrow> if pn' = [] then Inr None
                             else map_sum (\<lambda>e. e) Some (get_property msg (probes lb) pn'))
               = Inr prb"
    by (auto simp: create_lb_rule_def split: sum.splits)
  from q have "(if truthy pn then map_sum (\<lambda>e. e) Some (get_property msg (probes lb) (the pn))
                else Inr None) = Inr prb"
    by (cases pn) (simp_all add: truthy_def split: if_splits)
  with f b show ?thesis
    by blast
qed

lemma create_lb_rule_unique:
  assumes d: "distinct (map name (load_balancing_rules lb))"
    and f: "get_property msg (frontend_ip_configurations lb) fipn = Inr fip"
    and b: "get_property msg (backend_address_pools lb) bapn = Inr pool"
    and q: "(if truthy pn then map_sum (\<lambda>e. e) Some (get_property msg (probes lb) (the pn))
             else Inr None) = Inr prb"
  shows "\<exists>lb'. create_lb_rule msg lb item_name p fp bp fipn bapn pn ld fl idle = Inr lb'
           \<and> filter (\<lambda>x. name x = Some item_name) (load_balancing_rules lb')
               = [new_lb_rule item_name p fp bp fip pool prb ld fl idle]
           \<and> filter (\<lambda>x. name x \<noteq> Some item_name) (load_balancing_rules lb')
               = filter (\<lambda>x. name x \<noteq> Some item_name) (load_balancing_rules lb)
           \<and> distinct (map name (load_balancing_rules lb'))
           \<and> frontend_ip_configurations lb' = frontend_ip_configurations lb
           \<and> backend_address_pools lb' = backend_address_pools lb
           \<and> probes lb' = probes lb"
proof -
  have n: "name (new_lb_rule item_name p fp bp fip pool prb ld fl idle) = Some item_name"
    by (simp add: new_lb_rule_def)
  from upsert_keyed [OF d n] show ?thesis
    unfolding create_lb_rule_result [OF f b q] by simp
qed

lemma create_nic_ip_config_unique:
  assumes d: "distinct (map name (ip_configurations nic))"
    and s: "nic_default_subnet nic ver sn = Inr subnet1"
  shows "\<exists>nic'. create_nic_ip_config nic n sn pip pools rules pa alloc ver mp = Inr nic'
           \<and> filter (\<lambda>x. name x = Some n) (ip_configurations nic')
               = [new_nic_ip_config n subnet1 pip pools rules pa alloc ver mp]
           \<and> filter (\<lambda>x. name x \<noteq> Some n) (ip_configurations nic')
               = filter (\<lambda>x. name x \<noteq> Some n)
                   (if mp then map (\<lambda>config. config \<lparr> primary := Some False \<rparr>)
                                 (ip_configurations nic)
                    else ip_configurations nic)
           \<and> distinct (map name (ip_configurations nic'))"
proof -
  let ?configs = "if mp then map (\<lambda>config. config \<lparr> primary := Some False \<rparr>) (ip_configurations nic)
                  else ip_configurations nic"
  have "map name ?configs = map name (ip_configurations nic)"
    by simp
  with d have d': "distinct (map name ?configs)"
    by metis
  have k: "name (new_nic_ip_config n subnet1 pip pools rules pa alloc ver mp) = Some n"
    by (simp add: new_nic_ip_config_def)
  from upsert_keyed [OF d' k] show ?thesis
    by (simp add: create_nic_ip_config_def s Let_def)
qed

lemma create_nic_ip_config_subnet:
  assumes "create_nic_ip_config nic n sn pip pools rules pa alloc ver mp = Inr nic'"
  shows "\<exists>subnet1. nic_default_subnet nic ver sn = Inr subnet1"
  using assms by (auto simp: create_nic_ip_config_def split: sum.splits)

lemma create_vnet_gateway_root_cert_unique:
  assumes d: "distinct (map name (gateway_root_certs gw))"
    and c: "vpn_client_config gw = Some config"
  shows "\<exists>gw'. create_vnet_gateway_root_cert gw gn data cn = Inr gw'
           \<and> filter (\<lambda>x. name x = Some cn) (gateway_root_certs gw') = [new_root_cert cn data]
           \<and> filter (\<lambda>x. name x \<noteq> Some cn) (gateway_root_certs gw')
               = filter (\<lambda>x. name x \<noteq> Some cn) (gateway_root_certs gw)
           \<and> distinct (map name (gateway_root_certs gw'))"
proof -
  have k: "name (new_root_cert cn data) = Some cn"
    by (simp add: new_root_cert_def)
  from upsert_keyed [OF d k] c show ?thesis
    by (simp add: create_vnet_gateway_root_cert_def gateway_root_certs_def Let_def)
qed

lemma create_vnet_gateway_root_cert_config:
  assumes "create_vnet_gateway_root_cert gw gn data cn = Inr gw'"
  shows "vpn_client_config gw \<noteq> None"
  using assms by (auto simp: create_vnet_gateway_root_cert_def split: option.splits)

text \<open>
  C6. The upsert of an object under its own key into a collection with at most one entry
  per key leaves exactly one entry with that key, the object, keeps the entries of the
  other keys as they were and in their order, and leaves at most one entry per key.
  Hence, for a parent whose collection holds at most one entry per name,
  \<^verbatim>\<open>create_ag_http_listener\<close>, \<^verbatim>\<open>create_lb_rule\<close>, \<^verbatim>\<open>create_nic_ip_config\<close> and
  \<^verbatim>\<open>create_vnet_gateway_root_cert\<close> submit a parent whose collection holds exactly one
  entry with the item name, which is the object that the command constructs from its
  arguments and from what it looks up in the parent (for a load-balancer rule the
  frontend IP configuration, the backend address pool and the probe found by name; for
  an IP configuration the subnet of the primary configuration when none is given), next
  to the unchanged entries of the other names. \<^verbatim>\<open>create_lb_rule\<close>,
  \<^verbatim>\<open>create_nic_ip_config\<close> and \<^verbatim>\<open>create_vnet_gateway_root_cert\<close> submit a parent only when
  these lookups succeed.
\<close>

theorem create_commands_keep_one_entry_per_name:
  "(distinct (map key c) \<and> key obj = kv \<longrightarrow>
      filter (\<lambda>x. key x = kv) (fst (upsert c obj key kv)) = [obj]
      \<and> filter (\<lambda>x. key x \<noteq> kv) (fst (upsert c obj key kv)) = filter (\<lambda>x. key x \<noteq> kv) c
      \<and> distinct (map key (fst (upsert c obj key kv))))
   \<and> (distinct (map name (http_listeners ag)) \<longrightarrow>
      (\<exists>ag'. create_ag_http_listener ag item_name fip fport hn sc = Inr ag'
         \<and> filter (\<lambda>x. name x = Some item_name) (http_listeners ag')
             = [new_http_listener item_name fip fport hn sc]
         \<and> filter (\<lambda>x. name x \<noteq> Some item_name) (http_listeners ag')
             = filter (\<lambda>x. name x \<noteq> Some item_name) (http_listeners ag)
         \<and> distinct (map name (http_listeners ag'))
         \<and> url_path_maps ag' = url_path_maps ag))
   \<and> (distinct (map name (load_balancing_rules lb))
       \<and> get_property msg (frontend_ip_configurations lb) fipn = Inr rule_fip
       \<and> get_property msg (backend_address_pools lb) bapn = Inr rule_pool
       \<and> (if truthy pn then map_sum (\<lambda>e. e) Some (get_property msg (probes lb) (the pn))
           else Inr None) = Inr rule_probe \<longrightarrow>
      (\<exists>lb'. create_lb_rule msg lb rule_name p fp bp fipn bapn pn ld fl idle = Inr lb'
         \<and> filter (\<lambda>x. name x = Some rule_name) (load_balancing_rules lb')
             = [new_lb_rule rule_name p fp bp rule_fip rule_pool rule_probe ld fl idle]
         \<and> filter (\<lambda>x. name x \<noteq> Some rule_name) (load_balancing_rules lb')
             = filter (\<lambda>x. name x \<noteq> Some rule_name) (load_balancing_rules lb)
         \<and> distinct (map name (load_balancing_rules lb'))
         \<and> frontend_ip_configurations lb' = frontend_ip_configurations lb
         \<and> backend_address_pools lb' = backend_address_pools lb
         \<and> probes lb' = probes lb))
   \<and> (create_lb_rule msg lb rule_name p fp bp fipn bapn pn ld fl idle = Inr lb2 \<longrightarrow>
      (\<exists>fip2 pool2 probe2.
         get_property msg (frontend_ip_configurations lb) fipn = Inr fip2
         \<and> get_property msg (backend_address_pools lb) bapn = Inr pool2
         \<and> (if truthy pn then map_sum (\<lambda>e. e) Some (get_property msg (probes lb) (the pn))
             else Inr None) = Inr probe2))
   \<and> (distinct (map name (ip_configurations nic))
       \<and> nic_default_subnet nic ver sn = Inr subnet1 \<longrightarrow>
      (\<exists>nic'. create_nic_ip_config nic n sn pip pools rules pa alloc ver mp = Inr nic'
         \<and> filter (\<lambda>x. name x = Some n) (ip_configurations nic')
             = [new_nic_ip_config n subnet1 pip pools rules pa alloc ver mp]
         \<and> filter (\<lambda>x. name x \<noteq> Some n) (ip_configurations nic')
             = filter (\<lambda>x. name x \<noteq> Some n)
                 (if mp then map (\<lambda>config. config \<lparr> primary := Some False \<rparr>)
                               (ip_configurations nic)
                  else ip_configurations nic)
         \<and> distinct (map name (ip_configurations nic'))))
   \<and> (create_nic_ip_config nic n sn pip pools rules pa alloc ver mp = Inr nic2 \<longrightarrow>
      (\<exists>subnet2. nic_default_subnet nic ver sn = Inr subnet2))
   \<and> (distinct (map name (gateway_root_certs gw)) \<and> vpn_client_config gw = Some config \<longrightarrow>
      (\<exists>gw'. create_vnet_gateway_root_cert gw gn data cn = Inr gw'
         \<and> filter (\<lambda>x. name x = Some cn) (gateway_root_certs gw') = [new_root_cert cn data]
         \<and> filter (\<lambda>x. name x \<noteq> Some cn) (gateway_root_certs gw')
             = filter (\<lambda>x. name x \<noteq> Some cn) (gateway_root_certs gw)
         \<and> distinct (map name (gateway_root_certs gw'))))
   \<and> (create_vnet_gateway_root_cert gw gn data cn = Inr gw2 \<longrightarrow> vpn_client_config gw \<noteq> None)"
proof -
  have a: "distinct (map key c) \<and> key obj = kv \<longrightarrow>
      filter (\<lambda>x. key x = kv) (fst (upsert c obj key kv)) = [obj]
      \<and> filter (\<lambda>x. key x \<noteq> kv) (fst (upsert c obj key kv)) = filter (\<lambda>x. key x \<noteq> kv) c
      \<and> distinct (map key (fst (upsert c obj key kv)))"
  proof
    assume "distinct (map key c) \<and> key obj = kv"
    then have "distinct (map key c)" and "key obj = kv"
      by blast+
    then show "filter (\<lambda>x. key x = kv) (fst (upsert c obj key kv)) = [obj]
      \<and> filter (\<lambda>x. key x \<noteq> kv) (fst (upsert c obj key kv)) = filter (\<lambda>x. key x \<noteq> kv) c
      \<and> distinct (map key (fst (upsert c obj key kv)))"
      by (rule upsert_keyed)
  qed
  have b: "distinct (map name (http_listeners ag)) \<longrightarrow>
      (\<exists>ag'. create_ag_http_listener ag item_name fip fport hn sc = Inr ag'
         \<and> filter (\<lambda>x. name x = Some item_name) (http_listeners ag')
             = [new_http_listener item_name fip fport hn sc]
         \<and> filter (\<lambda>x. name x \<noteq> Some item_name) (http_listeners ag')
             = filter (\<lambda>x. name x \<noteq> Some item_name) (http_listeners ag)
         \<and> distinct (map name (http_listeners ag'))
         \<and> url_path_maps ag' = url_path_maps ag)"
    by (rule impI) (rule create_ag_http_listener_unique)
  have c: "distinct (map name (load_balancing_rules lb))
       \<and> get_property msg (frontend_ip_configurations lb) fipn = Inr rule_fip
       \<and> get_property msg (backend_address_pools lb) bapn = Inr rule_pool
       \<and> (if truthy pn then map_sum (\<lambda>e. e) Some (get_property msg (probes lb) (the pn))
           else Inr None) = Inr rule_probe \<longrightarrow>
      (\<exists>lb'. create_lb_rule msg lb rule_name p fp bp fipn bapn pn ld fl idle = Inr lb'
         \<and> filter (\<lambda>x. name x = Some rule_name) (load_balancing_rules lb')
             = [new_lb_rule rule_name p fp bp rule_fip rule_pool rule_probe ld fl idle]
         \<and> filter (\<lambda>x. name x \<noteq> Some rule_name) (load_balancing_rules lb')
             = filter (\<lambda>x. name x \<noteq> Some rule_name) (load_balancing_rules lb)
         \<and> distinct (map name (load_balancing_rules lb'))
         \<and> frontend_ip_configurations lb' = frontend_ip_configurations lb
         \<and> backend_address_pools lb' = backend_address_pools lb
         \<and> probes lb' = probes lb)"
  proof
    assume h: "distinct (map name (load_balancing_rules lb))
       \<and> get_property msg (frontend_ip_configurations lb) fipn = Inr rule_fip
       \<and> get_property msg (backend_address_pools lb) bapn = Inr rule_pool
       \<and> (if truthy pn then map_sum (\<lambda>e. e) Some (get_property msg (probes lb) (the pn))
           else Inr None) = Inr rule_probe"
    from h have h1: "distinct (map name (load_balancing_rules lb))" by (rule conjunct1)
    from h have h2: "get_property msg (frontend_ip_configurations lb) fipn = Inr rule_fip"
      by (rule conjunct2 [THEN conjunct1])
    from h have h3: "get_property msg (backend_address_pools lb) bapn = Inr rule_pool"
      by (rule conjunct2 [THEN conjunct2, THEN conjunct1])
    from h have h4: "(if truthy pn
           then map_sum (\<lambda>e. e) Some (get_property msg (probes lb) (the pn))
           else Inr None) = Inr rule_probe"
      by (rule conjunct2 [THEN conjunct2, THEN conjunct2])
    from h1 h2 h3 h4
    show "\<exists>lb'. create_lb_rule msg lb rule_name p fp bp fipn bapn pn ld fl idle = Inr lb'
         \<and> filter (\<lambda>x. name x = Some rule_name) (load_balancing_rules lb')
             = [new_lb_rule rule_name p fp bp rule_fip rule_pool rule_probe ld fl idle]
         \<and> filter (\<lambda>x. name x \<noteq> Some rule_name) (load_balancing_rules lb')
             = filter (\<lambda>x. name x \<noteq> Some rule_name) (load_balancing_rules lb)
         \<and> distinct (map name (load_balancing_rules lb'))
         \<and> frontend_ip_configurations lb' = frontend_ip_configurations lb
         \<and> backend_address_pools lb' = backend_address_pools lb
         \<and> probes lb' = probes lb"
      by (rule create_lb_rule_unique)
  qed
  have d: "create_lb_rule msg lb rule_name p fp bp fipn bapn pn ld fl idle = Inr lb2 \<longrightarrow>
      (\<exists>fip2 pool2 probe2.
         get_property msg (frontend_ip_configurations lb) fipn = Inr fip2
         \<and> get_property msg (backend_address_pools lb) bapn = Inr pool2
         \<and> (if truthy pn then map_sum (\<lambda>e. e) Some (get_property msg (probes lb) (the pn))
             else Inr None) = Inr probe2)"
    by (rule impI) (rule create_lb_rule_lookups)
  have e: "distinct (map name (ip_configurations nic))
       \<and> nic_default_subnet nic ver sn = Inr subnet1 \<longrightarrow>
      (\<exists>nic'. create_nic_ip_config nic n sn pip pools rules pa alloc ver mp = Inr nic'
         \<and> filter (\<lambda>x. name x = Some n) (ip_configurations nic')
             = [new_nic_ip_config n subnet1 pip pools rules pa alloc ver mp]
         \<and> filter (\<lambda>x. name x \<noteq> Some n) (ip_configurations nic')
             = filter (\<lambda>x. name x \<noteq> Some n)
                 (if mp then map (\<lambda>config. config \<lparr> primary := Some False \<rparr>)
                               (ip_configurations nic)
                  else ip_configurations nic)
         \<and> distinct (map name (ip_configurations nic')))"
  proof
    assume h: "distinct (map name (ip_configurations nic))
       \<and> nic_default_subnet nic ver sn = Inr subnet1"
    from h have h1: "distinct (map name (ip_configurations nic))" by (rule conjunct1)
    from h have h2: "nic_default_subnet nic ver sn = Inr subnet1" by (rule conjunct2)
    from h1 h2
    show "\<exists>nic'. create_nic_ip_config nic n sn pip pools rules pa alloc ver mp = Inr nic'
         \<and> filter (\<lambda>x. name x = Some n) (ip_configurations nic')
             = [new_nic_ip_config n subnet1 pip pools rules pa alloc ver mp]
         \<and> filter (\<lambda>x. name x \<noteq> Some n) (ip_configurations nic')
             = filter (\<lambda>x. name x \<noteq> Some n)
                 (if mp then map (\<lambda>config. config \<lparr> primary := Some False \<rparr>)
                               (ip_configurations nic)
                  else ip_configurations nic)
         \<and> distinct (map name (ip_configurations nic'))"
      by (rule create_nic_ip_config_unique)
  qed
  have f: "create_nic_ip_config nic n sn pip pools rules pa alloc ver mp = Inr nic2 \<longrightarrow>
      (\<exists>subnet2. nic_default_subnet nic ver sn = Inr subnet2)"
    by (rule impI) (rule create_nic_ip_config_subnet)
  have g: "distinct (map name (gateway_root_certs gw)) \<and> vpn_client_config gw = Some config \<longrightarrow>
      (\<exists>gw'. create_vnet_gateway_root_cert gw gn data cn = Inr gw'
         \<and> filter (\<lambda>x. name x = Some cn) (gateway_root_certs gw') = [new_root_cert cn data]
         \<and> filter (\<lambda>x. name x \<noteq> Some cn) (gateway_root_certs gw')
             = filter (\<lambda>x. name x \<noteq> Some cn) (gateway_root_certs gw)
         \<and> distinct (map name (gateway_root_certs gw')))"
  proof
    assume h: "distinct (map name (gateway_root_certs gw)) \<and> vpn_client_config gw = Some config"
    from h have h1: "distinct (map name (gateway_root_certs gw))" by (rule conjunct1)
    from h have h2: "vpn_client_config gw = Some config" by (rule conjunct2)
    from h1 h2
    show "\<exists>gw'. create_vnet_gateway_root_cert gw gn data cn = Inr gw'
         \<and> filter (\<lambda>x. name x = Some cn) (gateway_root_certs gw') = [new_root_cert cn data]
         \<and> filter (\<lambda>x. name x \<noteq> Some cn) (gateway_root_certs gw')
             = filter (\<lambda>x. name x \<noteq> Some cn) (gateway_root_certs gw)
         \<and> distinct (map name (gateway_root_certs gw'))"
      by (rule create_vnet_gateway_root_cert_unique)
  qed
  have i: "create_vnet_gateway_root_cert gw gn data cn = Inr gw2 \<longrightarrow> vpn_client_config gw \<noteq> None"
    by (rule impI) (rule create_vnet_gateway_root_cert_config)
  show ?thesis
    by (intro conjI) (rule a b c d e f g i)+
qed

theorem create_commands_keep_one_entry_per_name_witness:
  "fst (upsert [new_root_cert ''a'' ''1'', new_root_cert ''b'' ''2'', new_root_cert ''c'' ''3'']
          (new_root_cert ''b'' ''4'') name (Some ''b''))
     = [new_root_cert ''a'' ''1'', new_root_cert ''c'' ''3'', new_root_cert ''b'' ''4'']
   \<and> (\<exists>ag'. create_ag_http_listener
             \<lparr> http_listeners = [new_http_listener ''l1'' ''ip0'' ''port0'' None None,
                                  new_http_listener ''l2'' ''ip0'' ''port1'' None None],
               url_path_maps = [] \<rparr>
             ''l1'' ''ip1'' ''port2'' (Some ''example.org'') (Some ''cert1'') = Inr ag'
         \<and> http_listeners ag'
             = [new_http_listener ''l2'' ''ip0'' ''port1'' None None,
                new_http_listener ''l1'' ''ip1'' ''port2'' (Some ''example.org'') (Some ''cert1'')]
         \<and> distinct (map name (http_listeners ag')))
   \<and> (\<exists>lb'. create_lb_rule ''not found''
             \<lparr> frontend_ip_configurations = [\<lparr> res_id = Some ''id1'', name = Some ''fe'' \<rparr>],
               backend_address_pools = [\<lparr> res_id = Some ''id2'', name = Some ''be'' \<rparr>],
               probes = [\<lparr> res_id = Some ''id3'', name = Some ''p1'' \<rparr>],
               load_balancing_rules =
                 [new_lb_rule ''r1'' ''tcp'' 80 8080 \<lparr> res_id = Some ''id1'', name = Some ''fe'' \<rparr>
                    \<lparr> res_id = Some ''id2'', name = Some ''be'' \<rparr> None ''default'' ''false'' None,
                  new_lb_rule ''r2'' ''tcp'' 443 8443 \<lparr> res_id = Some ''id1'', name = Some ''fe'' \<rparr>
                    \<lparr> res_id = Some ''id2'', name = Some ''be'' \<rparr> None ''default'' ''false'' None] \<rparr>
             ''r1'' ''udp'' 53 5353 ''fe'' ''be'' (Some ''p1'') ''default'' ''true'' (Some 4) = Inr lb'
         \<and> load_balancing_rules lb'
             = [new_lb_rule ''r2'' ''tcp'' 443 8443 \<lparr> res_id = Some ''id1'', name = Some ''fe'' \<rparr>
                  \<lparr> res_id = Some ''id2'', name = Some ''be'' \<rparr> None ''default'' ''false'' None,
                new_lb_rule ''r1'' ''udp'' 53 5353 \<lparr> res_id = Some ''id1'', name = Some ''fe'' \<rparr>
                  \<lparr> res_id = Some ''id2'', name = Some ''be'' \<rparr>
                  (Some \<lparr> res_id = Some ''id3'', name = Some ''p1'' \<rparr>) ''default'' ''true'' (Some 4)]
         \<and> distinct (map name (load_balancing_rules lb')))
   \<and> (\<exists>nic'. create_nic_ip_config
             \<lparr> ip_configurations =
                 [new_nic_ip_config ''ipconfig1'' (Some ''subnet1'') None None None None
                    (Some ''dynamic'') (Some ''ipv4'') True,
                  new_nic_ip_config ''ipconfig2'' (Some ''subnet2'') None None None None
                    (Some ''dynamic'') (Some ''ipv4'') False] \<rparr>
             ''ipconfig2'' None None None None None (Some ''dynamic'') (Some ''ipv4'') True
             = Inr nic'
         \<and> ip_configurations nic'
             = [new_nic_ip_config ''ipconfig1'' (Some ''subnet1'') None None None None
                  (Some ''dynamic'') (Some ''ipv4'') False,
                new_nic_ip_config ''ipconfig2'' (Some ''subnet1'') None None None None
                  (Some ''dynamic'') (Some ''ipv4'') True]
         \<and> distinct (map name (ip_configurations nic')))
   \<and> (\<exists>gw'. create_vnet_gateway_root_cert
             \<lparr> vpn_client_config = Some \<lparr> vpn_client_root_certificates =
                 Some [new_root_cert ''root1'' ''old'', new_root_cert ''root2'' ''other''] \<rparr> \<rparr>
             ''gw'' ''data'' ''root1'' = Inr gw'
         \<and> gateway_root_certs gw'
             = [new_root_cert ''root2'' ''other'', new_root_cert ''root1'' ''data'']
         \<and> distinct (map name (gateway_root_certs gw')))"
proof -
  let ?ag = "\<lparr> http_listeners = [new_http_listener ''l1'' ''ip0'' ''port0'' None None,
                                  new_http_listener ''l2'' ''ip0'' ''port1'' None None],
               url_path_maps = [] \<rparr>"
  let ?fe = "\<lparr> res_id = Some ''id1'', name = Some ''fe'' \<rparr>"
  let ?be = "\<lparr> res_id = Some ''id2'', name = Some ''be'' \<rparr>"
  let ?p1 = "\<lparr> res_id = Some ''id3'', name = Some ''p1'' \<rparr>"
  let ?r1 = "new_lb_rule ''r1'' ''tcp'' 80 8080 ?fe ?be None ''default'' ''false'' None"
  let ?r2 = "new_lb_rule ''r2'' ''tcp'' 443 8443 ?fe ?be None ''default'' ''false'' None"
  let ?r1' = "new_lb_rule ''r1'' ''udp'' 53 5353 ?fe ?be (Some ?p1) ''default'' ''true'' (Some 4)"
  let ?lb = "\<lparr> frontend_ip_configurations = [?fe], backend_address_pools = [?be],
               probes = [?p1], load_balancing_rules = [?r1, ?r2] \<rparr>"
  let ?c1 = "new_nic_ip_config ''ipconfig1'' (Some ''subnet1'') None None None None
               (Some ''dynamic'') (Some ''ipv4'') True"
  let ?c1' = "new_nic_ip_config ''ipconfig1'' (Some ''subnet1'') None None None None
               (Some ''dynamic'') (Some ''ipv4'') False"
  let ?c2 = "new_nic_ip_config ''ipconfig2'' (Some ''subnet2'') None None None None
               (Some ''dynamic'') (Some ''ipv4'') False"
  let ?c2' = "new_nic_ip_config ''ipconfig2'' (Some ''subnet1'') None None None None
               (Some ''dynamic'') (Some ''ipv4'') True"
  let ?nic = "\<lparr> ip_configurations = [?c1, ?c2] \<rparr>"
  let ?config = "\<lparr> vpn_client_root_certificates =
                   Some [new_root_cert ''root1'' ''old'', new_root_cert ''root2'' ''other''] \<rparr>"
  let ?gw = "\<lparr> vpn_client_config = Some ?config \<rparr>"
  let ?certs = "[new_root_cert ''a'' ''1'', new_root_cert ''b'' ''2'', new_root_cert ''c'' ''3'']"
  note t = create_commands_keep_one_entry_per_name
  note t_upsert = t [THEN conjunct1, THEN mp]
  note t_listener = t [THEN conjunct2, THEN conjunct1, THEN mp]
  note t_lb = t [THEN conjunct2, THEN conjunct2, THEN conjunct1, THEN mp]
  note t_lb_only = t [THEN conjunct2, THEN conjunct2, THEN conjunct2, THEN conjunct1, THEN mp]
  note t_nic = t [THEN conjunct2, THEN conjunct2, THEN conjunct2, THEN conjunct2,
                  THEN conjunct1, THEN mp]
  note t_nic_only = t [THEN conjunct2, THEN conjunct2, THEN conjunct2, THEN conjunct2,
                       THEN conjunct2, THEN conjunct1, THEN mp]
  note t_gw = t [THEN conjunct2, THEN conjunct2, THEN conjunct2, THEN conjunct2,
                 THEN conjunct2, THEN conjunct2, THEN conjunct1, THEN mp]
  note t_gw_only = t [THEN conjunct2, THEN conjunct2, THEN conjunct2, THEN conjunct2,
                      THEN conjunct2, THEN conjunct2, THEN conjunct2, THEN mp]
  have u: "fst (upsert ?certs (new_root_cert ''b'' ''4'') name (Some ''b''))
     = [new_root_cert ''a'' ''1'', new_root_cert ''c'' ''3'', new_root_cert ''b'' ''4'']"
  proof -
    have d: "distinct (map name ?certs)"
      by (simp add: new_root_cert_def)
    have k: "name (new_root_cert ''b'' ''4'') = Some ''b''"
      by (simp add: new_root_cert_def)
    have e: "fst (upsert ?certs (new_root_cert ''b'' ''4'') name (Some ''b''))
       = [new_root_cert ''a'' ''1'', new_root_cert ''c'' ''3'', new_root_cert ''b'' ''4'']"
      by (simp add: upsert_def new_root_cert_def)
    from t_upsert [OF conjI [OF d k]]
    have "filter (\<lambda>x. name x = Some ''b'')
            (fst (upsert ?certs (new_root_cert ''b'' ''4'') name (Some ''b'')))
          = [new_root_cert ''b'' ''4'']"
      by (rule conjunct1)
    with e show ?thesis by simp
  qed
  have a: "\<exists>ag'. create_ag_http_listener ?ag ''l1'' ''ip1'' ''port2'' (Some ''example.org'')
                   (Some ''cert1'') = Inr ag'
         \<and> http_listeners ag'
             = [new_http_listener ''l2'' ''ip0'' ''port1'' None None,
                new_http_listener ''l1'' ''ip1'' ''port2'' (Some ''example.org'') (Some ''cert1'')]
         \<and> distinct (map name (http_listeners ag'))"
  proof -
    have d: "distinct (map name (http_listeners ?ag))"
      by (simp add: new_http_listener_def)
    have e: "create_ag_http_listener ?ag ''l1'' ''ip1'' ''port2'' (Some ''example.org'')
               (Some ''cert1'')
             = Inr (?ag \<lparr> http_listeners :=
                 [new_http_listener ''l2'' ''ip0'' ''port1'' None None,
                  new_http_listener ''l1'' ''ip1'' ''port2'' (Some ''example.org'')
                    (Some ''cert1'')] \<rparr>)"
      by (simp add: create_ag_http_listener_def upsert_def new_http_listener_def truthy_def)
    from t_listener [OF d, of "''l1''" "''ip1''" "''port2''" "Some ''example.org''"
           "Some ''cert1''"]
    obtain ag' where "create_ag_http_listener ?ag ''l1'' ''ip1'' ''port2'' (Some ''example.org'')
               (Some ''cert1'') = Inr ag'" and "distinct (map name (http_listeners ag'))"
      by blast
    with e show ?thesis by simp
  qed
  have b: "\<exists>lb'. create_lb_rule ''not found'' ?lb
             ''r1'' ''udp'' 53 5353 ''fe'' ''be'' (Some ''p1'') ''default'' ''true'' (Some 4) = Inr lb'
         \<and> load_balancing_rules lb' = [?r2, ?r1']
         \<and> distinct (map name (load_balancing_rules lb'))"
  proof -
    have d: "distinct (map name (load_balancing_rules ?lb))"
      by (simp add: new_lb_rule_def)
    have f: "get_property ''not found'' (frontend_ip_configurations ?lb) ''fe'' = Inr ?fe"
      by (simp add: get_property_def)
    have p: "get_property ''not found'' (backend_address_pools ?lb) ''be'' = Inr ?be"
      by (simp add: get_property_def)
    have q: "(if truthy (Some ''p1'')
              then map_sum (\<lambda>e. e) Some (get_property ''not found'' (probes ?lb) (the (Some ''p1'')))
              else Inr None) = Inr (Some ?p1)"
      by (simp add: get_property_def truthy_def)
    from t_lb [OF conjI [OF d conjI [OF f conjI [OF p q]]],
               of "''r1''" "''udp''" 53 5353 "''default''" "''true''" "Some 4"]
    obtain lb' where e: "create_lb_rule ''not found'' ?lb
             ''r1'' ''udp'' 53 5353 ''fe'' ''be'' (Some ''p1'') ''default'' ''true'' (Some 4) = Inr lb'"
      and m: "filter (\<lambda>x. name x = Some ''r1'') (load_balancing_rules lb') = [?r1']"
      and o: "filter (\<lambda>x. name x \<noteq> Some ''r1'') (load_balancing_rules lb')
              = filter (\<lambda>x. name x \<noteq> Some ''r1'') (load_balancing_rules ?lb)"
      and s: "distinct (map name (load_balancing_rules lb'))"
      by blast
    from t_lb_only [OF e] obtain fip2 pool2 probe2 where
      "get_property ''not found'' (frontend_ip_configurations ?lb) ''fe'' = Inr fip2"
      by blast
    have "create_lb_rule ''not found'' ?lb
             ''r1'' ''udp'' 53 5353 ''fe'' ''be'' (Some ''p1'') ''default'' ''true'' (Some 4)
          = Inr (?lb \<lparr> load_balancing_rules := [?r2, ?r1'] \<rparr>)"
      by (simp add: create_lb_rule_def get_property_def upsert_def new_lb_rule_def)
    with e have "load_balancing_rules lb' = [?r2, ?r1']"
      by auto
    with e s show ?thesis by (intro exI [of _ lb'] conjI)
  qed
  have c: "\<exists>nic'. create_nic_ip_config ?nic
             ''ipconfig2'' None None None None None (Some ''dynamic'') (Some ''ipv4'') True
             = Inr nic'
         \<and> ip_configurations nic' = [?c1', ?c2']
         \<and> distinct (map name (ip_configurations nic'))"
  proof -
    have d: "distinct (map name (ip_configurations ?nic))"
      by (simp add: new_nic_ip_config_def)
    have s: "nic_default_subnet ?nic (Some ''ipv4'') None = Inr (Some ''subnet1'')"
      by (simp add: nic_default_subnet_def new_nic_ip_config_def truthy_def)
    from t_nic [OF conjI [OF d s],
                of "''ipconfig2''" None None None None "Some ''dynamic''" True]
    obtain nic' where e: "create_nic_ip_config ?nic
             ''ipconfig2'' None None None None None (Some ''dynamic'') (Some ''ipv4'') True
             = Inr nic'"
      and m: "filter (\<lambda>x. name x = Some ''ipconfig2'') (ip_configurations nic') = [?c2']"
      and o: "distinct (map name (ip_configurations nic'))"
      by blast
    from t_nic_only [OF e] obtain subnet2 where
      "nic_default_subnet ?nic (Some ''ipv4'') None = Inr subnet2"
      by blast
    have "create_nic_ip_config ?nic
             ''ipconfig2'' None None None None None (Some ''dynamic'') (Some ''ipv4'') True
          = Inr (?nic \<lparr> ip_configurations := [?c1', ?c2'] \<rparr>)"
      by (simp add: create_nic_ip_config_def nic_default_subnet_def truthy_def upsert_def
            new_nic_ip_config_def)
    with e have "ip_configurations nic' = [?c1', ?c2']"
      by auto
    with e o show ?thesis by (intro exI [of _ nic'] conjI)
  qed
  have g: "\<exists>gw'. create_vnet_gateway_root_cert ?gw ''gw'' ''data'' ''root1'' = Inr gw'
         \<and> gateway_root_certs gw'
             = [new_root_cert ''root2'' ''other'', new_root_cert ''root1'' ''data'']
         \<and> distinct (map name (gateway_root_certs gw'))"
  proof -
    have d: "distinct (map name (gateway_root_certs ?gw))"
      by (simp add: gateway_root_certs_def new_root_cert_def)
    have v: "vpn_client_config ?gw = Some ?config"
      by simp
    from t_gw [OF conjI [OF d v], of "''gw''" "''data''" "''root1''"]
    obtain gw' where e: "create_vnet_gateway_root_cert ?gw ''gw'' ''data'' ''root1'' = Inr gw'"
      and o: "distinct (map name (gateway_root_certs gw'))"
      by blast
    from t_gw_only [OF e] have "vpn_client_config ?gw \<noteq> None" .
    have "create_vnet_gateway_root_cert ?gw ''gw'' ''data'' ''root1''
          = Inr \<lparr> vpn_client_config = Some \<lparr> vpn_client_root_certificates =
                 Some [new_root_cert ''root2'' ''other'', new_root_cert ''root1'' ''data''] \<rparr> \<rparr>"
      by (simp add: create_vnet_gateway_root_cert_def upsert_def new_root_cert_def)
    with e have "gateway_root_certs gw'
             = [new_root_cert ''root2'' ''other'', new_root_cert ''root1'' ''data'']"
      by (auto simp: gateway_root_certs_def)
    with e o show ?thesis by (intro exI [of _ gw'] conjI)
  qed
  from u a b c g show ?thesis
    by (intro conjI)
qed

section \<open>Selective updates change the given fields only\<close>

lemma update_nsg_rule_fields:
  "protocol (update_nsg_rule i p sap dap a d de spr dpr pr) = (if p \<noteq> None then p else protocol i)"
  "source_address_prefix (update_nsg_rule i p sap dap a d de spr dpr pr)
     = (if sap \<noteq> None then sap else source_address_prefix i)"
  "destination_address_prefix (update_nsg_rule i p sap dap a d de spr dpr pr)
     = (if dap \<noteq> None then dap else destination_address_prefix i)"
  "access (update_nsg_rule i p sap dap a d de spr dpr pr) = (if a \<noteq> None then a else access i)"
  "direction (update_nsg_rule i p sap dap a d de spr dpr pr)
     = (if d \<noteq> None then d else direction i)"
  "description (update_nsg_rule i p sap dap a d de spr dpr pr)
     = (if de \<noteq> None then de else description i)"
  "source_port_range (update_nsg_rule i p sap dap a d de spr dpr pr)
     = (if spr \<noteq> None then spr else source_port_range i)"
  "destination_port_range (update_nsg_rule i p sap dap a d de spr dpr pr)
     = (if dpr \<noteq> None then dpr else destination_port_range i)"
  "priority (update_nsg_rule i p sap dap a d de spr dpr pr)
     = (if pr \<noteq> None then pr else priority i)"
  by (simp_all add: update_nsg_rule_def Let_def)

lemma update_nsg_rule_frame:
  "res_id (update_nsg_rule i p sap dap a d de spr dpr pr) = res_id i"
  "name (update_nsg_rule i p sap dap a d de spr dpr pr) = name i"
  "security_rule.more (update_nsg_rule i p sap dap a d de spr dpr pr) = security_rule.more i"
  by (simp_all add: update_nsg_rule_def Let_def)

lemma update_route_fields:
  "address_prefix (update_route r ap nht nhip) = (if ap \<noteq> None then ap else address_prefix r)"
  "next_hop_type (update_route r ap nht nhip) = (if nht \<noteq> None then nht else next_hop_type r)"
  "next_hop_ip_address (update_route r ap nht nhip)
     = (if nhip \<noteq> None then nhip else next_hop_ip_address r)"
  by (simp_all add: update_route_def Let_def)

lemma update_route_frame:
  "res_id (update_route r ap nht nhip) = res_id r"
  "name (update_route r ap nht nhip) = name r"
  "route.more (update_route r ap nht nhip) = route.more r"
  by (simp_all add: update_route_def Let_def)

text \<open>
  C7. \<^verbatim>\<open>update_nsg_rule\<close> and \<^verbatim>\<open>update_route\<close> are total functions without a raising
  branch. In the instance they return, a field whose argument is \<^verbatim>\<open>None\<close> has its
  previous value, a field whose argument is given holds exactly that argument, and the
  id, the name and every other attribute of the instance are unchanged.
\<close>

theorem selective_update_changes_given_fields_only:
  "(\<forall>x. (p = None \<longrightarrow> protocol (update_nsg_rule i p sap dap a d de spr dpr pr) = protocol i)
      \<and> (p = Some x \<longrightarrow> protocol (update_nsg_rule i p sap dap a d de spr dpr pr) = Some x))
   \<and> (\<forall>x. (sap = None \<longrightarrow> source_address_prefix (update_nsg_rule i p sap dap a d de spr dpr pr)
                            = source_address_prefix i)
      \<and> (sap = Some x \<longrightarrow> source_address_prefix (update_nsg_rule i p sap dap a d de spr dpr pr)
                            = Some x))
   \<and> (\<forall>x. (dap = None \<longrightarrow> destination_address_prefix
                              (update_nsg_rule i p sap dap a d de spr dpr pr)
                            = destination_address_prefix i)
      \<and> (dap = Some x \<longrightarrow> destination_address_prefix
                              (update_nsg_rule i p sap dap a d de spr dpr pr) = Some x))
   \<and> (\<forall>x. (a = None \<longrightarrow> access (update_nsg_rule i p sap dap a d de spr dpr pr) = access i)
      \<and> (a = Some x \<longrightarrow> access (update_nsg_rule i p sap dap a d de spr dpr pr) = Some x))
   \<and> (\<forall>x. (d = None \<longrightarrow> direction (update_nsg_rule i p sap dap a d de spr dpr pr) = direction i)
      \<and> (d = Some x \<longrightarrow> direction (update_nsg_rule i p sap dap a d de spr dpr pr) = Some x))
   \<and> (\<forall>x. (de = None \<longrightarrow> description (update_nsg_rule i p sap dap a d de spr dpr pr)
                           = description i)
      \<and> (de = Some x \<longrightarrow> description (update_nsg_rule i p sap dap a d de spr dpr pr) = Some x))
   \<and> (\<forall>x. (spr = None \<longrightarrow> source_port_range (update_nsg_rule i p sap dap a d de spr dpr pr)
                            = source_port_range i)
      \<and> (spr = Some x \<longrightarrow> source_port_range (update_nsg_rule i p sap dap a d de spr dpr pr)
                            = Some x))
   \<and> (\<forall>x. (dpr = None \<longrightarrow> destination_port_range (update_nsg_rule i p sap dap a d de spr dpr pr)
                            = destination_port_range i)
      \<and> (dpr = Some x \<longrightarrow> destination_port_range (update_nsg_rule i p sap dap a d de spr dpr pr)
                            = Some x))
   \<and> (\<forall>x. (pr = None \<longrightarrow> priority (update_nsg_rule i p sap dap a d de spr dpr pr) = priority i)
      \<and> (pr = Some x \<longrightarrow> priority (update_nsg_rule i p sap dap a d de spr dpr pr) = Some x))
   \<and> res_id (update_nsg_rule i p sap dap a d de spr dpr pr) = res_id i
   \<and> name (update_nsg_rule i p sap dap a d de spr dpr pr) = name i
   \<and> security_rule.more (update_nsg_rule i p sap dap a d de spr dpr pr) = security_rule.more i
   \<and> (\<forall>x. (ap = None \<longrightarrow> address_prefix (update_route r ap nht nhip) = address_prefix r)
      \<and> (ap = Some x \<longrightarrow> address_prefix (update_route r ap nht nhip) = Some x))
   \<and> (\<forall>x. (nht = None \<longrightarrow> next_hop_type (update_route r ap nht nhip) = next_hop_type r)
      \<and> (nht = Some x \<longrightarrow> next_hop_type (update_route r ap nht nhip) = Some x))
   \<and> (\<forall>x. (nhip = None \<longrightarrow> next_hop_ip_address (update_route r ap nht nhip)
                             = next_hop_ip_address r)
      \<and> (nhip = Some x \<longrightarrow> next_hop_ip_address (update_route r ap nht nhip) = Some x))
   \<and> res_id (update_route r ap nht nhip) = res_id r
   \<and> name (update_route r ap nht nhip) = name r
   \<and> route.more (update_route r ap nht nhip) = route.more r"
  by (intro conjI allI impI)
     (simp_all only: update_nsg_rule_fields update_nsg_rule_frame update_route_fields
        update_route_frame, simp_all)

theorem selective_update_changes_given_fields_only_witness:
  "protocol (update_nsg_rule
       \<lparr> res_id = Some ''id1'', name = Some ''rule1'', protocol = Some ''Tcp'',
         source_address_prefix = Some ''*'', destination_address_prefix = Some ''*'',
         access = Some ''Allow'', direction = Some ''Inbound'', description = None,
         source_port_range = Some ''*'', destination_port_range = Some ''80'',
         priority = Some 100 \<rparr>
       (Some ''Udp'') None None None None None None None (Some 200)) = Some ''Udp''
   \<and> access (update_nsg_rule
       \<lparr> res_id = Some ''id1'', name = Some ''rule1'', protocol = Some ''Tcp'',
         source_address_prefix = Some ''*'', destination_address_prefix = Some ''*'',
         access = Some ''Allow'', direction = Some ''Inbound'', description = None,
         source_port_range = Some ''*'', destination_port_range = Some ''80'',
         priority = Some 100 \<rparr>
       (Some ''Udp'') None None None None None None None (Some 200)) = Some ''Allow''
   \<and> priority (update_nsg_rule
       \<lparr> res_id = Some ''id1'', name = Some ''rule1'', protocol = Some ''Tcp'',
         source_address_prefix = Some ''*'', destination_address_prefix = Some ''*'',
         access = Some ''Allow'', direction = Some ''Inbound'', description = None,
         source_port_range = Some ''*'', destination_port_range = Some ''80'',
         priority = Some 100 \<rparr>
       (Some ''Udp'') None None None None None None None (Some 200)) = Some 200
   \<and> address_prefix (update_route
       \<lparr> res_id = None, name = Some ''route1'', address_prefix = Some ''10.0.0.0/16'',
         next_hop_type = Some ''VnetLocal'', next_hop_ip_address = None \<rparr>
       None (Some ''VirtualAppliance'') (Some ''10.0.0.4'')) = Some ''10.0.0.0/16''
   \<and> next_hop_type (update_route
       \<lparr> res_id = None, name = Some ''route1'', address_prefix = Some ''10.0.0.0/16'',
         next_hop_type = Some ''VnetLocal'', next_hop_ip_address = None \<rparr>
       None (Some ''VirtualAppliance'') (Some ''10.0.0.4'')) = Some ''VirtualAppliance''"
proof -
  let ?i = "\<lparr> res_id = Some ''id1'', name = Some ''rule1'', protocol = Some ''Tcp'',
         source_address_prefix = Some ''*'', destination_address_prefix = Some ''*'',
         access = Some ''Allow'', direction = Some ''Inbound'', description = None,
         source_port_range = Some ''*'', destination_port_range = Some ''80'',
         priority = Some 100 \<rparr>"
  let ?r = "\<lparr> res_id = None, name = Some ''route1'', address_prefix = Some ''10.0.0.0/16'',
         next_hop_type = Some ''VnetLocal'', next_hop_ip_address = None \<rparr>"
  from selective_update_changes_given_fields_only
    [of "Some ''Udp''" ?i None None None None None None None "Some 200"
        None ?r "Some ''VirtualAppliance''" "Some ''10.0.0.4''"]
  show ?thesis
    by simp
qed

section \<open>Client-side checks of \<^verbatim>\<open>create_express_route_peering\<close>\<close>

lemma vlan_in_use_None: "vlan_in_use ps v = None \<longleftrightarrow> list_all (\<lambda>p. vlan_id p \<noteq> v) ps"
  by (induction ps) auto

lemma vlan_in_use_Some: "vlan_in_use ps v = Some e \<Longrightarrow> \<exists>m. e = CLIError m"
  by (induction ps) (auto split: if_splits)

text \<open>
  C10. \<^verbatim>\<open>create_express_route_peering\<close> raises a \<^verbatim>\<open>CLIError\<close>, and submits nothing, when
  the peering type is \<^verbatim>\<open>MicrosoftPeering\<close> on a circuit of the \<^verbatim>\<open>Standard\<close> tier and when
  an existing peering of the circuit has the requested VLAN id; in every other case it
  submits the constructed peering.
\<close>

theorem create_express_route_peering_checks:
  "(pt = microsoft_peering \<and> tier (sku circuit) = Some sku_tier_standard \<longrightarrow>
      (\<exists>m. create_express_route_peering circuit rg cn pt asn v pp sp sk app casn rrn
            = Inl (CLIError m)))
   \<and> ((\<exists>p \<in> set (peerings circuit). vlan_id p = v) \<longrightarrow>
      (\<exists>m. create_express_route_peering circuit rg cn pt asn v pp sp sk app casn rrn
            = Inl (CLIError m)))
   \<and> (\<not> (pt = microsoft_peering \<and> tier (sku circuit) = Some sku_tier_standard)
       \<and> (\<forall>p \<in> set (peerings circuit). vlan_id p \<noteq> v) \<longrightarrow>
      create_express_route_peering circuit rg cn pt asn v pp sp sk app casn rrn
        = Inr \<lparr> req_resource_group_name = rg, req_circuit_name = cn, req_peering_type = pt,
                req_peering = new_express_route_peering pt asn v pp sp sk app casn rrn \<rparr>)"
proof (intro conjI impI)
  assume "pt = microsoft_peering \<and> tier (sku circuit) = Some sku_tier_standard"
  then show "\<exists>m. create_express_route_peering circuit rg cn pt asn v pp sp sk app casn rrn
            = Inl (CLIError m)"
    by (simp add: create_express_route_peering_def)
next
  assume "\<exists>p \<in> set (peerings circuit). vlan_id p = v"
  then have "\<not> list_all (\<lambda>p. vlan_id p \<noteq> v) (peerings circuit)"
    by (simp add: list_all_iff)
  then obtain e where e: "vlan_in_use (peerings circuit) v = Some e"
    by (cases "vlan_in_use (peerings circuit) v") (auto simp: vlan_in_use_None)
  from vlan_in_use_Some [OF e] obtain m where "e = CLIError m" ..
  with e show "\<exists>m. create_express_route_peering circuit rg cn pt asn v pp sp sk app casn rrn
            = Inl (CLIError m)"
    by (simp add: create_express_route_peering_def)
next
  assume a: "\<not> (pt = microsoft_peering \<and> tier (sku circuit) = Some sku_tier_standard)
       \<and> (\<forall>p \<in> set (peerings circuit). vlan_id p \<noteq> v)"
  then have "vlan_in_use (peerings circuit) v = None"
    by (simp add: vlan_in_use_None list_all_iff)
  with a show "create_express_route_peering circuit rg cn pt asn v pp sp sk app casn rrn
        = Inr \<lparr> req_resource_group_name = rg, req_circuit_name = cn, req_peering_type = pt,
                req_peering = new_express_route_peering pt asn v pp sp sk app casn rrn \<rparr>"
    by (auto simp: create_express_route_peering_def)
qed

theorem create_express_route_peering_checks_witness:
  "(\<exists>m. create_express_route_peering
          \<lparr> sku = \<lparr> tier = Some ''Standard'' \<rparr>, peerings = [] \<rparr>
          ''rg'' ''circuit1'' ''MicrosoftPeering'' (PInt 100) (PInt 200) (PStr ''10.0.0.0/30'')
          (PStr ''10.0.0.4/30'') PNone PNone PNone PNone = Inl (CLIError m))
   \<and> (\<exists>m. create_express_route_peering
          \<lparr> sku = \<lparr> tier = Some ''Premium'' \<rparr>,
            peerings = [new_express_route_peering ''AzurePrivatePeering'' (PInt 100) (PInt 200)
                          (PStr ''10.0.0.0/30'') (PStr ''10.0.0.4/30'') PNone PNone PNone PNone] \<rparr>
          ''rg'' ''circuit1'' ''AzurePublicPeering'' (PInt 100) (PInt 200) (PStr ''10.0.1.0/30'')
          (PStr ''10.0.1.4/30'') PNone PNone PNone PNone = Inl (CLIError m))
   \<and> create_express_route_peering
          \<lparr> sku = \<lparr> tier = Some ''Premium'' \<rparr>,
            peerings = [new_express_route_peering ''AzurePrivatePeering'' (PInt 100) (PInt 200)
                          (PStr ''10.0.0.0/30'') (PStr ''10.0.0.4/30'') PNone PNone PNone PNone] \<rparr>
          ''rg'' ''circuit1'' ''MicrosoftPeering'' (PInt 100) (PInt 300) (PStr ''10.0.1.0/30'')
          (PStr ''10.0.1.4/30'') PNone (PStr ''10.1.0.0/24'') PNone PNone
       = Inr \<lparr> req_resource_group_name = ''rg'', req_circuit_name = ''circuit1'',
               req_peering_type = ''MicrosoftPeering'',
               req_peering = new_express_route_peering ''MicrosoftPeering'' (PInt 100) (PInt 300)
                 (PStr ''10.0.1.0/30'') (PStr ''10.0.1.4/30'') PNone (PStr ''10.1.0.0/24'')
                 PNone PNone \<rparr>"
proof -
  let ?old = "new_express_route_peering ''AzurePrivatePeering'' (PInt 100) (PInt 200)
                (PStr ''10.0.0.0/30'') (PStr ''10.0.0.4/30'') PNone PNone PNone PNone"
  let ?std = "\<lparr> sku = \<lparr> tier = Some ''Standard'' \<rparr>, peerings = [] \<rparr>"
  let ?prem = "\<lparr> sku = \<lparr> tier = Some ''Premium'' \<rparr>, peerings = [?old] \<rparr>"
  note t = create_express_route_peering_checks
  have h1: "''MicrosoftPeering'' = microsoft_peering \<and> tier (sku ?std) = Some sku_tier_standard"
    by (simp add: microsoft_peering_def sku_tier_standard_def)
  have h2: "\<exists>p \<in> set (peerings ?prem). vlan_id p = PInt 200"
    by (simp add: new_express_route_peering_def)
  have h3: "\<not> (''MicrosoftPeering'' = microsoft_peering
                \<and> tier (sku ?prem) = Some sku_tier_standard)
            \<and> (\<forall>p \<in> set (peerings ?prem). vlan_id p \<noteq> PInt 300)"
    by (simp add: new_express_route_peering_def sku_tier_standard_def)
  show ?thesis
    by (intro conjI t [THEN conjunct1, THEN mp, OF h1]
          t [THEN conjunct2, THEN conjunct1, THEN mp, OF h2]
          t [THEN conjunct2, THEN conjunct2, THEN mp, OF h3])
qed

section \<open>Lookups of a named element\<close>

lemma find_index_from_None:
  "find_index_from P xs i = None \<longleftrightarrow> list_all (\<lambda>x. \<not> P x) xs"
  by (induction xs arbitrary: i) auto

lemma find_index_from_Some:
  "find_index_from P xs i = Some j \<Longrightarrow> i \<le> j \<and> j - i < length xs \<and> P (xs ! (j - i))"
proof (induction xs arbitrary: i)
  case Nil
  then show ?case by simp
next
  case (Cons x xs)
  show ?case
  proof (cases "P x")
    case True
    with Cons.prems show ?thesis by simp
  next
    case False
    with Cons.prems have "find_index_from P xs (Suc i) = Some j" by simp
    from Cons.IH [OF this] have "Suc i \<le> j" "j - Suc i < length xs" "P (xs ! (j - Suc i))"
      by blast+
    then show ?thesis
      by (simp add: Suc_diff_Suc Suc_le_eq)
  qed
qed

text \<open>
  With a certificate list, \<^verbatim>\<open>delete_vnet_gateway_root_cert\<close> raises its \<^verbatim>\<open>CLIError\<close>
  exactly when no certificate has the name, and otherwise submits the gateway without
  the first certificate of that name.
\<close>

lemma delete_vnet_gateway_root_cert_list:
  assumes "vpn_client_config gw = Some config"
    and "vpn_client_root_certificates config = Some certs"
  shows "(list_all (\<lambda>c. name c \<noteq> Some cert_name) certs \<longrightarrow>
            (\<exists>m. delete_vnet_gateway_root_cert gw gn cert_name = Inl (CLIError m)))
       \<and> (\<not> list_all (\<lambda>c. name c \<noteq> Some cert_name) certs \<longrightarrow>
            (\<exists>cert. find (\<lambda>c. name c = Some cert_name) certs = Some cert
               \<and> delete_vnet_gateway_root_cert gw gn cert_name
                   = Inr (gw \<lparr> vpn_client_config := Some (config
                       \<lparr> vpn_client_root_certificates := Some (remove1 cert certs) \<rparr>) \<rparr>)))"
proof (intro conjI impI)
  assume "list_all (\<lambda>c. name c \<noteq> Some cert_name) certs"
  then have "find (\<lambda>c. name c = Some cert_name) certs = None"
    by (simp add: find_None_iff list_all_iff)
  with assms show "\<exists>m. delete_vnet_gateway_root_cert gw gn cert_name = Inl (CLIError m)"
    by (simp add: delete_vnet_gateway_root_cert_def)
next
  assume "\<not> list_all (\<lambda>c. name c \<noteq> Some cert_name) certs"
  then obtain cert where "find (\<lambda>c. name c = Some cert_name) certs = Some cert"
    by (cases "find (\<lambda>c. name c = Some cert_name) certs") (auto simp: find_None_iff list_all_iff)
  with assms show "\<exists>cert. find (\<lambda>c. name c = Some cert_name) certs = Some cert
               \<and> delete_vnet_gateway_root_cert gw gn cert_name
                   = Inr (gw \<lparr> vpn_client_config := Some (config
                       \<lparr> vpn_client_root_certificates := Some (remove1 cert certs) \<rparr>) \<rparr>)"
    by (simp add: delete_vnet_gateway_root_cert_def)
qed

lemma delete_vnet_gateway_root_cert_no_config:
  "vpn_client_config gw = None \<Longrightarrow>
   \<exists>m. delete_vnet_gateway_root_cert gw gn cert_name = Inl (CLIError m)"
  by (simp add: delete_vnet_gateway_root_cert_def)

text \<open>
  \<^verbatim>\<open>create_ag_url_path_map_rule\<close> raises its \<^verbatim>\<open>CLIError\<close> exactly when no URL path map
  has the name.
\<close>

lemma create_ag_url_path_map_rule_not_found:
  "(\<exists>m. create_ag_url_path_map_rule ag map_name item_name ps pool settings
        = Inl (CLIError m))
   \<longleftrightarrow> list_all (\<lambda>x. name x \<noteq> Some map_name) (url_path_maps ag)"
proof (cases "find_index_from (\<lambda>x. name x = Some map_name) (url_path_maps ag) 0")
  case None
  then have "list_all (\<lambda>x. name x \<noteq> Some map_name) (url_path_maps ag)"
    by (simp add: find_index_from_None)
  with None show ?thesis
    by (simp add: create_ag_url_path_map_rule_def)
next
  case (Some i)
  then have "\<not> list_all (\<lambda>x. name x \<noteq> Some map_name) (url_path_maps ag)"
    using find_index_from_None [of "\<lambda>x. name x = Some map_name" "url_path_maps ag" 0]
    by simp
  moreover from Some
  have "\<not> (\<exists>m. create_ag_url_path_map_rule ag map_name item_name ps pool settings
              = Inl (CLIError m))"
    by (auto simp: create_ag_url_path_map_rule_def sub_resource_id_def Let_def
          split: option.splits sum.splits if_splits sub_resource.splits)
  ultimately show ?thesis
    by blast
qed

text \<open>
  \<^verbatim>\<open>remove_nic_ip_config_address_pool\<close> looks the IP configuration up by its lower-cased
  name; when every configuration has a name, it raises its \<^verbatim>\<open>CLIError\<close> exactly when no
  configuration has the name.
\<close>

lemma find_by_lower_name_named:
  assumes "list_all (\<lambda>x. name x \<noteq> None) xs"
  shows "(find_by_lower_name xs n i = Inr None
            \<longleftrightarrow> list_all (\<lambda>x. map_option lower (name x) \<noteq> Some (lower n)) xs)
         \<and> find_by_lower_name xs n i \<noteq> Inl e"
  using assms
proof (induction xs arbitrary: i)
  case Nil
  then show ?case by simp
next
  case (Cons x xs)
  from Cons.prems obtain m where m: "name x = Some m" and r: "list_all (\<lambda>x. name x \<noteq> None) xs"
    by auto
  note ih = Cons.IH [OF r, of "Suc i"]
  show ?case
  proof (cases "lower m = lower n")
    case True
    with m show ?thesis by simp
  next
    case False
    with m ih show ?thesis by simp
  qed
qed

lemma remove_nic_ip_config_address_pool_not_found:
  assumes "list_all (\<lambda>x. name x \<noteq> None) (ip_configurations nic)"
  shows "(\<exists>m. remove_nic_ip_config_address_pool nic n pool = Inl (CLIError m))
         \<longleftrightarrow> list_all (\<lambda>x. map_option lower (name x) \<noteq> Some (lower n)) (ip_configurations nic)"
proof (cases "find_by_lower_name (ip_configurations nic) n 0")
  case (Inl e)
  with find_by_lower_name_named [OF assms, of n 0 e] show ?thesis
    by simp
next
  case (Inr r)
  show ?thesis
  proof (cases r)
    case None
    with Inr find_by_lower_name_named [OF assms, of n 0] show ?thesis
      by (simp add: remove_nic_ip_config_address_pool_def)
  next
    case (Some j)
    with Inr find_by_lower_name_named [OF assms, of n 0]
    have "\<not> list_all (\<lambda>x. map_option lower (name x) \<noteq> Some (lower n)) (ip_configurations nic)"
      by auto
    with Inr Some show ?thesis
      by (simp add: remove_nic_ip_config_address_pool_def Let_def)
  qed
qed

text \<open>
  C3, failing input. A gateway whose client configuration exists but has no root
  certificate list (the state that \<^verbatim>\<open>create_vnet_gateway_root_cert\<close> repairs before its
  upsert): no certificate of any name is present, yet \<^verbatim>\<open>delete_vnet_gateway_root_cert\<close>
  ends in a \<^verbatim>\<open>TypeError\<close>, which is not the client error, while the create command on
  the same gateway succeeds.
\<close>

theorem delete_vnet_gateway_root_cert_type_error:
  "delete_vnet_gateway_root_cert
     \<lparr> vpn_client_config = Some \<lparr> vpn_client_root_certificates = None \<rparr> \<rparr> ''gw1'' ''root1''
     = Inl TypeError
   \<and> gateway_root_certs \<lparr> vpn_client_config = Some \<lparr> vpn_client_root_certificates = None \<rparr> \<rparr>
     = []
   \<and> create_vnet_gateway_root_cert
     \<lparr> vpn_client_config = Some \<lparr> vpn_client_root_certificates = None \<rparr> \<rparr> ''gw1'' ''data''
       ''root1''
     = Inr \<lparr> vpn_client_config =
             Some \<lparr> vpn_client_root_certificates = Some [new_root_cert ''root1'' ''data''] \<rparr> \<rparr>"
  by (simp add: delete_vnet_gateway_root_cert_def gateway_root_certs_def
        create_vnet_gateway_root_cert_def upsert_def)

section \<open>Zone export: what a record set adds\<close>

text \<open>The type-specific fields of a record built by the SDK constructors.\<close>

lemma export_record_fields_by_type:
  "export_record_fields ''aaaa'' (Some (AaaaRecord ip)) = Inr [(''ip'', ip)]"
  "export_record_fields ''a'' (Some (ARecord ip)) = Inr [(''ip'', ip)]"
  "export_record_fields ''cname'' (Some (CnameRecord c)) = Inr [(''alias'', c)]"
  "export_record_fields ''mx'' (Some (MxRecord pref ex)) = Inr [(''preference'', pref), (''host'', ex)]"
  "export_record_fields ''ns'' (Some (NsRecord d)) = Inr [(''host'', d)]"
  "export_record_fields ''ptr'' (Some (PtrRecord d)) = Inr [(''host'', d)]"
  "export_record_fields ''soa'' (Some (SoaRecord (PStr h) (PStr m) ser refr retr ex mi))
     = Inr [(''mname'', PStr (rstrip_dot h @ ''.'')), (''rname'', PStr (rstrip_dot m @ ''.'')),
            (''serial'', ser), (''refresh'', refr), (''retry'', retr), (''expire'', ex),
            (''minimum'', mi)]"
  "export_record_fields ''srv'' (Some (SrvRecord pr w po ta))
     = Inr [(''priority'', pr), (''weight'', w), (''port'', po), (''target'', ta)]"
  "export_record_fields ''txt'' (Some (TxtRecord (PList (map PStr ss))))
     = Inr [(''txt'', PStr (join '' '' ss))]"
proof -
  have s: "str_items (map PStr ss) = Some ss"
    by (induction ss) simp_all
  show "export_record_fields ''txt'' (Some (TxtRecord (PList (map PStr ss))))
     = Inr [(''txt'', PStr (join '' '' ss))]"
    by (simp add: export_record_fields_def record_attr_def getattr_record_def record_dict_def
          TxtRecord_def join_blank_def s)
qed (simp_all add: export_record_fields_def record_attr_def getattr_record_def record_dict_def
       AaaaRecord_def ARecord_def CnameRecord_def MxRecord_def NsRecord_def PtrRecord_def
       SoaRecord_def SrvRecord_def with_final_dot_def)

text \<open>
  A record set without record data leaves the zone object as it is.
\<close>

lemma export_record_set_empty:
  assumes "after_last_slash (rs_type rs) = Inr t"
    and "type_to_property_name (lower t) = Inr p"
    and "getattr_record_set rs p = RNone \<or> getattr_record_set rs p = RList []"
  shows "export_record_set zone rs = Inr zone"
  using assms by (auto simp: export_record_set_def Let_def)

text \<open>
  One record whose fields can be read adds one field dictionary, the TTL of the record
  set followed by the fields, at the end of the list under the record type, provided
  the record-set name is bound to a dictionary of types.
\<close>

lemma export_record_appends:
  assumes z: "map_of zone n = Some (ZTypes ts)"
    and f: "export_record_fields t r = Inr f"
    and t: "t \<noteq> ''soa''"
  shows "export_record zone n t l r =
           Inr (AList.update n
                  (ZTypes (AList.update t
                     ((case map_of ts t of None \<Rightarrow> [] | Some objs \<Rightarrow> objs) @ [(''ttl'', l) # f]) ts))
                  zone)"
proof (cases "map_of ts t")
  case None
  with z have e: "ensure_type_list zone n t
                    = Inr (AList.update n (ZTypes (AList.update t [] ts)) zone)"
    by (simp add: ensure_type_list_def dict_item_def)
  have "append_record_obj (AList.update n (ZTypes (AList.update t [] ts)) zone) n t
          ((''ttl'', l) # f)
        = Inr (AList.update n (ZTypes (AList.update t ([] @ [(''ttl'', l) # f]) ts)) zone)"
    by (simp add: append_record_obj_def dict_item_def update_conv')
  with e f t None show ?thesis
    by (simp add: export_record_def)
next
  case (Some objs)
  with z have e: "ensure_type_list zone n t = Inr zone"
    by (simp add: ensure_type_list_def dict_item_def)
  from z Some have "append_record_obj zone n t ((''ttl'', l) # f)
        = Inr (AList.update n (ZTypes (AList.update t (objs @ [(''ttl'', l) # f]) ts)) zone)"
    by (simp add: append_record_obj_def dict_item_def)
  with e f t Some show ?thesis
    by (simp add: export_record_def)
qed

text \<open>
  Hence a list of records whose fields can be read adds one field dictionary per
  record, in order.
\<close>

lemma export_records_appends:
  assumes "map_of zone n = Some (ZTypes ts)"
    and "t \<noteq> ''soa''"
    and "map (export_record_fields t) rs = map Inr fs"
  shows "export_records zone n t l rs =
           Inr (if rs = [] then zone
                else AList.update n
                  (ZTypes (AList.update t
                     ((case map_of ts t of None \<Rightarrow> [] | Some objs \<Rightarrow> objs)
                        @ map (\<lambda>f. (''ttl'', l) # f) fs) ts))
                  zone)"
  using assms
proof (induction rs arbitrary: zone ts fs)
  case Nil
  then show ?case by simp
next
  case (Cons r rs)
  from Cons.prems(3) obtain f fs' where
    fs: "fs = f # fs'" and f: "export_record_fields t r = Inr f"
    and rest: "map (export_record_fields t) rs = map Inr fs'"
    by (cases fs) auto
  let ?old = "case map_of ts t of None \<Rightarrow> [] | Some objs \<Rightarrow> objs"
  let ?ts1 = "AList.update t (?old @ [(''ttl'', l) # f]) ts"
  let ?zone1 = "AList.update n (ZTypes ?ts1) zone"
  have s: "export_record zone n t l r = Inr ?zone1"
    by (rule export_record_appends [OF Cons.prems(1) f Cons.prems(2)])
  have z1: "map_of ?zone1 n = Some (ZTypes ?ts1)"
    by (simp add: update_conv')
  have o1: "(case map_of ?ts1 t of None \<Rightarrow> [] | Some objs \<Rightarrow> objs) = ?old @ [(''ttl'', l) # f]"
    by (simp add: update_conv')
  show ?case
  proof (cases "rs = []")
    case True
    with rest have "fs' = []" by simp
    with True s fs show ?thesis by simp
  next
    case False
    from Cons.IH [OF z1 Cons.prems(2) rest, unfolded o1] False
    have "export_records ?zone1 n t l rs =
            Inr (AList.update n
                   (ZTypes (AList.update t
                      ((?old @ [(''ttl'', l) # f]) @ map (\<lambda>f. (''ttl'', l) # f) fs') ?ts1))
                   ?zone1)"
      by simp
    with s fs show ?thesis
      by simp
  qed
qed

text \<open>
  A record set of a list type other than SOA, under a name that is not bound to a plain
  value of the zone object: its records are added under its name and lower-cased type,
  one field dictionary per record.
\<close>

lemma export_record_set_adds:
  assumes ty: "after_last_slash (rs_type rs) = Inr t"
    and p: "type_to_property_name (lower t) = Inr p"
    and d: "getattr_record_set rs p = RList (r # rest)"
    and s: "lower t \<noteq> ''soa''"
    and f: "map (export_record_fields (lower t)) (r # rest) = map Inr fs"
    and z: "map_of zone (rs_name rs) = None \<and> ts = []
            \<or> map_of zone (rs_name rs) = Some (ZTypes ts)"
  shows "export_record_set zone rs =
           Inr (AList.update (rs_name rs)
                  (ZTypes (AList.update (lower t)
                     ((case map_of ts (lower t) of None \<Rightarrow> [] | Some objs \<Rightarrow> objs)
                        @ map (\<lambda>f. (''ttl'', ttl rs) # f) fs) ts))
                  zone)"
proof -
  let ?zone0 = "if map_of zone (rs_name rs) = None
                then AList.update (rs_name rs) (ZTypes []) zone else zone"
  from z have z0: "map_of ?zone0 (rs_name rs) = Some (ZTypes ts)"
    by (auto simp: update_conv')
  have u: "AList.update (rs_name rs) v ?zone0 = AList.update (rs_name rs) v zone" for v
    by simp
  from export_records_appends [OF z0 s f, of "ttl rs"]
  have "export_records ?zone0 (rs_name rs) (lower t) (ttl rs) (r # rest) =
           Inr (AList.update (rs_name rs)
                  (ZTypes (AList.update (lower t)
                     ((case map_of ts (lower t) of None \<Rightarrow> [] | Some objs \<Rightarrow> objs)
                        @ map (\<lambda>f. (''ttl'', ttl rs) # f) fs) ts))
                  zone)"
    unfolding u by simp
  with ty p d show ?thesis
    by (simp add: export_record_set_def Let_def)
qed

text \<open>
  An SOA record is exported with its seven fields, and the \<^verbatim>\<open>$ttl\<close> of the zone object
  becomes its minimum TTL.
\<close>

lemma export_record_soa:
  assumes z: "map_of zone n = Some (ZTypes ts)"
    and n: "n \<noteq> ''$ttl''"
    and r: "record = Some (SoaRecord (PStr h) (PStr m) ser refr retr ex mi)"
  shows "\<exists>zone'. export_record zone n ''soa'' l record = Inr zone'
           \<and> map_of zone' ''$ttl'' = Some (ZVal mi)
           \<and> map_of zone' n = Some (ZTypes (AList.update ''soa''
                ((case map_of ts ''soa'' of None \<Rightarrow> [] | Some objs \<Rightarrow> objs)
                   @ [[(''ttl'', l), (''mname'', PStr (rstrip_dot h @ ''.'')),
                       (''rname'', PStr (rstrip_dot m @ ''.'')), (''serial'', ser),
                       (''refresh'', refr), (''retry'', retr), (''expire'', ex),
                       (''minimum'', mi)]]) ts))"
proof -
  have a: "record_attr record ''minimum_ttl'' = Inr mi"
    by (simp add: r record_attr_def getattr_record_def record_dict_def SoaRecord_def)
  note f = export_record_fields_by_type(7) [of h m ser refr retr ex mi]
  show ?thesis
  proof (cases "map_of ts ''soa''")
    case None
    with z have e: "ensure_type_list zone n ''soa''
                    = Inr (AList.update n (ZTypes (AList.update ''soa'' [] ts)) zone)"
      by (simp add: ensure_type_list_def dict_item_def)
    show ?thesis
      using n None
      by (simp add: export_record_def e r f a [unfolded r] append_record_obj_def dict_item_def
            update_conv')
  next
    case (Some objs)
    with z have e: "ensure_type_list zone n ''soa'' = Inr zone"
      by (simp add: ensure_type_list_def dict_item_def)
    show ?thesis
      using n z Some
      by (simp add: export_record_def e r f a [unfolded r] append_record_obj_def dict_item_def
            update_conv')
  qed
qed


section \<open>Zone export: lost distinctions and reserved names\<close>

text \<open>
  C2, failing input. Two TXT record sets with different record data, one string
  \<^verbatim>\<open>a b\<close> against the two strings \<^verbatim>\<open>a\<close> and \<^verbatim>\<open>b\<close>, are exported to the same zone
  object, because \<^verbatim>\<open>export_zone\<close> joins the strings of a TXT record with blanks. The zone
  file text is computed from the zone object alone, so whatever \<^verbatim>\<open>make_zone_file\<close>,
  \<^verbatim>\<open>parse_zone_file\<close> and \<^verbatim>\<open>import_zone\<close> do, no import gives back both record sets.
\<close>

theorem export_zone_txt_not_injective:
  "export_zone rg zn now
     [(RecordSet ''t'' ''Microsoft.Network/dnszones/TXT'' (PInt 3600))
        \<lparr> txt_records := RList [Some (TxtRecord (PList [PStr ''a b'']))] \<rparr>]
   = export_zone rg zn now
     [(RecordSet ''t'' ''Microsoft.Network/dnszones/TXT'' (PInt 3600))
        \<lparr> txt_records := RList [Some (TxtRecord (PList [PStr ''a'', PStr ''b'']))] \<rparr>]
   \<and> export_zone rg zn now
     [(RecordSet ''t'' ''Microsoft.Network/dnszones/TXT'' (PInt 3600))
        \<lparr> txt_records := RList [Some (TxtRecord (PList [PStr ''a b'']))] \<rparr>]
   = Inr [(''$origin'', ZVal (PStr (rstrip_dot zn @ ''.''))),
          (''resource-group'', ZVal (PStr rg)),
          (''zone-name'', ZVal (PStr (rstrip_dot zn))),
          (''datetime'', ZVal (PStr now)),
          (''t'', ZTypes [(''txt'', [[(''ttl'', PInt 3600), (''txt'', PStr ''a b'')]])])]
   \<and> \<not> (\<exists>import_text.
         import_text (export_zone rg zn now
           [(RecordSet ''t'' ''Microsoft.Network/dnszones/TXT'' (PInt 3600))
              \<lparr> txt_records := RList [Some (TxtRecord (PList [PStr ''a b'']))] \<rparr>])
           = [(RecordSet ''t'' ''Microsoft.Network/dnszones/TXT'' (PInt 3600))
                \<lparr> txt_records := RList [Some (TxtRecord (PList [PStr ''a b'']))] \<rparr>]
         \<and> import_text (export_zone rg zn now
           [(RecordSet ''t'' ''Microsoft.Network/dnszones/TXT'' (PInt 3600))
              \<lparr> txt_records := RList [Some (TxtRecord (PList [PStr ''a'', PStr ''b'']))] \<rparr>])
           = [(RecordSet ''t'' ''Microsoft.Network/dnszones/TXT'' (PInt 3600))
                \<lparr> txt_records := RList [Some (TxtRecord (PList [PStr ''a'', PStr ''b'']))] \<rparr>])"
proof -
  let ?t1 = "(RecordSet ''t'' ''Microsoft.Network/dnszones/TXT'' (PInt 3600))
        \<lparr> txt_records := RList [Some (TxtRecord (PList [PStr ''a b'']))] \<rparr>"
  let ?t2 = "(RecordSet ''t'' ''Microsoft.Network/dnszones/TXT'' (PInt 3600))
        \<lparr> txt_records := RList [Some (TxtRecord (PList [PStr ''a'', PStr ''b'']))] \<rparr>"
  let ?z = "Inr [(''$origin'', ZVal (PStr (rstrip_dot zn @ ''.''))),
          (''resource-group'', ZVal (PStr rg)),
          (''zone-name'', ZVal (PStr (rstrip_dot zn))),
          (''datetime'', ZVal (PStr now)),
          (''t'', ZTypes [(''txt'', [[(''ttl'', PInt 3600), (''txt'', PStr ''a b'')]])])]"
  have t: "after_last_slash ''Microsoft.Network/dnszones/TXT'' = Inr ''TXT''"
    by (simp add: after_last_slash_def)
  have l: "lower ''TXT'' = ''txt''"
    by code_simp
  have p: "type_to_property_name ''txt'' = Inr ''txt_records''"
    by code_simp
  have e1: "export_zone rg zn now [?t1] = ?z"
    by (simp add: export_zone_def export_record_set_def t l p RecordSet_def
          getattr_record_set_def export_record_def ensure_type_list_def dict_item_def
          export_record_fields_def record_attr_def getattr_record_def record_dict_def
          TxtRecord_def join_blank_def append_record_obj_def Let_def)
  have e2: "export_zone rg zn now [?t2] = ?z"
    by (simp add: export_zone_def export_record_set_def t l p RecordSet_def
          getattr_record_set_def export_record_def ensure_type_list_def dict_item_def
          export_record_fields_def record_attr_def getattr_record_def record_dict_def
          TxtRecord_def join_blank_def append_record_obj_def Let_def)
  have ne: "?t1 \<noteq> ?t2"
    by (simp add: RecordSet_def TxtRecord_def)
  have "\<not> (\<exists>import_text. import_text (export_zone rg zn now [?t1]) = [?t1]
           \<and> import_text (export_zone rg zn now [?t2]) = [?t2])"
    using ne unfolding e1 e2 by auto
  with e1 e2 show ?thesis
    by simp
qed

text \<open>
  C5, failing input. A record set named \<^verbatim>\<open>datetime\<close> holds one A record. The name is
  already a key of the zone object, bound to the time stamp, so the record-set name gets
  no dictionary of its own and the export ends in a \<^verbatim>\<open>TypeError\<close> instead of adding a
  field dictionary for the record; the same record set under another name is exported.
\<close>

theorem export_zone_reserved_name_type_error:
  "export_zone ''rg'' ''example.com'' ''Mon, 02 Jan 2017 10:00:00 +0000''
     [(RecordSet ''datetime'' ''Microsoft.Network/dnszones/A'' (PInt 3600))
        \<lparr> arecords := RList [Some (ARecord (PStr ''1.2.3.4''))] \<rparr>]
   = Inl TypeError
   \<and> export_zone ''rg'' ''example.com'' ''Mon, 02 Jan 2017 10:00:00 +0000''
     [(RecordSet ''www'' ''Microsoft.Network/dnszones/A'' (PInt 3600))
        \<lparr> arecords := RList [Some (ARecord (PStr ''1.2.3.4''))] \<rparr>]
   = Inr [(''$origin'', ZVal (PStr ''example.com.'')),
          (''resource-group'', ZVal (PStr ''rg'')),
          (''zone-name'', ZVal (PStr ''example.com'')),
          (''datetime'', ZVal (PStr ''Mon, 02 Jan 2017 10:00:00 +0000'')),
          (''www'', ZTypes [(''a'', [[(''ttl'', PInt 3600), (''ip'', PStr ''1.2.3.4'')]])])]"
  by code_simp

section \<open>Record sets and their keys\<close>

lemma type_to_property_name_cases:
  "type_to_property_name t = Inr p \<Longrightarrow>
   p = ''arecords'' \<or> p = ''aaaa_records'' \<or> p = ''cname_record'' \<or> p = ''mx_records''
   \<or> p = ''ns_records'' \<or> p = ''ptr_records'' \<or> p = ''soa_record'' \<or> p = ''srv_records''
   \<or> p = ''txt_records''"
  by (auto simp: type_to_property_name_def type_dict_def dict_item_def split: if_splits)

lemma getattr_setattr_record_set:
  "type_to_property_name t = Inr p \<Longrightarrow>
   getattr_record_set (setattr_record_set rs p v) p = v"
  by (drule type_to_property_name_cases)
     (auto simp: getattr_record_set_def setattr_record_set_def)

lemma getattr_RecordSet: "getattr_record_set (RecordSet n t l) p = RNone"
  by (simp add: getattr_record_set_def RecordSet_def)

lemma lower_char_dot: "lower_char c = CHR ''.'' \<longleftrightarrow> c = CHR ''.''"
proof
  assume a: "lower_char c = CHR ''.''"
  show "c = CHR ''.''"
  proof (cases "65 \<le> (of_char c :: nat) \<and> (of_char c :: nat) \<le> 90")
    case True
    with a have "char_of ((of_char c :: nat) + 32) = CHR ''.''"
      by (simp add: lower_char_def)
    then have "(of_char (char_of ((of_char c :: nat) + 32) :: char) :: nat) = of_char CHR ''.''"
      by simp
    with True show ?thesis
      by (simp add: of_char_of)
  next
    case False
    with a show ?thesis by (simp add: lower_char_def)
  qed
next
  assume "c = CHR ''.''"
  then show "lower_char c = CHR ''.''"
    by (simp add: lower_char_def)
qed

lemma parsed_name_lower: "parsed_name n \<Longrightarrow> lower n \<noteq> [] \<and> last (lower n) = CHR ''.''"
  by (simp add: parsed_name_def lower_def last_map lower_char_dot)

lemma dotted_append_eq:
  assumes a: "a \<noteq> []" "last a = CHR ''.''" and b: "b \<noteq> []" "last b = CHR ''.''"
    and t: "CHR ''.'' \<notin> set t" and u: "CHR ''.'' \<notin> set u"
    and e: "a @ t = b @ u"
  shows "a = b \<and> t = u"
proof -
  from e obtain w where w: "a = b @ w \<and> w @ t = u \<or> a @ w = b \<and> t = w @ u"
    by (auto simp: append_eq_append_conv2)
  then show ?thesis
  proof
    assume h: "a = b @ w \<and> w @ t = u"
    have "w = []"
    proof (rule ccontr)
      assume n: "w \<noteq> []"
      with h a have "last w = CHR ''.''" by simp
      with n have "CHR ''.'' \<in> set w" by (metis last_in_set)
      with h u show False by auto
    qed
    with h show ?thesis by simp
  next
    assume h: "a @ w = b \<and> t = w @ u"
    have "w = []"
    proof (rule ccontr)
      assume n: "w \<noteq> []"
      with h b have "last w = CHR ''.''" by auto
      with n have "CHR ''.'' \<in> set w" by (metis last_in_set)
      with h t show False by auto
    qed
    with h show ?thesis by simp
  qed
qed

lemma record_set_key_inj:
  assumes "parsed_name n" "parsed_name n'" "CHR ''.'' \<notin> set t" "CHR ''.'' \<notin> set t'"
  shows "record_set_key n t = record_set_key n' t' \<longleftrightarrow> lower n = lower n' \<and> t = t'"
proof
  assume "record_set_key n t = record_set_key n' t'"
  then have e: "lower n @ t = lower n' @ t'"
    by (simp add: record_set_key_def)
  from parsed_name_lower [OF assms(1)] parsed_name_lower [OF assms(2)] assms(3,4) e
  show "lower n = lower n' \<and> t = t'"
    by (intro dotted_append_eq) simp_all
next
  assume "lower n = lower n' \<and> t = t'"
  then show "record_set_key n t = record_set_key n' t'"
    by (simp add: record_set_key_def)
qed

section \<open>Zone import: record sets built from the entries\<close>

text \<open>
  \<^verbatim>\<open>_add_record\<close> changes the one record property of the type and nothing else, so the
  name, the type and the TTL that the first entry of a key gave to its record set stay.
\<close>

lemma setattr_record_set_header:
  "rs_name (setattr_record_set rs p v) = rs_name rs"
  "rs_type (setattr_record_set rs p v) = rs_type rs"
  "ttl (setattr_record_set rs p v) = ttl rs"
  by (simp_all add: setattr_record_set_def)

lemma add_record_header:
  assumes "add_record rs r t is_list = Inr rs'"
  shows "rs_name rs' = rs_name rs \<and> rs_type rs' = rs_type rs \<and> ttl rs' = ttl rs"
  using assms
  by (auto simp: add_record_def setattr_record_set_header split: sum.splits if_splits rdata.splits)

text \<open>
  A scalar type stores the record as the property, replacing what was there; a list
  type appends it to the list, which starts empty.
\<close>

lemma add_record_scalar:
  "type_to_property_name t = Inr p \<Longrightarrow>
   add_record rs (Some r) t False = Inr (setattr_record_set rs p (RObj r))"
  by (simp add: add_record_def)

lemma add_record_list:
  assumes "type_to_property_name t = Inr p"
  shows "getattr_record_set rs p = RNone \<Longrightarrow>
           add_record rs r t True = Inr (setattr_record_set rs p (RList [r]))"
    and "getattr_record_set rs p = RList l \<Longrightarrow>
           add_record rs r t True = Inr (setattr_record_set rs p (RList (l @ [r])))"
  using assms by (simp_all add: add_record_def)

text \<open>
  One entry: the record set is looked up under the key; a new key gets a record set with
  the name of the entry's record set without trailing dots, its type and the TTL of
  this entry, an old key keeps its record set, and the record is added to it.
\<close>

lemma import_entry_result:
  assumes "import_entry record_sets n t entry = Inr record_sets'"
  shows "\<exists>l r rs'. dict_item entry ''ttl'' = Inr l \<and> build_record entry = Inr r
           \<and> add_record (case map_of record_sets (record_set_key n t) of
                            None \<Rightarrow> RecordSet (rstrip_dot n) t l | Some rs \<Rightarrow> rs)
                 r t (lower t \<noteq> ''soa'' \<and> lower t \<noteq> ''cname'') = Inr rs'
           \<and> record_sets' = AList.update (record_set_key n t) rs' record_sets"
  using assms
  by (auto simp: import_entry_def Let_def split: sum.splits)

lemma import_entry_header:
  assumes i: "import_entry record_sets n t entry = Inr record_sets'"
  shows "\<exists>rs'. map_of record_sets' (record_set_key n t) = Some rs'
           \<and> (case map_of record_sets (record_set_key n t) of
                 None \<Rightarrow> rs_name rs' = rstrip_dot n \<and> rs_type rs' = t
                          \<and> dict_item entry ''ttl'' = Inr (ttl rs')
               | Some rs \<Rightarrow> rs_name rs' = rs_name rs \<and> rs_type rs' = rs_type rs
                          \<and> ttl rs' = ttl rs)"
proof -
  from import_entry_result [OF i] obtain l r rs' where
    l: "dict_item entry ''ttl'' = Inr l"
    and a: "add_record (case map_of record_sets (record_set_key n t) of
                            None \<Rightarrow> RecordSet (rstrip_dot n) t l | Some rs \<Rightarrow> rs)
                 r t (lower t \<noteq> ''soa'' \<and> lower t \<noteq> ''cname'') = Inr rs'"
    and u: "record_sets' = AList.update (record_set_key n t) rs' record_sets"
    by blast
  from u have m: "map_of record_sets' (record_set_key n t) = Some rs'"
    by (simp add: update_conv')
  from add_record_header [OF a] l
  have "case map_of record_sets (record_set_key n t) of
                 None \<Rightarrow> rs_name rs' = rstrip_dot n \<and> rs_type rs' = t
                          \<and> dict_item entry ''ttl'' = Inr (ttl rs')
               | Some rs \<Rightarrow> rs_name rs' = rs_name rs \<and> rs_type rs' = rs_type rs
                          \<and> ttl rs' = ttl rs"
    by (simp add: RecordSet_def split: option.splits)
  with m show ?thesis
    by blast
qed

text \<open>An entry of another key leaves the record set of a key alone.\<close>

lemma import_entry_other_key:
  assumes "import_entry record_sets n t entry = Inr record_sets'"
    and "k \<noteq> record_set_key n t"
  shows "map_of record_sets' k = map_of record_sets k"
  using import_entry_result [OF assms(1)] assms(2)
  by (auto simp: update_conv')

text \<open>
  Before submission the type is lower-cased and the record set whose name is the origin
  is renamed \<^verbatim>\<open>@\<close>; but for the SOA and NS record sets at \<^verbatim>\<open>@\<close>, the record set is
  submitted as it stands.
\<close>

lemma prepare_record_set_plain:
  assumes "lower (rs_type rs) \<noteq> ''soa''" and "lower (rs_type rs) \<noteq> ''ns''"
  shows "prepare_record_set origin root_soa root_ns rs =
           Inr (rs \<lparr> rs_type := lower (rs_type rs),
                    rs_name := (if rs_name rs = origin then ''@'' else rs_name rs) \<rparr>)"
  using assms by (simp add: prepare_record_set_def Let_def)

section \<open>Zone import: the first loop over the entries\<close>

lemma import_triples_append:
  "import_triples rs (a @ b) =
     (case import_triples rs a of Inl e \<Rightarrow> Inl e | Inr rs1 \<Rightarrow> import_triples rs1 b)"
proof (induction a arbitrary: rs)
  case Nil
  show ?case by simp
next
  case (Cons x a)
  obtain n t e where x: "x = (n, t, e)" by (cases x)
  show ?case
    by (cases "import_entry rs n t e") (simp_all add: x Cons.IH)
qed

lemma import_entries_triples:
  "import_entries rs n t es = import_triples rs (map (\<lambda>e. (n, t, e)) es)"
proof (induction es arbitrary: rs)
  case Nil
  show ?case by simp
next
  case (Cons e es)
  show ?case
    by (cases "import_entry rs n t e") (simp_all add: Cons.IH)
qed

lemma import_types_triples:
  "import_types (origin, rs) n types = Inr (origin', rs') \<Longrightarrow>
   import_triples rs
     (concat (map (\<lambda>(t, obj). map (\<lambda>e. (n, t, e))
                (case obj of EntryList es \<Rightarrow> es | EntryDict e \<Rightarrow> [e])) types)) = Inr rs'"
proof (induction types arbitrary: origin rs)
  case Nil
  then show ?case by simp
next
  case (Cons x types)
  obtain t obj where x: "x = (t, obj)" by (cases x)
  let ?es = "case obj of EntryList es \<Rightarrow> es | EntryDict e \<Rightarrow> [e]"
  from Cons.prems obtain rs1 where
    a: "import_entries rs n t ?es = Inr rs1"
    and b: "import_types (if t = ''soa'' then rstrip_dot n else origin, rs1) n types
            = Inr (origin', rs')"
    by (auto simp: x Let_def split: sum.splits)
  from Cons.IH [OF b] a show ?case
    by (simp add: x import_triples_append import_entries_triples)
qed

lemma import_names_triples:
  "import_names (origin, rs) zone = Inr (origin', rs') \<Longrightarrow>
   import_triples rs (zone_triples zone) = Inr rs'"
proof (induction zone arbitrary: origin rs)
  case Nil
  then show ?case by (simp add: zone_triples_def)
next
  case (Cons x zone)
  obtain n types where x: "x = (n, types)" by (cases x)
  from Cons.prems obtain origin1 rs1 where
    a: "import_types (origin, rs) n types = Inr (origin1, rs1)"
    and b: "import_names (origin1, rs1) zone = Inr (origin', rs')"
    by (auto simp: x split: sum.splits)
  from Cons.IH [OF b] have "import_triples rs1 (zone_triples zone) = Inr rs'" .
  with import_types_triples [OF a] show ?case
    by (simp add: x zone_triples_def import_triples_append)
qed

lemma import_triples_snoc:
  assumes "import_triples rs (ts @ [(n, t, e)]) = Inr rs'"
  shows "\<exists>rs1. import_triples rs ts = Inr rs1 \<and> import_entry rs1 n t e = Inr rs'"
  using assms
  by (auto simp: import_triples_append split: sum.splits)

text \<open>
  The dictionary \<^verbatim>\<open>record_sets\<close> after the first loop: its keys are the keys of the
  entries; the record set of a key has the name (without trailing dots), the type and
  the TTL of the first entry of that key.
\<close>

lemma import_triples_keys:
  "import_triples [] ts = Inr rs' \<Longrightarrow>
   distinct (map fst rs')
   \<and> fst ` set rs' = (\<lambda>x. record_set_key (fst x) (fst (snd x))) ` set ts"
proof (induction ts arbitrary: rs' rule: rev_induct)
  case Nil
  then show ?case by simp
next
  case (snoc x ts)
  obtain n t e where x: "x = (n, t, e)" by (cases x)
  from import_triples_snoc [OF snoc.prems [unfolded x]] obtain rs1 where
    a: "import_triples [] ts = Inr rs1" and b: "import_entry rs1 n t e = Inr rs'"
    by blast
  from import_entry_result [OF b] obtain r where
    u: "rs' = AList.update (record_set_key n t) r rs1"
    by blast
  from snoc.IH [OF a] u show ?case
    by (simp add: x distinct_update dom_update)
qed

lemma import_triples_header:
  assumes "import_triples [] ts = Inr rs'"
  shows "(filter (\<lambda>x. record_set_key (fst x) (fst (snd x)) = k) ts = [] \<longrightarrow> map_of rs' k = None)
       \<and> (filter (\<lambda>x. record_set_key (fst x) (fst (snd x)) = k) ts \<noteq> [] \<longrightarrow>
            (\<exists>r. map_of rs' k = Some r
               \<and> rs_name r
                   = rstrip_dot (fst (hd (filter (\<lambda>x. record_set_key (fst x) (fst (snd x)) = k) ts)))
               \<and> rs_type r
                   = fst (snd (hd (filter (\<lambda>x. record_set_key (fst x) (fst (snd x)) = k) ts)))
               \<and> dict_item
                     (snd (snd (hd (filter (\<lambda>x. record_set_key (fst x) (fst (snd x)) = k) ts))))
                     ''ttl'' = Inr (ttl r)))"
  using assms
proof (induction ts arbitrary: rs' rule: rev_induct)
  case Nil
  then show ?case by simp
next
  case (snoc x ts)
  let ?K = "\<lambda>x. record_set_key (fst x) (fst (snd x))"
  let ?g = "filter (\<lambda>x. ?K x = k) ts"
  obtain n t e where x: "x = (n, t, e)" by (cases x)
  from import_triples_snoc [OF snoc.prems [unfolded x]] obtain rs1 where
    a: "import_triples [] ts = Inr rs1" and b: "import_entry rs1 n t e = Inr rs'"
    by blast
  note ih = snoc.IH [OF a]
  show ?case
  proof (cases "record_set_key n t = k")
    case False
    then have f: "filter (\<lambda>x. ?K x = k) (ts @ [x]) = ?g"
      by (simp add: x)
    from import_entry_other_key [OF b, of k] False
    have "map_of rs' k = map_of rs1 k" by simp
    with ih show ?thesis
      unfolding f by simp
  next
    case True
    then have f: "filter (\<lambda>x. ?K x = k) (ts @ [x]) = ?g @ [x]"
      by (simp add: x)
    from import_entry_header [OF b] True obtain r' where
      m: "map_of rs' k = Some r'"
      and h: "case map_of rs1 k of
                 None \<Rightarrow> rs_name r' = rstrip_dot n \<and> rs_type r' = t
                          \<and> dict_item e ''ttl'' = Inr (ttl r')
               | Some rs \<Rightarrow> rs_name r' = rs_name rs \<and> rs_type r' = rs_type rs
                          \<and> ttl r' = ttl rs"
      by auto
    show ?thesis
    proof (cases "?g = []")
      case True
      with ih have "map_of rs1 k = None" by simp
      with h m True show ?thesis
        unfolding f by (simp add: x)
    next
      case False
      with ih obtain r where
        r: "map_of rs1 k = Some r" "rs_name r = rstrip_dot (fst (hd ?g))"
           "rs_type r = fst (snd (hd ?g))" "dict_item (snd (snd (hd ?g))) ''ttl'' = Inr (ttl r)"
        by blast
      with h m False show ?thesis
        unfolding f by simp
    qed
  qed
qed

text \<open>
  The record property of a record set after the first loop, when every entry of its key
  stands under the same type: for \<^verbatim>\<open>soa\<close> and \<^verbatim>\<open>cname\<close> the record built from the last
  entry of the key, for every other type the list of the records built from the entries
  of the key, in their order.
\<close>

lemma import_triples_content:
  assumes "import_triples [] ts = Inr rs'"
    and "\<forall>x \<in> set ts. record_set_key (fst x) (fst (snd x)) = k \<longrightarrow> fst (snd x) = t"
    and "filter (\<lambda>x. record_set_key (fst x) (fst (snd x)) = k) ts \<noteq> []"
  shows "\<exists>r p recs. map_of rs' k = Some r \<and> type_to_property_name t = Inr p
           \<and> map (\<lambda>x. build_record (snd (snd x)))
                 (filter (\<lambda>x. record_set_key (fst x) (fst (snd x)) = k) ts) = map Inr recs
           \<and> getattr_record_set r p
               = (if lower t = ''soa'' \<or> lower t = ''cname''
                  then (case last recs of None \<Rightarrow> RNone | Some v \<Rightarrow> RObj v)
                  else RList recs)"
  using assms
proof (induction ts arbitrary: rs' rule: rev_induct)
  case Nil
  then show ?case by simp
next
  case (snoc x ts)
  let ?K = "\<lambda>x. record_set_key (fst x) (fst (snd x))"
  let ?g = "filter (\<lambda>x. ?K x = k) ts"
  let ?scalar = "lower t = ''soa'' \<or> lower t = ''cname''"
  obtain n t0 e where x: "x = (n, t0, e)" by (cases x)
  from import_triples_snoc [OF snoc.prems(1) [unfolded x]] obtain rs1 where
    a: "import_triples [] ts = Inr rs1" and b: "import_entry rs1 n t0 e = Inr rs'"
    by blast
  from snoc.prems(2) have uni: "\<forall>x \<in> set ts. ?K x = k \<longrightarrow> fst (snd x) = t"
    by simp
  show ?case
  proof (cases "record_set_key n t0 = k")
    case False
    then have f: "filter (\<lambda>x. ?K x = k) (ts @ [x]) = ?g"
      by (simp add: x)
    with snoc.prems(3) have ne: "?g \<noteq> []" by simp
    from import_entry_other_key [OF b, of k] False
    have "map_of rs' k = map_of rs1 k" by simp
    with snoc.IH [OF a uni ne] show ?thesis
      unfolding f by simp
  next
    case True
    with snoc.prems(2) have t0: "t0 = t"
      by (simp add: x)
    from True have f: "filter (\<lambda>x. ?K x = k) (ts @ [x]) = ?g @ [x]"
      by (simp add: x)
    from import_entry_result [OF b] True t0 obtain l rec r' where
      l: "dict_item e ''ttl'' = Inr l"
      and br: "build_record e = Inr rec"
      and ad: "add_record (case map_of rs1 k of None \<Rightarrow> RecordSet (rstrip_dot n) t l
                            | Some rs \<Rightarrow> rs) rec t (\<not> ?scalar) = Inr r'"
      and u: "rs' = AList.update k r' rs1"
      by auto
    from u have m: "map_of rs' k = Some r'"
      by (simp add: update_conv')
    from ad obtain p where p: "type_to_property_name t = Inr p"
      by (cases "type_to_property_name t") (simp_all add: add_record_def)
    note gs = getattr_setattr_record_set [OF p]
    show ?thesis
    proof (cases "?g = []")
      case True
      with import_triples_header [OF a, of k] have "map_of rs1 k = None" by simp
      with ad have ad': "add_record (RecordSet (rstrip_dot n) t l) rec t (\<not> ?scalar) = Inr r'"
        by simp
      have "getattr_record_set r' p
              = (if ?scalar then (case last [rec] of None \<Rightarrow> RNone | Some v \<Rightarrow> RObj v)
                 else RList [rec])"
      proof (cases ?scalar)
        case True
        with ad' p have "r' = setattr_record_set (RecordSet (rstrip_dot n) t l) p
                                (case rec of None \<Rightarrow> RNone | Some v \<Rightarrow> RObj v)"
          by (auto simp: add_record_def)
        with True show ?thesis by (simp add: gs)
      next
        case False
        with ad' p have "r' = setattr_record_set (RecordSet (rstrip_dot n) t l) p (RList [rec])"
          by (auto simp: add_record_def getattr_RecordSet)
        with False show ?thesis by (simp add: gs)
      qed
      moreover have "map (\<lambda>x. build_record (snd (snd x))) (?g @ [x]) = map Inr [rec]"
        using True br by (simp add: x)
      ultimately show ?thesis
        unfolding f using m p by blast
    next
      case False
      from snoc.IH [OF a uni False] obtain r p' recs where
        r: "map_of rs1 k = Some r" and p': "type_to_property_name t = Inr p'"
        and bs: "map (\<lambda>x. build_record (snd (snd x))) ?g = map Inr recs"
        and ga: "getattr_record_set r p'
                   = (if ?scalar then (case last recs of None \<Rightarrow> RNone | Some v \<Rightarrow> RObj v)
                      else RList recs)"
        by blast
      from p p' have pp: "p' = p" by simp
      from ad r have ad': "add_record r rec t (\<not> ?scalar) = Inr r'"
        by simp
      have "getattr_record_set r' p
              = (if ?scalar then (case last (recs @ [rec]) of None \<Rightarrow> RNone | Some v \<Rightarrow> RObj v)
                 else RList (recs @ [rec]))"
      proof (cases ?scalar)
        case True
        with ad' p have "r' = setattr_record_set r p
                                (case rec of None \<Rightarrow> RNone | Some v \<Rightarrow> RObj v)"
          by (auto simp: add_record_def)
        with True show ?thesis by (simp add: gs)
      next
        case False
        with ga pp have "getattr_record_set r p = RList recs" by simp
        with False ad' p have "r' = setattr_record_set r p (RList (recs @ [rec]))"
          by (auto simp: add_record_def)
        with False show ?thesis by (simp add: gs)
      qed
      moreover have "map (\<lambda>x. build_record (snd (snd x))) (?g @ [x]) = map Inr (recs @ [rec])"
        using bs br by (simp add: x)
      ultimately show ?thesis
        unfolding f using m p by blast
    qed
  qed
qed

text \<open>The origin after the first loop.\<close>

lemma import_types_origin:
  "import_types (origin, rs) n types = Inr (origin', rs') \<Longrightarrow>
   origin' = (if filter (\<lambda>(t, obj). t = ''soa'') types = [] then origin else rstrip_dot n)"
proof (induction types arbitrary: origin rs)
  case Nil
  then show ?case by simp
next
  case (Cons x types)
  obtain t obj where x: "x = (t, obj)" by (cases x)
  from Cons.prems obtain rs1 where
    b: "import_types (if t = ''soa'' then rstrip_dot n else origin, rs1) n types
            = Inr (origin', rs')"
    by (auto simp: x Let_def split: sum.splits)
  from Cons.IH [OF b] show ?case
    by (simp add: x)
qed

lemma import_names_origin:
  "import_names (origin, rs) zone = Inr (origin', rs') \<Longrightarrow> origin' = zone_origin origin zone"
proof (induction zone arbitrary: origin rs)
  case Nil
  then show ?case by (simp add: zone_origin_def)
next
  case (Cons x zone)
  obtain n types where x: "x = (n, types)" by (cases x)
  let ?nt = "concat (map (\<lambda>(n, types). map (\<lambda>(t, obj). (n, t)) types) zone)"
  let ?here = "filter (\<lambda>(n, t). t = ''soa'') (map (\<lambda>(t, obj). (n, t)) types)"
  let ?rest = "filter (\<lambda>(n, t). t = ''soa'') ?nt"
  from Cons.prems obtain origin1 rs1 where
    a: "import_types (origin, rs) n types = Inr (origin1, rs1)"
    and b: "import_names (origin1, rs1) zone = Inr (origin', rs')"
    by (auto simp: x split: sum.splits)
  from import_types_origin [OF a]
  have o1: "origin1 = (if filter (\<lambda>(t, obj). t = ''soa'') types = [] then origin else rstrip_dot n)" .
  have e: "(?here = []) = (filter (\<lambda>(t, obj). t = ''soa'') types = [])"
    by (auto simp: filter_empty_conv)
  have l: "?here \<noteq> [] \<Longrightarrow> fst (last ?here) = n"
  proof -
    assume ne: "?here \<noteq> []"
    then have "last ?here \<in> set ?here" by (rule last_in_set)
    then show ?thesis by auto
  qed
  from Cons.IH [OF b] have o': "origin' = zone_origin origin1 zone" .
  have z: "zone_origin origin (x # zone)
        = (case ?here @ ?rest of [] \<Rightarrow> origin | y # ys \<Rightarrow> rstrip_dot (fst (last (y # ys))))"
    by (simp add: zone_origin_def x)
  show ?case
  proof (cases "?rest = []")
    case True
    then have "zone_origin origin1 zone = origin1"
      by (simp add: zone_origin_def)
    with o' o1 e l True show ?thesis
      unfolding z by (cases ?here) auto
  next
    case False
    then obtain y ys where r: "?rest = y # ys" by (cases ?rest) auto
    then have "zone_origin origin1 zone = rstrip_dot (fst (last (y # ys)))"
      by (simp add: zone_origin_def)
    moreover have "(case ?here @ ?rest of [] \<Rightarrow> origin
                    | y # ys \<Rightarrow> rstrip_dot (fst (last (y # ys))))
                   = rstrip_dot (fst (last (y # ys)))"
      unfolding r by (cases ?here) simp_all
    ultimately show ?thesis
      unfolding z using o' by simp
  qed
qed

section \<open>Zone import: the second loop\<close>

lemma set_soa_host_header:
  "set_soa_host rs root_soa = Inr rs' \<Longrightarrow>
   rs_name rs' = rs_name rs \<and> rs_type rs' = rs_type rs \<and> ttl rs' = ttl rs"
  by (auto simp: set_soa_host_def split: rdata.splits sum.splits)

lemma prepare_record_set_header:
  assumes "prepare_record_set origin root_soa root_ns rs = Inr rs'"
    and "rs_name root_ns = ''@''"
  shows "rs_name rs' = (if rs_name rs = origin then ''@'' else rs_name rs) \<and> ttl rs' = ttl rs"
  using assms
  by (auto simp: prepare_record_set_def Let_def dest: set_soa_host_header
           split: if_splits sum.splits)

lemma prepare_record_sets_each:
  "prepare_record_sets origin root_soa root_ns rss = Inr out \<Longrightarrow>
   list_all2 (\<lambda>rs rs'. prepare_record_set origin root_soa root_ns rs = Inr rs') rss out"
proof (induction rss arbitrary: out)
  case Nil
  then show ?case by simp
next
  case (Cons rs rss)
  then show ?case
    by (auto split: sum.splits)
qed

section \<open>Zone import: one record set per name and type\<close>

text \<open>
  Without the final dot of a parsed name the key would not tell the name from the type:
  \<^verbatim>\<open>xaaa\<close> with \<^verbatim>\<open>a\<close> and \<^verbatim>\<open>x\<close> with \<^verbatim>\<open>aaaa\<close> have the same key.
\<close>

lemma record_set_key_needs_dot:
  "record_set_key ''xaaa'' ''a'' = record_set_key ''x'' ''aaaa''"
  by code_simp

lemma parsed_names_triple:
  "parsed_names zone \<Longrightarrow> (n, t, e) \<in> set (zone_triples zone) \<Longrightarrow>
   parsed_name n \<and> CHR ''.'' \<notin> set t"
  by (auto simp: parsed_names_def list_all_iff)

lemma parsed_names_group:
  assumes p: "parsed_names zone" and m: "(n, t, e) \<in> set (zone_triples zone)"
  shows "filter (\<lambda>x. record_set_key (fst x) (fst (snd x)) = record_set_key n t) (zone_triples zone)
         = group_entries n t (zone_triples zone)"
proof -
  from parsed_names_triple [OF p m] have a: "parsed_name n" "CHR ''.'' \<notin> set t"
    by blast+
  show ?thesis
    unfolding group_entries_def
  proof (rule filter_cong [OF refl])
    fix x assume x: "x \<in> set (zone_triples zone)"
    obtain n' t' e' where x': "x = (n', t', e')" by (cases x)
    from parsed_names_triple [OF p x [unfolded x']]
    have b: "parsed_name n'" "CHR ''.'' \<notin> set t'"
      by blast+
    from record_set_key_inj [OF b(1) a(1) b(2) a(2)]
    show "(record_set_key (fst x) (fst (snd x)) = record_set_key n t)
          = (case x of (n', t', e) \<Rightarrow> lower n' = lower n \<and> t' = t)"
      by (simp add: x')
  qed
qed

lemma parsed_names_pairs:
  assumes p: "parsed_names zone"
  shows "card ((\<lambda>(n, t, e). record_set_key n t) ` set (zone_triples zone))
         = card ((\<lambda>(n, t, e). (lower n, t)) ` set (zone_triples zone))"
proof -
  let ?S = "set (zone_triples zone)"
  let ?P = "(\<lambda>(n, t, e). (lower n, t)) :: string \<times> string \<times> (string \<times> pyval) list \<Rightarrow> _"
  let ?h = "\<lambda>(a, t). a @ t :: string"
  have i: "inj_on ?h (?P ` ?S)"
  proof (rule inj_onI)
    fix u v assume u: "u \<in> ?P ` ?S" and v: "v \<in> ?P ` ?S" and e: "?h u = ?h v"
    from u obtain n t e1 where u': "(n, t, e1) \<in> ?S" "u = (lower n, t)" by auto
    from v obtain n' t' e2 where v': "(n', t', e2) \<in> ?S" "v = (lower n', t')" by auto
    from parsed_names_triple [OF p u'(1)] have a: "parsed_name n" "CHR ''.'' \<notin> set t"
      by blast+
    from parsed_names_triple [OF p v'(1)] have b: "parsed_name n'" "CHR ''.'' \<notin> set t'"
      by blast+
    from e u'(2) v'(2) have "record_set_key n t = record_set_key n' t'"
      by (simp add: record_set_key_def)
    with record_set_key_inj [OF a(1) b(1) a(2) b(2)] u'(2) v'(2) show "u = v"
      by simp
  qed
  have "(\<lambda>(n, t, e). record_set_key n t) = (\<lambda>x. ?h (?P x))"
    by (simp add: fun_eq_iff record_set_key_def split_beta)
  then have "(\<lambda>(n, t, e). record_set_key n t) ` ?S = ?h ` (?P ` ?S)"
    by (simp add: image_image)
  with card_image [OF i] show ?thesis
    by simp
qed

text \<open>
  C4. For a parsed zone (the record-set names end in a dot, the record types hold none)
  on which the first loop of \<^verbatim>\<open>import_zone\<close> ends with the origin \<open>origin\<close> and the
  dictionary \<open>record_sets\<close>:
  \<^item> the dictionary key of two entries is the same exactly when their lower-cased names
    and their types are the same, the keys of the dictionary are the keys of the
    entries, and there is one record set per pair of lower-cased name and type;
  \<^item> the record set of an entry's pair has the name (without trailing dots) and the TTL
    of the first entry of the group and the type of the pair, and its record property
    holds, for \<^verbatim>\<open>soa\<close> and \<^verbatim>\<open>cname\<close>, the one record built from the last entry of the
    group, and for every other type the list of the records built from the entries of
    the group, in their order;
  \<^item> the origin is the zone name, or the last record-set name with an SOA entry;
  \<^item> \<^verbatim>\<open>import_zone\<close> submits, for every record set of the dictionary in turn, a record
    set with the same TTL that is named \<^verbatim>\<open>@\<close> when the name is the origin and keeps its
    name otherwise; but for the types \<^verbatim>\<open>soa\<close> and \<^verbatim>\<open>ns\<close> it is the record set of the
    dictionary with the type lower-cased and this name. (At \<^verbatim>\<open>@\<close> the SOA record takes
    the host of the service's SOA record, and the NS record set is replaced by the one
    that the service holds at \<^verbatim>\<open>@\<close>, whose name is \<^verbatim>\<open>@\<close>.)
\<close>

theorem import_zone_groups_by_name_and_type:
  assumes p: "parsed_names zone"
    and i: "import_names (zone_name, []) zone = Inr (origin, record_sets)"
    and r: "rs_name root_ns = ''@''"
  shows "(\<forall>(n, t, e) \<in> set (zone_triples zone). \<forall>(n', t', e') \<in> set (zone_triples zone).
            (record_set_key n t = record_set_key n' t') = (lower n = lower n' \<and> t = t'))
       \<and> distinct (map fst record_sets)
       \<and> fst ` set record_sets = (\<lambda>(n, t, e). record_set_key n t) ` set (zone_triples zone)
       \<and> length record_sets = card ((\<lambda>(n, t, e). (lower n, t)) ` set (zone_triples zone))
       \<and> (\<forall>(n, t, e) \<in> set (zone_triples zone).
            \<exists>rs property recs.
              map_of record_sets (record_set_key n t) = Some rs
              \<and> rs_name rs = rstrip_dot (fst (hd (group_entries n t (zone_triples zone))))
              \<and> rs_type rs = t
              \<and> dict_item (snd (snd (hd (group_entries n t (zone_triples zone))))) ''ttl''
                  = Inr (ttl rs)
              \<and> type_to_property_name t = Inr property
              \<and> map (\<lambda>(n, t, e). build_record e) (group_entries n t (zone_triples zone))
                  = map Inr recs
              \<and> getattr_record_set rs property
                  = (if lower t = ''soa'' \<or> lower t = ''cname''
                     then (case last recs of None \<Rightarrow> RNone | Some v \<Rightarrow> RObj v)
                     else RList recs))
       \<and> origin = zone_origin zone_name zone
       \<and> import_zone zone_name zone root_soa root_ns
           = prepare_record_sets origin root_soa root_ns (map snd record_sets)
       \<and> (\<forall>out. import_zone zone_name zone root_soa root_ns = Inr out \<longrightarrow>
            list_all2
              (\<lambda>rs rs'. rs_name rs' = (if rs_name rs = origin then ''@'' else rs_name rs)
                 \<and> ttl rs' = ttl rs
                 \<and> (lower (rs_type rs) \<noteq> ''soa'' \<and> lower (rs_type rs) \<noteq> ''ns'' \<longrightarrow>
                      rs' = rs \<lparr> rs_type := lower (rs_type rs),
                                 rs_name := (if rs_name rs = origin then ''@'' else rs_name rs) \<rparr>))
              (map snd record_sets) out)"
proof -
  let ?T = "zone_triples zone"
  from import_names_triples [OF i] have it: "import_triples [] ?T = Inr record_sets" .
  have c1: "\<forall>(n, t, e) \<in> set ?T. \<forall>(n', t', e') \<in> set ?T.
            (record_set_key n t = record_set_key n' t') = (lower n = lower n' \<and> t = t')"
  proof (intro ballI, clarify)
    fix n t e n' t' e'
    assume a: "(n, t, e) \<in> set ?T" and b: "(n', t', e') \<in> set ?T"
    from parsed_names_triple [OF p a] parsed_names_triple [OF p b]
    show "(record_set_key n t = record_set_key n' t') = (lower n = lower n' \<and> t = t')"
      by (intro record_set_key_inj) simp_all
  qed
  from import_triples_keys [OF it]
  have c2: "distinct (map fst record_sets)"
    and k: "fst ` set record_sets = (\<lambda>x. record_set_key (fst x) (fst (snd x))) ` set ?T"
    by blast+
  have kf: "(\<lambda>x. record_set_key (fst x) (fst (snd x)))
            = (\<lambda>(n, t, e). record_set_key n t :: string)"
    by (simp add: fun_eq_iff split_beta)
  from k have c3: "fst ` set record_sets = (\<lambda>(n, t, e). record_set_key n t) ` set ?T"
    unfolding kf .
  have c4: "length record_sets = card ((\<lambda>(n, t, e). (lower n, t)) ` set ?T)"
  proof -
    from distinct_card [OF c2] have "length record_sets = card (set (map fst record_sets))"
      by simp
    also have "\<dots> = card ((\<lambda>(n, t, e). record_set_key n t) ` set ?T)"
      using c3 by simp
    also have "\<dots> = card ((\<lambda>(n, t, e). (lower n, t)) ` set ?T)"
      by (rule parsed_names_pairs [OF p])
    finally show ?thesis .
  qed
  have c5: "\<forall>(n, t, e) \<in> set ?T.
            \<exists>rs property recs.
              map_of record_sets (record_set_key n t) = Some rs
              \<and> rs_name rs = rstrip_dot (fst (hd (group_entries n t ?T)))
              \<and> rs_type rs = t
              \<and> dict_item (snd (snd (hd (group_entries n t ?T)))) ''ttl'' = Inr (ttl rs)
              \<and> type_to_property_name t = Inr property
              \<and> map (\<lambda>(n, t, e). build_record e) (group_entries n t ?T) = map Inr recs
              \<and> getattr_record_set rs property
                  = (if lower t = ''soa'' \<or> lower t = ''cname''
                     then (case last recs of None \<Rightarrow> RNone | Some v \<Rightarrow> RObj v)
                     else RList recs)"
  proof (intro ballI, clarify)
    fix n t e
    assume m: "(n, t, e) \<in> set ?T"
    let ?k = "record_set_key n t"
    let ?g = "group_entries n t ?T"
    note g = parsed_names_group [OF p m]
    from m have "(n, t, e) \<in> set ?g"
      by (simp add: group_entries_def)
    then have ne: "?g \<noteq> []" by auto
    have ty: "\<forall>x \<in> set ?g. fst (snd x) = t"
      by (auto simp: group_entries_def)
    from ne have "hd ?g \<in> set ?g" by (rule hd_in_set)
    with ty have ht: "fst (snd (hd ?g)) = t" by blast
    from import_triples_header [OF it, of ?k] ne obtain rs where
      h: "map_of record_sets ?k = Some rs" "rs_name rs = rstrip_dot (fst (hd ?g))"
         "rs_type rs = fst (snd (hd ?g))" "dict_item (snd (snd (hd ?g))) ''ttl'' = Inr (ttl rs)"
      unfolding g by blast
    have uni: "\<forall>x \<in> set ?T. record_set_key (fst x) (fst (snd x)) = ?k \<longrightarrow> fst (snd x) = t"
    proof (intro ballI impI)
      fix x assume "x \<in> set ?T" and "record_set_key (fst x) (fst (snd x)) = ?k"
      then have "x \<in> set (filter (\<lambda>x. record_set_key (fst x) (fst (snd x)) = ?k) ?T)"
        by simp
      with ty show "fst (snd x) = t"
        unfolding g by blast
    qed
    from ne have ne': "filter (\<lambda>x. record_set_key (fst x) (fst (snd x)) = ?k) ?T \<noteq> []"
      unfolding g .
    from import_triples_content [OF it uni ne'] obtain rs2 property recs where
      c: "map_of record_sets ?k = Some rs2" "type_to_property_name t = Inr property"
         "map (\<lambda>x. build_record (snd (snd x))) ?g = map Inr recs"
         "getattr_record_set rs2 property
            = (if lower t = ''soa'' \<or> lower t = ''cname''
               then (case last recs of None \<Rightarrow> RNone | Some v \<Rightarrow> RObj v)
               else RList recs)"
      unfolding g by blast
    have bf: "(\<lambda>x. build_record (snd (snd x)))
              = (\<lambda>(n, t, e). build_record e :: error + dns_record option)"
      by (simp add: fun_eq_iff split_beta)
    from c(3) have c3': "map (\<lambda>(n, t, e). build_record e) ?g = map Inr recs"
      unfolding bf .
    from h(1) c(1) have "rs2 = rs" by simp
    with h ht c(2) c3' c(4)
    show "\<exists>rs property recs.
              map_of record_sets ?k = Some rs
              \<and> rs_name rs = rstrip_dot (fst (hd ?g))
              \<and> rs_type rs = t
              \<and> dict_item (snd (snd (hd ?g))) ''ttl'' = Inr (ttl rs)
              \<and> type_to_property_name t = Inr property
              \<and> map (\<lambda>(n, t, e). build_record e) ?g = map Inr recs
              \<and> getattr_record_set rs property
                  = (if lower t = ''soa'' \<or> lower t = ''cname''
                     then (case last recs of None \<Rightarrow> RNone | Some v \<Rightarrow> RObj v)
                     else RList recs)"
      by (intro exI [of _ rs] exI [of _ property] exI [of _ recs]) simp
  qed
  from import_names_origin [OF i] have c6: "origin = zone_origin zone_name zone" .
  have c7: "import_zone zone_name zone root_soa root_ns
           = prepare_record_sets origin root_soa root_ns (map snd record_sets)"
    by (simp add: import_zone_def i)
  have c8: "\<forall>out. import_zone zone_name zone root_soa root_ns = Inr out \<longrightarrow>
            list_all2
              (\<lambda>rs rs'. rs_name rs' = (if rs_name rs = origin then ''@'' else rs_name rs)
                 \<and> ttl rs' = ttl rs
                 \<and> (lower (rs_type rs) \<noteq> ''soa'' \<and> lower (rs_type rs) \<noteq> ''ns'' \<longrightarrow>
                      rs' = rs \<lparr> rs_type := lower (rs_type rs),
                                 rs_name := (if rs_name rs = origin then ''@'' else rs_name rs) \<rparr>))
              (map snd record_sets) out"
  proof (intro allI impI)
    fix out
    assume "import_zone zone_name zone root_soa root_ns = Inr out"
    with c7 have "prepare_record_sets origin root_soa root_ns (map snd record_sets) = Inr out"
      by simp
    from prepare_record_sets_each [OF this]
    show "list_all2
              (\<lambda>rs rs'. rs_name rs' = (if rs_name rs = origin then ''@'' else rs_name rs)
                 \<and> ttl rs' = ttl rs
                 \<and> (lower (rs_type rs) \<noteq> ''soa'' \<and> lower (rs_type rs) \<noteq> ''ns'' \<longrightarrow>
                      rs' = rs \<lparr> rs_type := lower (rs_type rs),
                                 rs_name := (if rs_name rs = origin then ''@'' else rs_name rs) \<rparr>))
              (map snd record_sets) out"
    proof (rule list_all2_mono)
      fix rs rs'
      assume q: "prepare_record_set origin root_soa root_ns rs = Inr rs'"
      from prepare_record_set_header [OF q r]
      have "rs_name rs' = (if rs_name rs = origin then ''@'' else rs_name rs)" "ttl rs' = ttl rs"
        by blast+
      moreover have "lower (rs_type rs) \<noteq> ''soa'' \<and> lower (rs_type rs) \<noteq> ''ns'' \<longrightarrow>
                      rs' = rs \<lparr> rs_type := lower (rs_type rs),
                                 rs_name := (if rs_name rs = origin then ''@'' else rs_name rs) \<rparr>"
      proof
        assume "lower (rs_type rs) \<noteq> ''soa'' \<and> lower (rs_type rs) \<noteq> ''ns''"
        then have "lower (rs_type rs) \<noteq> ''soa''" "lower (rs_type rs) \<noteq> ''ns''"
          by blast+
        from prepare_record_set_plain [OF this, of origin root_soa root_ns] q
        show "rs' = rs \<lparr> rs_type := lower (rs_type rs),
                        rs_name := (if rs_name rs = origin then ''@'' else rs_name rs) \<rparr>"
          by simp
      qed
      ultimately show "rs_name rs' = (if rs_name rs = origin then ''@'' else rs_name rs)
                 \<and> ttl rs' = ttl rs
                 \<and> (lower (rs_type rs) \<noteq> ''soa'' \<and> lower (rs_type rs) \<noteq> ''ns'' \<longrightarrow>
                      rs' = rs \<lparr> rs_type := lower (rs_type rs),
                                 rs_name := (if rs_name rs = origin then ''@'' else rs_name rs) \<rparr>)"
        by (intro conjI)
    qed
  qed
  show ?thesis
    by (intro conjI) (rule c1 c2 c3 c4 c5 c6 c7 c8)+
qed

theorem import_zone_groups_by_name_and_type_witness:
  "record_set_key ''xaaa.example.com.'' ''a'' \<noteq> record_set_key ''x.example.com.'' ''aaaa''
   \<and> (\<exists>origin record_sets.
         import_names (''example.com'', [])
           [(''example.com.'',
              [(''soa'', EntryDict [(''ttl'', PInt 3600), (''type'', PStr ''soa''),
                                   (''name'', PStr ''example.com.''),
                                   (''host'', PStr ''ns1.example.com.''),
                                   (''email'', PStr ''admin.example.com.''),
                                   (''serial'', PInt 1), (''refresh'', PInt 3600),
                                   (''retry'', PInt 300), (''expire'', PInt 2419200),
                                   (''minimum'', PInt 300)]),
               (''a'', EntryList [[(''ttl'', PInt 600), (''type'', PStr ''a''),
                                  (''name'', PStr ''example.com.''),
                                  (''ip'', PStr ''10.0.0.1'')]])]),
            (''xaaa.example.com.'',
              [(''a'', EntryList [[(''ttl'', PInt 3600), (''type'', PStr ''a''),
                                  (''name'', PStr ''xaaa.example.com.''),
                                  (''ip'', PStr ''1.2.3.4'')],
                                 [(''ttl'', PInt 300), (''type'', PStr ''a''),
                                  (''name'', PStr ''xaaa.example.com.''),
                                  (''ip'', PStr ''5.6.7.8'')]])]),
            (''x.example.com.'',
              [(''aaaa'', EntryList [[(''ttl'', PInt 300), (''type'', PStr ''aaaa''),
                                     (''name'', PStr ''x.example.com.''),
                                     (''ip'', PStr ''::1'')]])])]
           = Inr (origin, record_sets)
         \<and> origin = ''example.com''
         \<and> map fst record_sets
             = [record_set_key ''example.com.'' ''soa'', record_set_key ''example.com.'' ''a'',
                record_set_key ''xaaa.example.com.'' ''a'',
                record_set_key ''x.example.com.'' ''aaaa'']
         \<and> (\<exists>rs. map_of record_sets (record_set_key ''xaaa.example.com.'' ''a'') = Some rs
                \<and> rs_name rs = ''xaaa.example.com'' \<and> rs_type rs = ''a'' \<and> ttl rs = PInt 3600
                \<and> arecords rs = RList [Some (ARecord (PStr ''1.2.3.4'')),
                                       Some (ARecord (PStr ''5.6.7.8''))]
                \<and> aaaa_records rs = RNone)
         \<and> (\<exists>rs. map_of record_sets (record_set_key ''example.com.'' ''soa'') = Some rs
                \<and> rs_name rs = ''example.com'' \<and> rs_type rs = ''soa'' \<and> ttl rs = PInt 3600
                \<and> soa_record rs
                    = RObj (SoaRecord (PStr ''ns1.example.com.'') (PStr ''admin.example.com.'')
                              (PInt 1) (PInt 3600) (PInt 300) (PInt 2419200) (PInt 300)))
         \<and> (\<exists>out.
               import_zone ''example.com''
                 [(''example.com.'',
                    [(''soa'', EntryDict [(''ttl'', PInt 3600), (''type'', PStr ''soa''),
                                         (''name'', PStr ''example.com.''),
                                         (''host'', PStr ''ns1.example.com.''),
                                         (''email'', PStr ''admin.example.com.''),
                                         (''serial'', PInt 1), (''refresh'', PInt 3600),
                                         (''retry'', PInt 300), (''expire'', PInt 2419200),
                                         (''minimum'', PInt 300)]),
                     (''a'', EntryList [[(''ttl'', PInt 600), (''type'', PStr ''a''),
                                        (''name'', PStr ''example.com.''),
                                        (''ip'', PStr ''10.0.0.1'')]])]),
                  (''xaaa.example.com.'',
                    [(''a'', EntryList [[(''ttl'', PInt 3600), (''type'', PStr ''a''),
                                        (''name'', PStr ''xaaa.example.com.''),
                                        (''ip'', PStr ''1.2.3.4'')],
                                       [(''ttl'', PInt 300), (''type'', PStr ''a''),
                                        (''name'', PStr ''xaaa.example.com.''),
                                        (''ip'', PStr ''5.6.7.8'')]])]),
                  (''x.example.com.'',
                    [(''aaaa'', EntryList [[(''ttl'', PInt 300), (''type'', PStr ''aaaa''),
                                           (''name'', PStr ''x.example.com.''),
                                           (''ip'', PStr ''::1'')]])])]
                 ((RecordSet ''@'' ''Microsoft.Network/dnszones/SOA'' (PInt 3600))
                    \<lparr> soa_record := RObj (SoaRecord (PStr ''ns1-01.azure-dns.com.'')
                         (PStr ''azuredns-hostmaster.microsoft.com'') (PInt 1) (PInt 3600)
                         (PInt 300) (PInt 2419200) (PInt 300)) \<rparr>)
                 (RecordSet ''@'' ''Microsoft.Network/dnszones/NS'' (PInt 172800))
               = Inr out
               \<and> map rs_name out = [''@'', ''@'', ''xaaa.example.com'', ''x.example.com'']
               \<and> map rs_type out = [''soa'', ''a'', ''a'', ''aaaa'']
               \<and> map ttl out = map (\<lambda>kv. ttl (snd kv)) record_sets
               \<and> out ! 2 = (RecordSet ''xaaa.example.com'' ''a'' (PInt 3600))
                    \<lparr> arecords := RList [Some (ARecord (PStr ''1.2.3.4'')),
                                          Some (ARecord (PStr ''5.6.7.8''))] \<rparr>))"
proof -
  let ?soa = "[(''ttl'', PInt 3600), (''type'', PStr ''soa''),
               (''name'', PStr ''example.com.''),
               (''host'', PStr ''ns1.example.com.''),
               (''email'', PStr ''admin.example.com.''),
               (''serial'', PInt 1), (''refresh'', PInt 3600),
               (''retry'', PInt 300), (''expire'', PInt 2419200),
               (''minimum'', PInt 300)]"
  let ?a0 = "[(''ttl'', PInt 600), (''type'', PStr ''a''),
              (''name'', PStr ''example.com.''), (''ip'', PStr ''10.0.0.1'')]"
  let ?a1 = "[(''ttl'', PInt 3600), (''type'', PStr ''a''),
              (''name'', PStr ''xaaa.example.com.''), (''ip'', PStr ''1.2.3.4'')]"
  let ?a2 = "[(''ttl'', PInt 300), (''type'', PStr ''a''),
              (''name'', PStr ''xaaa.example.com.''), (''ip'', PStr ''5.6.7.8'')]"
  let ?q1 = "[(''ttl'', PInt 300), (''type'', PStr ''aaaa''),
              (''name'', PStr ''x.example.com.''), (''ip'', PStr ''::1'')]"
  let ?Z = "[(''example.com.'', [(''soa'', EntryDict ?soa), (''a'', EntryList [?a0])]),
            (''xaaa.example.com.'', [(''a'', EntryList [?a1, ?a2])]),
            (''x.example.com.'', [(''aaaa'', EntryList [?q1])])]"
  let ?root_soa = "(RecordSet ''@'' ''Microsoft.Network/dnszones/SOA'' (PInt 3600))
                    \<lparr> soa_record := RObj (SoaRecord (PStr ''ns1-01.azure-dns.com.'')
                         (PStr ''azuredns-hostmaster.microsoft.com'') (PInt 1) (PInt 3600)
                         (PInt 300) (PInt 2419200) (PInt 300)) \<rparr>"
  let ?root_ns = "RecordSet ''@'' ''Microsoft.Network/dnszones/NS'' (PInt 172800)"
  let ?rsoa = "(RecordSet ''example.com'' ''soa'' (PInt 3600))
                 \<lparr> soa_record := RObj (SoaRecord (PStr ''ns1.example.com.'')
                      (PStr ''admin.example.com.'') (PInt 1) (PInt 3600) (PInt 300)
                      (PInt 2419200) (PInt 300)) \<rparr>"
  let ?ra0 = "(RecordSet ''example.com'' ''a'' (PInt 600))
                \<lparr> arecords := RList [Some (ARecord (PStr ''10.0.0.1''))] \<rparr>"
  let ?rxa = "(RecordSet ''xaaa.example.com'' ''a'' (PInt 3600))
                \<lparr> arecords := RList [Some (ARecord (PStr ''1.2.3.4'')),
                                      Some (ARecord (PStr ''5.6.7.8''))] \<rparr>"
  let ?rx = "(RecordSet ''x.example.com'' ''aaaa'' (PInt 300))
               \<lparr> aaaa_records := RList [Some (AaaaRecord (PStr ''::1''))] \<rparr>"
  let ?RS = "[(record_set_key ''example.com.'' ''soa'', ?rsoa),
              (record_set_key ''example.com.'' ''a'', ?ra0),
              (record_set_key ''xaaa.example.com.'' ''a'', ?rxa),
              (record_set_key ''x.example.com.'' ''aaaa'', ?rx)]"
  let ?OUT = "[?rsoa \<lparr> rs_name := ''@'',
                 soa_record := RObj (SoaRecord (PStr ''ns1-01.azure-dns.com.'')
                      (PStr ''admin.example.com.'') (PInt 1) (PInt 3600) (PInt 300)
                      (PInt 2419200) (PInt 300)) \<rparr>,
               ?ra0 \<lparr> rs_name := ''@'' \<rparr>, ?rxa, ?rx]"
  have P: "parsed_names ?Z"
    by code_simp
  have E: "import_names (''example.com'', []) ?Z = Inr (''example.com'', ?RS)"
    by code_simp
  have R: "rs_name ?root_ns = ''@''"
    by (simp add: RecordSet_def)
  have O: "import_zone ''example.com'' ?Z ?root_soa ?root_ns = Inr ?OUT"
    by code_simp
  have T: "zone_triples ?Z
        = [(''example.com.'', ''soa'', ?soa), (''example.com.'', ''a'', ?a0),
           (''xaaa.example.com.'', ''a'', ?a1), (''xaaa.example.com.'', ''a'', ?a2),
           (''x.example.com.'', ''aaaa'', ?q1)]"
    by (simp add: zone_triples_def)
  note t = import_zone_groups_by_name_and_type [OF P E R, of ?root_soa]
  note t_keys = t [THEN conjunct1]
  note t_groups = t [THEN conjunct2, THEN conjunct2, THEN conjunct2, THEN conjunct2,
                     THEN conjunct1]
  note t_submit = t [THEN conjunct2, THEN conjunct2, THEN conjunct2, THEN conjunct2,
                     THEN conjunct2, THEN conjunct2, THEN conjunct2, rule_format]
  have m1: "(''example.com.'', ''soa'', ?soa) \<in> set (zone_triples ?Z)"
    and m4: "(''xaaa.example.com.'', ''a'', ?a2) \<in> set (zone_triples ?Z)"
    and m5: "(''x.example.com.'', ''aaaa'', ?q1) \<in> set (zone_triples ?Z)"
    unfolding T by simp_all
  have la: "lower ''a'' = ''a''" "lower ''soa'' = ''soa''"
    by code_simp+
  have tp: "type_to_property_name ''a'' = Inr ''arecords''"
    "type_to_property_name ''soa'' = Inr ''soa_record''"
    by code_simp+
  have rd: "rstrip_dot ''xaaa.example.com.'' = ''xaaa.example.com''"
    "rstrip_dot ''example.com.'' = ''example.com''"
    by code_simp+
  have br: "build_record ?a1 = Inr (Some (ARecord (PStr ''1.2.3.4'')))"
    "build_record ?a2 = Inr (Some (ARecord (PStr ''5.6.7.8'')))"
    "build_record ?soa = Inr (Some (SoaRecord (PStr ''ns1.example.com.'')
         (PStr ''admin.example.com.'') (PInt 1) (PInt 3600) (PInt 300) (PInt 2419200) (PInt 300)))"
    by code_simp+
  have k: "record_set_key ''xaaa.example.com.'' ''a'' \<noteq> record_set_key ''x.example.com.'' ''aaaa''"
  proof -
    from bspec [OF t_keys m4]
    have "\<forall>(n', t', e') \<in> set (zone_triples ?Z).
            (record_set_key ''xaaa.example.com.'' ''a'' = record_set_key n' t')
            = (lower ''xaaa.example.com.'' = lower n' \<and> ''a'' = t')"
      by (simp only: prod.case)
    from bspec [OF this m5]
    have "(record_set_key ''xaaa.example.com.'' ''a'' = record_set_key ''x.example.com.'' ''aaaa'')
            = (lower ''xaaa.example.com.'' = lower ''x.example.com.'' \<and> ''a'' = ''aaaa'')"
      by (simp only: prod.case)
    then show ?thesis by simp
  qed
  have g1: "\<exists>rs. map_of ?RS (record_set_key ''xaaa.example.com.'' ''a'') = Some rs
                \<and> rs_name rs = ''xaaa.example.com'' \<and> rs_type rs = ''a'' \<and> ttl rs = PInt 3600
                \<and> arecords rs = RList [Some (ARecord (PStr ''1.2.3.4'')),
                                       Some (ARecord (PStr ''5.6.7.8''))]
                \<and> aaaa_records rs = RNone"
  proof -
    have ge: "group_entries ''xaaa.example.com.'' ''a'' (zone_triples ?Z)
              = [(''xaaa.example.com.'', ''a'', ?a1), (''xaaa.example.com.'', ''a'', ?a2)]"
      by code_simp
    from bspec [OF t_groups m4]
    have "\<exists>rs property recs.
              map_of ?RS (record_set_key ''xaaa.example.com.'' ''a'') = Some rs
              \<and> rs_name rs = rstrip_dot (fst (hd (group_entries ''xaaa.example.com.'' ''a''
                                                    (zone_triples ?Z))))
              \<and> rs_type rs = ''a''
              \<and> dict_item (snd (snd (hd (group_entries ''xaaa.example.com.'' ''a''
                                           (zone_triples ?Z))))) ''ttl'' = Inr (ttl rs)
              \<and> type_to_property_name ''a'' = Inr property
              \<and> map (\<lambda>(n, t, e). build_record e)
                    (group_entries ''xaaa.example.com.'' ''a'' (zone_triples ?Z)) = map Inr recs
              \<and> getattr_record_set rs property
                  = (if lower ''a'' = ''soa'' \<or> lower ''a'' = ''cname''
                     then (case last recs of None \<Rightarrow> RNone | Some v \<Rightarrow> RObj v)
                     else RList recs)"
      by (simp only: prod.case)
    from this [unfolded ge la]
    have "\<exists>rs property recs.
              map_of ?RS (record_set_key ''xaaa.example.com.'' ''a'') = Some rs
              \<and> rs_name rs = rstrip_dot ''xaaa.example.com.''
              \<and> rs_type rs = ''a''
              \<and> dict_item ?a1 ''ttl'' = Inr (ttl rs)
              \<and> type_to_property_name ''a'' = Inr property
              \<and> [build_record ?a1, build_record ?a2] = map Inr recs
              \<and> getattr_record_set rs property = RList recs"
      by simp
    then obtain rs property recs where
      a: "map_of ?RS (record_set_key ''xaaa.example.com.'' ''a'') = Some rs"
      and b: "rs_name rs = rstrip_dot ''xaaa.example.com.''" "rs_type rs = ''a''"
      and c: "dict_item ?a1 ''ttl'' = Inr (ttl rs)"
      and d: "type_to_property_name ''a'' = Inr property"
      and e: "[build_record ?a1, build_record ?a2] = map Inr recs"
      and f: "getattr_record_set rs property = RList recs"
      by (elim exE conjE) (rule that)
    from d have property: "property = ''arecords''"
      unfolding tp by simp
    from e [symmetric] have "(map Inr recs :: (error + dns_record option) list) = map Inr [Some (ARecord (PStr ''1.2.3.4'')),
                                        Some (ARecord (PStr ''5.6.7.8''))]"
      unfolding br by simp
    then have recs: "recs = [Some (ARecord (PStr ''1.2.3.4'')), Some (ARecord (PStr ''5.6.7.8''))]"
      by (simp only: inj_map_eq_map [OF inj_Inr])
    from c have l: "ttl rs = PInt 3600"
      by (simp add: dict_item_def)
    from f have ar: "arecords rs = RList [Some (ARecord (PStr ''1.2.3.4'')),
                                         Some (ARecord (PStr ''5.6.7.8''))]"
      unfolding property recs by (simp add: getattr_record_set_def)
    have "map_of ?RS (record_set_key ''xaaa.example.com.'' ''a'') = Some ?rxa"
      by code_simp
    with a have "rs = ?rxa" by simp
    then have "aaaa_records rs = RNone"
      by (simp add: RecordSet_def)
    with a b l ar show ?thesis
      unfolding rd by (intro exI [of _ rs] conjI)
  qed
  have g2: "\<exists>rs. map_of ?RS (record_set_key ''example.com.'' ''soa'') = Some rs
                \<and> rs_name rs = ''example.com'' \<and> rs_type rs = ''soa'' \<and> ttl rs = PInt 3600
                \<and> soa_record rs
                    = RObj (SoaRecord (PStr ''ns1.example.com.'') (PStr ''admin.example.com.'')
                              (PInt 1) (PInt 3600) (PInt 300) (PInt 2419200) (PInt 300))"
  proof -
    have ge: "group_entries ''example.com.'' ''soa'' (zone_triples ?Z)
              = [(''example.com.'', ''soa'', ?soa)]"
      by code_simp
    from bspec [OF t_groups m1]
    have "\<exists>rs property recs.
              map_of ?RS (record_set_key ''example.com.'' ''soa'') = Some rs
              \<and> rs_name rs = rstrip_dot (fst (hd (group_entries ''example.com.'' ''soa''
                                                    (zone_triples ?Z))))
              \<and> rs_type rs = ''soa''
              \<and> dict_item (snd (snd (hd (group_entries ''example.com.'' ''soa''
                                           (zone_triples ?Z))))) ''ttl'' = Inr (ttl rs)
              \<and> type_to_property_name ''soa'' = Inr property
              \<and> map (\<lambda>(n, t, e). build_record e)
                    (group_entries ''example.com.'' ''soa'' (zone_triples ?Z)) = map Inr recs
              \<and> getattr_record_set rs property
                  = (if lower ''soa'' = ''soa'' \<or> lower ''soa'' = ''cname''
                     then (case last recs of None \<Rightarrow> RNone | Some v \<Rightarrow> RObj v)
                     else RList recs)"
      by (simp only: prod.case)
    from this [unfolded ge la]
    have "\<exists>rs property recs.
              map_of ?RS (record_set_key ''example.com.'' ''soa'') = Some rs
              \<and> rs_name rs = rstrip_dot ''example.com.''
              \<and> rs_type rs = ''soa''
              \<and> dict_item ?soa ''ttl'' = Inr (ttl rs)
              \<and> type_to_property_name ''soa'' = Inr property
              \<and> [build_record ?soa] = map Inr recs
              \<and> getattr_record_set rs property
                  = (case last recs of None \<Rightarrow> RNone | Some v \<Rightarrow> RObj v)"
      by simp
    then obtain rs property recs where
      a: "map_of ?RS (record_set_key ''example.com.'' ''soa'') = Some rs"
      and b: "rs_name rs = rstrip_dot ''example.com.''" "rs_type rs = ''soa''"
      and c: "dict_item ?soa ''ttl'' = Inr (ttl rs)"
      and d: "type_to_property_name ''soa'' = Inr property"
      and e: "[build_record ?soa] = map Inr recs"
      and f: "getattr_record_set rs property
                = (case last recs of None \<Rightarrow> RNone | Some v \<Rightarrow> RObj v)"
      by (elim exE conjE) (rule that)
    from d have property: "property = ''soa_record''"
      unfolding tp by simp
    from e [symmetric] have "(map Inr recs :: (error + dns_record option) list) = map Inr [Some (SoaRecord (PStr ''ns1.example.com.'')
         (PStr ''admin.example.com.'') (PInt 1) (PInt 3600) (PInt 300) (PInt 2419200) (PInt 300))]"
      unfolding br by simp
    then have recs: "recs = [Some (SoaRecord (PStr ''ns1.example.com.'')
         (PStr ''admin.example.com.'') (PInt 1) (PInt 3600) (PInt 300) (PInt 2419200) (PInt 300))]"
      by (simp only: inj_map_eq_map [OF inj_Inr])
    from c have l: "ttl rs = PInt 3600"
      by (simp add: dict_item_def)
    from f have so: "soa_record rs = RObj (SoaRecord (PStr ''ns1.example.com.'')
         (PStr ''admin.example.com.'') (PInt 1) (PInt 3600) (PInt 300) (PInt 2419200) (PInt 300))"
      unfolding property recs by (simp add: getattr_record_set_def)
    with a b l show ?thesis
      unfolding rd by (intro exI [of _ rs] conjI)
  qed
  have o: "map rs_name ?OUT = [''@'', ''@'', ''xaaa.example.com'', ''x.example.com'']
         \<and> map rs_type ?OUT = [''soa'', ''a'', ''a'', ''aaaa'']
         \<and> map ttl ?OUT = map (\<lambda>kv. ttl (snd kv)) ?RS
         \<and> ?OUT ! 2 = ?rxa"
  proof -
    from t_submit [OF O]
    have "list_all2
            (\<lambda>rs rs'. rs_name rs' = (if rs_name rs = ''example.com'' then ''@'' else rs_name rs)
                 \<and> ttl rs' = ttl rs)
            (map snd ?RS) ?OUT"
      by (rule list_all2_mono) simp
    then have "map rs_name ?OUT = [''@'', ''@'', ''xaaa.example.com'', ''x.example.com'']"
      and "map ttl ?OUT = map (\<lambda>kv. ttl (snd kv)) ?RS"
      by (simp_all add: RecordSet_def)
    moreover have "map rs_type ?OUT = [''soa'', ''a'', ''a'', ''aaaa'']"
      by (simp add: RecordSet_def)
    moreover have "?OUT ! 2 = ?rxa"
      by simp
    ultimately show ?thesis
      by (intro conjI)
  qed
  have m: "map fst ?RS
             = [record_set_key ''example.com.'' ''soa'', record_set_key ''example.com.'' ''a'',
                record_set_key ''xaaa.example.com.'' ''a'',
                record_set_key ''x.example.com.'' ''aaaa'']"
    by simp
  from o O have x: "\<exists>out. import_zone ''example.com'' ?Z ?root_soa ?root_ns = Inr out
               \<and> map rs_name out = [''@'', ''@'', ''xaaa.example.com'', ''x.example.com'']
               \<and> map rs_type out = [''soa'', ''a'', ''a'', ''aaaa'']
               \<and> map ttl out = map (\<lambda>kv. ttl (snd kv)) ?RS
               \<and> out ! 2 = ?rxa"
    by (intro exI [of _ ?OUT] conjI) (rule O o [THEN conjunct1]
          o [THEN conjunct2, THEN conjunct1] o [THEN conjunct2, THEN conjunct2, THEN conjunct1]
          o [THEN conjunct2, THEN conjunct2, THEN conjunct2])+
  have "\<exists>origin record_sets.
         import_names (''example.com'', []) ?Z = Inr (origin, record_sets)
         \<and> origin = ''example.com''
         \<and> map fst record_sets
             = [record_set_key ''example.com.'' ''soa'', record_set_key ''example.com.'' ''a'',
                record_set_key ''xaaa.example.com.'' ''a'',
                record_set_key ''x.example.com.'' ''aaaa'']
         \<and> (\<exists>rs. map_of record_sets (record_set_key ''xaaa.example.com.'' ''a'') = Some rs
                \<and> rs_name rs = ''xaaa.example.com'' \<and> rs_type rs = ''a'' \<and> ttl rs = PInt 3600
                \<and> arecords rs = RList [Some (ARecord (PStr ''1.2.3.4'')),
                                       Some (ARecord (PStr ''5.6.7.8''))]
                \<and> aaaa_records rs = RNone)
         \<and> (\<exists>rs. map_of record_sets (record_set_key ''example.com.'' ''soa'') = Some rs
                \<and> rs_name rs = ''example.com'' \<and> rs_type rs = ''soa'' \<and> ttl rs = PInt 3600
                \<and> soa_record rs
                    = RObj (SoaRecord (PStr ''ns1.example.com.'') (PStr ''admin.example.com.'')
                              (PInt 1) (PInt 3600) (PInt 300) (PInt 2419200) (PInt 300)))
         \<and> (\<exists>out. import_zone ''example.com'' ?Z ?root_soa ?root_ns = Inr out
               \<and> map rs_name out = [''@'', ''@'', ''xaaa.example.com'', ''x.example.com'']
               \<and> map rs_type out = [''soa'', ''a'', ''a'', ''aaaa'']
               \<and> map ttl out = map (\<lambda>kv. ttl (snd kv)) record_sets
               \<and> out ! 2 = ?rxa)"
    by (intro exI [of _ "''example.com''"] exI [of _ ?RS] conjI) (rule E refl m g1 g2 x)+
  with k show ?thesis
    by (intro conjI)
qed

section \<open>Removing a record from a record set\<close>

text \<open>
  On a list-typed record set whose property holds a list, \<^verbatim>\<open>_remove_record\<close> raises the
  \<^verbatim>\<open>CLIError\<close> when the filter matches no stored record, deletes the record set when no
  record is kept and empty record sets are not to be kept, and updates it otherwise.
\<close>

lemma remove_record_list:
  assumes "type_to_property_name record_type = Inr p"
    and "getattr_record_set rs p = RList record_list"
    and "keep_records sentinel record_list record = Inr keep_list"
  shows "remove_record sentinel record_str rs record record_type n keep_empty True =
     (if length keep_list = length record_list
      then Inl (CLIError (''Record '' @ record_str @ '' not found.''))
      else if keep_list = [] \<and> \<not> keep_empty then Inr (Delete n record_type)
      else Inr (CreateOrUpdate n record_type (setattr_record_set rs p (RList keep_list))))"
  using assms
  by (simp add: remove_record_def getattr_setattr_record_set)

text \<open>A property that is \<^verbatim>\<open>None\<close> ends in the \<^verbatim>\<open>TypeError\<close> of \<^verbatim>\<open>len(None)\<close>.\<close>

lemma remove_record_no_list:
  assumes "type_to_property_name record_type = Inr p"
    and "getattr_record_set rs p = RNone"
  shows "remove_record sentinel record_str rs record record_type n keep_empty True
           = Inl TypeError"
  using assms by (simp add: remove_record_def)

lemma keep_records_length:
  "keep_records sentinel record_list record = Inr keep_list \<Longrightarrow>
   length keep_list \<le> length record_list"
proof (induction record_list arbitrary: keep_list)
  case Nil
  then show ?case by simp
next
  case (Cons r rest)
  then show ?case
    by (cases r) (auto split: sum.splits if_splits)
qed

text \<open>
  C8, failing input. The record set \<^verbatim>\<open>www\<close> holds the single A record \<^verbatim>\<open>4.3.2.1\<close> and
  the record \<^verbatim>\<open>1.2.3.4\<close> is to be removed. The two addresses differ as strings, so no
  stored record matches in the sense of the claim; but \<^verbatim>\<open>lists_match\<close> is applied to the
  two strings and compares their characters as multisets, the filter matches, the
  stored record is dropped and the record set is deleted. A record that is not a
  rearrangement of the stored one raises the \<^verbatim>\<open>CLIError\<close>.
\<close>

theorem remove_dns_a_record_rearranged_address:
  "remove_dns_a_record sentinel record_str
     ((RecordSet ''www'' ''Microsoft.Network/dnszones/A'' (PInt 3600))
        \<lparr> arecords := RList [Some (ARecord (PStr ''4.3.2.1''))] \<rparr>)
     ''www'' (PStr ''1.2.3.4'') False
   = Inr (Delete ''www'' ''a'')
   \<and> py_str (PStr ''1.2.3.4'') \<noteq> py_str (PStr ''4.3.2.1'')
   \<and> lists_match (PStr ''1.2.3.4'') (PStr ''4.3.2.1'')
   \<and> remove_dns_a_record sentinel record_str
     ((RecordSet ''www'' ''Microsoft.Network/dnszones/A'' (PInt 3600))
        \<lparr> arecords := RList [Some (ARecord (PStr ''4.3.2.1''))] \<rparr>)
     ''www'' (PStr ''1.2.3.5'') False
   = Inl (CLIError (''Record '' @ record_str @ '' not found.''))"
proof -
  let ?rs = "(RecordSet ''www'' ''Microsoft.Network/dnszones/A'' (PInt 3600))
        \<lparr> arecords := RList [Some (ARecord (PStr ''4.3.2.1''))] \<rparr>"
  have p: "type_to_property_name ''a'' = Inr ''arecords''"
    by code_simp
  have g: "getattr_record_set ?rs ''arecords'' = RList [Some (ARecord (PStr ''4.3.2.1''))]"
    by (simp add: getattr_record_set_def RecordSet_def)
  have m: "lists_match (PStr ''1.2.3.4'') (PStr ''4.3.2.1'')"
    by (simp add: lists_match_def counter_def)
  have n: "\<not> lists_match (PStr ''1.2.3.5'') (PStr ''4.3.2.1'')"
    by (simp add: lists_match_def counter_def)
  have k1: "keep_records sentinel [Some (ARecord (PStr ''4.3.2.1''))] (ARecord (PStr ''1.2.3.4''))
              = Inr []"
    using m by (simp add: dict_matches_filter_def record_dict_def ARecord_def)
  have k2: "keep_records sentinel [Some (ARecord (PStr ''4.3.2.1''))] (ARecord (PStr ''1.2.3.5''))
              = Inr [Some (ARecord (PStr ''4.3.2.1''))]"
    using n by (simp add: dict_matches_filter_def record_dict_def ARecord_def)
  have r1: "remove_dns_a_record sentinel record_str ?rs ''www'' (PStr ''1.2.3.4'') False
              = Inr (Delete ''www'' ''a'')"
    unfolding remove_dns_a_record_def remove_record_list [OF p g k1] by simp
  have r2: "remove_dns_a_record sentinel record_str ?rs ''www'' (PStr ''1.2.3.5'') False
              = Inl (CLIError (''Record '' @ record_str @ '' not found.''))"
    unfolding remove_dns_a_record_def remove_record_list [OF p g k2] by simp
  from r1 r2 m show ?thesis
    by simp
qed

section \<open>Properties of the TXT chunking\<close>

lemma txt_chunk_loop_concat:
  "concat (txt_chunk_loop t acc) = concat acc @ t"
proof (induction t acc rule: txt_chunk_loop.induct)
  case (1 long_text record_value)
  show ?case
  proof (cases "length long_text > 255")
    case True
    with 1 show ?thesis
      by (subst txt_chunk_loop.simps) simp
  next
    case False
    then show ?thesis
      by (subst txt_chunk_loop.simps) simp
  qed
qed

lemma txt_chunk_loop_nonempty: "txt_chunk_loop t acc \<noteq> []"
  by (induction t acc rule: txt_chunk_loop.induct) (subst txt_chunk_loop.simps, simp)

lemma txt_chunk_loop_last: "length (last (txt_chunk_loop t acc)) \<le> 255"
proof (induction t acc rule: txt_chunk_loop.induct)
  case (1 long_text record_value)
  show ?case
  proof (cases "length long_text > 255")
    case True
    with 1 show ?thesis
      by (subst txt_chunk_loop.simps) simp
  next
    case False
    then show ?thesis
      by (subst txt_chunk_loop.simps) simp
  qed
qed

lemma txt_chunk_loop_butlast:
  "list_all (\<lambda>c. length c = 255) acc \<Longrightarrow>
   list_all (\<lambda>c. length c = 255) (butlast (txt_chunk_loop t acc))"
proof (induction t acc rule: txt_chunk_loop.induct)
  case (1 long_text record_value)
  show ?case
  proof (cases "length long_text > 255")
    case True
    with 1 show ?thesis
      by (subst txt_chunk_loop.simps) simp
  next
    case False
    with 1(2) show ?thesis
      by (subst txt_chunk_loop.simps) simp
  qed
qed

text \<open>
  C9. For every list of strings given as the record value, \<^verbatim>\<open>add_dns_txt_record\<close>
  passes the length assertion and saves a non-empty list of chunks whose concatenation
  is the backslash-stripped concatenation of the input, every chunk but the last being
  exactly 255 characters long and the last one at most 255.
\<close>

theorem add_dns_txt_record_chunks:
  "\<exists>chunks. add_dns_txt_record v = Inr chunks
     \<and> chunks \<noteq> []
     \<and> concat chunks = remove_backslashes (concat v)
     \<and> (\<forall>c \<in> set (butlast chunks). length c = 255)
     \<and> length (last chunks) \<le> 255"
proof -
  let ?t = "remove_backslashes (concat v)"
  let ?cs = "txt_chunk_loop ?t []"
  have c: "concat ?cs = ?t"
    by (simp add: txt_chunk_loop_concat)
  then have r: "add_dns_txt_record v = Inr ?cs"
    by (simp add: add_dns_txt_record_def Let_def)
  have b: "list_all (\<lambda>c. length c = 255) (butlast ?cs)"
    by (rule txt_chunk_loop_butlast) simp
  then have "\<forall>c \<in> set (butlast ?cs). length c = 255"
    by (simp add: list_all_iff)
  with r c txt_chunk_loop_nonempty [of ?t "[]"] txt_chunk_loop_last [of ?t "[]"]
  show ?thesis by blast
qed

theorem add_dns_txt_record_chunks_witness:
  "\<exists>chunks. add_dns_txt_record [replicate 300 (CHR ''a''), [CHR 0x5C, CHR ''b'']] = Inr chunks
     \<and> chunks = [replicate 255 (CHR ''a''), replicate 45 (CHR ''a'') @ ''b'']
     \<and> concat chunks
         = remove_backslashes (concat [replicate 300 (CHR ''a''), [CHR 0x5C, CHR ''b'']])
     \<and> list_all (\<lambda>c. length c = 255) (butlast chunks)
     \<and> length (last chunks) \<le> 255"
proof -
  have e: "add_dns_txt_record [replicate 300 (CHR ''a''), [CHR 0x5C, CHR ''b'']]
             = Inr [replicate 255 (CHR ''a''), replicate 45 (CHR ''a'') @ ''b'']"
    by code_simp
  from add_dns_txt_record_chunks [of "[replicate 300 (CHR ''a''), [CHR 0x5C, CHR ''b'']]"] e
  show ?thesis
    by (auto simp: list_all_iff)
qed

end
